theory Spec2Isabelle
  imports Complex_Main "HOL-Library.Word"
begin

unbundle bit_operations_syntax

text \<open>
  A shallow embedding of the poly-trader worker: the signed \<^verbatim>\<open>POST /trade\<close> pipeline
  of \<^verbatim>\<open>src/worker.js\<close> and of its near-duplicate \<^verbatim>\<open>src/unnamed/part_000\<close> (the
  build against the browser bundle of the exchange client, whose definitions carry the
  suffix \<open>_browser\<close> here, and whose \<^verbatim>\<open>j\<close> is the other file's \<^verbatim>\<open>json\<close>).

  What the model fixes:
  \<^item> Numbers are IEEE 754 doubles: a finite number is the rational it denotes, beside
    the two infinities and NaN, and every result of \<^verbatim>\<open>+\<close>, \<^verbatim>\<open>*\<close> and \<^verbatim>\<open>/\<close> is rounded to
    the nearest double, ties to even, with overflow to an infinity (\<open>round_double\<close>); a
    decimal literal is the double nearest to it (\<^verbatim>\<open>0.01\<close> is \<open>round_double (1 / 100)\<close>).
    The sign of a zero is not kept: the only divisor of the program is a result of
    \<^verbatim>\<open>clamp01\<close>, whose \<^verbatim>\<open>Math.max(0, _)\<close> yields the positive zero, and \<^verbatim>\<open>JSON.stringify\<close>
    writes both zeros \<^verbatim>\<open>0\<close>.
  \<^item> Strings are lists of 8-bit code units (\<open>string\<close>), the Latin-1 range of the
    engine's 16-bit code units.
  \<^item> Objects are association lists with distinct keys, as \<^verbatim>\<open>JSON.parse\<close> builds them.
  \<^item> An exception is a value \<open>Exn message\<close>; a function that can throw returns
    \<open>exn + 'a\<close>, with \<open>Inl\<close> the exception.
  \<^item> The calls to the collaborators (the metadata service and the exchange client) are
    logged, in order, in a list returned beside the result.
  \<^item> The primitives of the engine that the repository only calls (HMAC-SHA256,
    \<^verbatim>\<open>JSON.parse\<close>, the conversions between strings and numbers, \<^verbatim>\<open>encodeURIComponent\<close>,
    the clock) and the collaborators are parameters.
\<close>

section \<open>Numbers\<close>

datatype number = Fin rat | PosInf | NegInf | NaN

fun isFinite :: "number \<Rightarrow> bool" where
  "isFinite (Fin x) = True"
| "isFinite PosInf = False"
| "isFinite NegInf = False"
| "isFinite NaN = False"

definition signed_inf :: "bool \<Rightarrow> number" where
  "signed_inf negative = (if negative then NegInf else PosInf)"

text \<open>Rounding of a rational to the nearest double, ties to even (IEEE 754 binary64,
  the only rounding of the engine). The number of binary digits of a positive integer:\<close>

function bit_length :: "int \<Rightarrow> int" where
  "bit_length n = (if n \<le> 0 then 0 else 1 + bit_length (n div 2))"
  by pat_completeness auto
termination
  by (relation "measure nat") auto

declare bit_length.simps [simp del]

definition pow2 :: "int \<Rightarrow> rat" where
  "pow2 e = (if 0 \<le> e then 2 ^ nat e else 1 / 2 ^ nat (- e))"

text \<open>The exponent \<open>e\<close> of a positive rational \<open>m\<close>: \<open>2 ^ e \<le> m < 2 ^ (e + 1)\<close>.\<close>

definition floor_log2 :: "rat \<Rightarrow> int" where
  "floor_log2 m =
     (if 1 \<le> m then bit_length \<lfloor>m\<rfloor> - 1 else - bit_length (\<lceil>1 / m\<rceil> - 1))"

definition round_half_even :: "rat \<Rightarrow> int" where
  "round_half_even x =
     (let n = \<lfloor>x\<rfloor>; d = x - of_int n
      in if d < 1 / 2 then n
         else if 1 / 2 < d then n + 1
         else if even n then n else n + 1)"

text \<open>A double has 53 significant bits and an exponent of at least -1022 (below it the
  subnormal numbers share the spacing \<open>2 ^ - 1074\<close>); a magnitude that rounds to
  \<open>2 ^ 1024\<close> overflows.\<close>

definition round_double :: "rat \<Rightarrow> number" where
  "round_double q =
     (if q = 0 then Fin 0
      else let m = \<bar>q\<bar>;
               e = max (floor_log2 m) (- 1022);
               ulp = pow2 (e - 52);
               r = of_int (round_half_even (m / ulp)) * ulp
           in if pow2 1024 \<le> r then signed_inf (q < 0)
              else Fin (if q < 0 then - r else r))"

text \<open>The numbers of the engine: a finite one is its own rounding.\<close>

fun is_double :: "number \<Rightarrow> bool" where
  "is_double (Fin q) = (round_double q = Fin q)"
| "is_double n = True"

text \<open>The engine's \<^verbatim>\<open>+\<close>, \<^verbatim>\<open>*\<close> and \<^verbatim>\<open>/\<close> on numbers: the exact result, rounded.\<close>

fun js_add :: "number \<Rightarrow> number \<Rightarrow> number" where
  "js_add (Fin a) (Fin b) = round_double (a + b)"
| "js_add NaN y = NaN"
| "js_add x NaN = NaN"
| "js_add PosInf NegInf = NaN"
| "js_add NegInf PosInf = NaN"
| "js_add PosInf y = PosInf"
| "js_add NegInf y = NegInf"
| "js_add (Fin a) PosInf = PosInf"
| "js_add (Fin a) NegInf = NegInf"

fun js_mul :: "number \<Rightarrow> number \<Rightarrow> number" where
  "js_mul (Fin a) (Fin b) = round_double (a * b)"
| "js_mul NaN y = NaN"
| "js_mul x NaN = NaN"
| "js_mul (Fin a) PosInf = (if a = 0 then NaN else signed_inf (a < 0))"
| "js_mul (Fin a) NegInf = (if a = 0 then NaN else signed_inf (0 < a))"
| "js_mul PosInf (Fin b) = (if b = 0 then NaN else signed_inf (b < 0))"
| "js_mul NegInf (Fin b) = (if b = 0 then NaN else signed_inf (0 < b))"
| "js_mul PosInf PosInf = PosInf"
| "js_mul PosInf NegInf = NegInf"
| "js_mul NegInf PosInf = NegInf"
| "js_mul NegInf NegInf = PosInf"

text \<open>A zero divisor is the positive zero: the only divisor of this program is a result
  of \<open>clamp01\<close>, whose \<^verbatim>\<open>Math.max(0, _)\<close> never yields the negative zero.\<close>

fun js_div :: "number \<Rightarrow> number \<Rightarrow> number" where
  "js_div (Fin a) (Fin b) =
     (if b = 0 then (if a = 0 then NaN else signed_inf (a < 0)) else round_double (a / b))"
| "js_div NaN y = NaN"
| "js_div x NaN = NaN"
| "js_div (Fin a) PosInf = Fin 0"
| "js_div (Fin a) NegInf = Fin 0"
| "js_div PosInf (Fin b) = signed_inf (b < 0)"
| "js_div NegInf (Fin b) = signed_inf (\<not> b < 0)"
| "js_div PosInf PosInf = NaN"
| "js_div PosInf NegInf = NaN"
| "js_div NegInf PosInf = NaN"
| "js_div NegInf NegInf = NaN"

fun Math_min :: "number \<Rightarrow> number \<Rightarrow> number" where
  "Math_min NaN y = NaN"
| "Math_min x NaN = NaN"
| "Math_min NegInf y = NegInf"
| "Math_min x NegInf = NegInf"
| "Math_min PosInf y = y"
| "Math_min x PosInf = x"
| "Math_min (Fin a) (Fin b) = Fin (min a b)"

fun Math_max :: "number \<Rightarrow> number \<Rightarrow> number" where
  "Math_max NaN y = NaN"
| "Math_max x NaN = NaN"
| "Math_max PosInf y = PosInf"
| "Math_max x PosInf = PosInf"
| "Math_max NegInf y = y"
| "Math_max x NegInf = x"
| "Math_max (Fin a) (Fin b) = Fin (max a b)"

section \<open>Strings\<close>

text \<open>\<^verbatim>\<open>String.prototype.toLowerCase\<close> on 8-bit code units: the letters A-Z and the
  Latin-1 capitals U+00C0-U+00DE (but the multiplication sign U+00D7) move up by 32.\<close>

definition toLowerCase_char :: "char \<Rightarrow> char" where
  "toLowerCase_char c =
     (let n = (of_char c :: nat)
      in if (65 \<le> n \<and> n \<le> 90) \<or> (192 \<le> n \<and> n \<le> 222 \<and> n \<noteq> 215)
         then char_of (n + 32) else c)"

definition toLowerCase :: "string \<Rightarrow> string" where
  "toLowerCase s = map toLowerCase_char s"

text \<open>The white space and line terminators that \<^verbatim>\<open>trim\<close> strips, among 8-bit code
  units: TAB, LF, VT, FF, CR, SPACE and NBSP.\<close>

definition is_space :: "char \<Rightarrow> bool" where
  "is_space c = ((of_char c :: nat) \<in> {9, 10, 11, 12, 13, 32, 160})"

definition trim :: "string \<Rightarrow> string" where
  "trim s = rev (dropWhile is_space (rev (dropWhile is_space s)))"

definition startsWith :: "string \<Rightarrow> string \<Rightarrow> bool" where
  "startsWith s p = (take (length p) s = p)"

definition slice :: "string \<Rightarrow> nat \<Rightarrow> string" where
  "slice s n = drop n s"

definition digit_char :: "nat \<Rightarrow> char" where
  "digit_char n = ''0123456789'' ! (n mod 10)"

text \<open>The decimal rendering of a non-negative integer inside a template literal
  (\<^verbatim>\<open>r.status\<close>, \<^verbatim>\<open>Date.now()\<close>).\<close>

function show_nat :: "nat \<Rightarrow> string" where
  "show_nat n =
     (if n < 10 then [digit_char n] else show_nat (n div 10) @ [digit_char (n mod 10)])"
  by pat_completeness auto
termination
  by (relation "measure id") auto

text \<open>\<^verbatim>\<open>b.toString(16).padStart(2, "0")\<close> for a byte \<open>b\<close>.\<close>

definition hex_digit :: "nat \<Rightarrow> char" where
  "hex_digit n = ''0123456789abcdef'' ! (n mod 16)"

definition hex_byte :: "8 word \<Rightarrow> string" where
  "hex_byte b = [hex_digit (unat b div 16), hex_digit (unat b mod 16)]"

text \<open>\<^verbatim>\<open>s.charCodeAt(i)\<close> as the 32-bit integer the bitwise operators see: out of
  range it is NaN, which they read as 0.\<close>

definition charCodeAt :: "string \<Rightarrow> nat \<Rightarrow> 32 word" where
  "charCodeAt s i = (if i < length s then of_nat (of_char (s ! i)) else 0)"

section \<open>Exceptions and the engine's primitives\<close>

datatype exn = Exn (message: string)

datatype jsval =
    JUndefined
  | JNull
  | JBool bool
  | JNum number
  | JStr string
  | JArr "jsval list"
  | JObj "(string \<times> jsval) list"

record runtime =
  hmac_sha256 :: "string \<Rightarrow> string \<Rightarrow> 8 word list"
  JSON_parse :: "string \<Rightarrow> exn + jsval"
  StringToNumber :: "string \<Rightarrow> number"
  NumberToString :: "number \<Rightarrow> string"
  encodeURIComponent :: "string \<Rightarrow> exn + string"
  Date_now :: nat

section \<open>Values\<close>

text \<open>\<^verbatim>\<open>!v\<close> is \<open>\<not> truthy v\<close>.\<close>

fun truthy :: "jsval \<Rightarrow> bool" where
  "truthy JUndefined = False"
| "truthy JNull = False"
| "truthy (JBool b) = b"
| "truthy (JNum n) = (n \<noteq> Fin 0 \<and> n \<noteq> NaN)"
| "truthy (JStr s) = (s \<noteq> [])"
| "truthy (JArr xs) = True"
| "truthy (JObj kvs) = True"

text \<open>\<^verbatim>\<open>v.k\<close> and the destructuring \<^verbatim>\<open>const { k } = v\<close> on a value that is neither
  null nor undefined, for the keys this program reads (\<^verbatim>\<open>conditionId\<close>,
  \<^verbatim>\<open>marketId\<close>, \<^verbatim>\<open>side\<close>, \<^verbatim>\<open>ask\<close>, \<^verbatim>\<open>amountUsd\<close>, \<^verbatim>\<open>slippage\<close>, \<^verbatim>\<open>outcomes\<close>,
  \<^verbatim>\<open>tokens\<close>, \<^verbatim>\<open>best_ask\<close>, \<^verbatim>\<open>token_id\<close>, \<^verbatim>\<open>tokenId\<close>, \<^verbatim>\<open>ok\<close>, \<^verbatim>\<open>priceFromBook\<close>): none
  of them is a property of a prototype, so only an object's own entry is found.\<close>

fun field :: "jsval \<Rightarrow> string \<Rightarrow> jsval" where
  "field (JObj kvs) k = (case map_of kvs k of Some v \<Rightarrow> v | None \<Rightarrow> JUndefined)"
| "field v k = JUndefined"

text \<open>\<^verbatim>\<open>v.k\<close> on any value: reading a property of null or undefined throws a TypeError,
  whose text quotes the key (\<open>CHR 0x27\<close> is the apostrophe).\<close>

definition get_prop :: "jsval \<Rightarrow> string \<Rightarrow> exn + jsval" where
  "get_prop v k =
     (if v = JNull
      then Inl (Exn (''Cannot read properties of null (reading '' @ [CHR 0x27] @ k
                     @ [CHR 0x27] @ '')''))
      else if v = JUndefined
      then Inl (Exn (''Cannot read properties of undefined (reading '' @ [CHR 0x27] @ k
                     @ [CHR 0x27] @ '')''))
      else Inr (field v k))"

text \<open>\<^verbatim>\<open>v?.k\<close>.\<close>

definition opt_field :: "jsval \<Rightarrow> string \<Rightarrow> jsval" where
  "opt_field v k = (if v = JNull \<or> v = JUndefined then JUndefined else field v k)"

text \<open>\<^verbatim>\<open>v?.[i]\<close> for an index \<open>i\<close>: an element of an array, the entry of an object under
  the decimal key, a character of a string.\<close>

fun opt_index :: "jsval \<Rightarrow> nat \<Rightarrow> jsval" where
  "opt_index (JArr xs) i = (if i < length xs then xs ! i else JUndefined)"
| "opt_index (JObj kvs) i = (case map_of kvs (show_nat i) of Some v \<Rightarrow> v | None \<Rightarrow> JUndefined)"
| "opt_index (JStr s) i = (if i < length s then JStr [s ! i] else JUndefined)"
| "opt_index v i = JUndefined"

fun join_comma :: "string list \<Rightarrow> string" where
  "join_comma [] = []"
| "join_comma [s] = s"
| "join_comma (s # t # ss) = s @ '','' @ join_comma (t # ss)"

text \<open>\<^verbatim>\<open>String(v)\<close>. An array is its elements joined by commas, null and undefined
  elements as the empty string. An object of \<^verbatim>\<open>JSON.parse\<close> is \<^verbatim>\<open>[object Object]\<close>, unless
  it has an entry \<^verbatim>\<open>toString\<close> of its own: that entry is not callable, it hides the
  inherited method, and the conversion throws a TypeError.\<close>

fun ToString :: "runtime \<Rightarrow> jsval \<Rightarrow> exn + string"
  and ToString_elements :: "runtime \<Rightarrow> jsval list \<Rightarrow> exn + string list" where
  "ToString rt JUndefined = Inr ''undefined''"
| "ToString rt JNull = Inr ''null''"
| "ToString rt (JBool b) = Inr (if b then ''true'' else ''false'')"
| "ToString rt (JNum n) = Inr (NumberToString rt n)"
| "ToString rt (JStr s) = Inr s"
| "ToString rt (JArr xs) =
     (case ToString_elements rt xs of Inl e \<Rightarrow> Inl e | Inr ss \<Rightarrow> Inr (join_comma ss))"
| "ToString rt (JObj kvs) =
     (if ''toString'' \<in> set (map fst kvs)
      then Inl (Exn ''Cannot convert object to primitive value'')
      else Inr ''[object Object]'')"
| "ToString_elements rt [] = Inr []"
| "ToString_elements rt (x # xs) =
     (case (if x = JNull \<or> x = JUndefined then Inr [] else ToString rt x) of
        Inl e \<Rightarrow> Inl e
      | Inr s \<Rightarrow>
          (case ToString_elements rt xs of Inl e \<Rightarrow> Inl e | Inr ss \<Rightarrow> Inr (s # ss)))"

text \<open>\<^verbatim>\<open>Number(v)\<close>, and the conversion of an operand of \<^verbatim>\<open>/\<close>.\<close>

fun ToNumber :: "runtime \<Rightarrow> jsval \<Rightarrow> exn + number" where
  "ToNumber rt JUndefined = Inr NaN"
| "ToNumber rt JNull = Inr (Fin 0)"
| "ToNumber rt (JBool b) = Inr (Fin (if b then 1 else 0))"
| "ToNumber rt (JNum n) = Inr n"
| "ToNumber rt (JStr s) = Inr (StringToNumber rt s)"
| "ToNumber rt v =
     (case ToString rt v of Inl e \<Rightarrow> Inl e | Inr s \<Rightarrow> Inr (StringToNumber rt s))"

section \<open>Small helpers\<close>

text \<open>A response: its status and the value handed to \<^verbatim>\<open>JSON.stringify\<close> (an entry
  whose value is undefined is left out of the text, NaN and the infinities are written
  \<^verbatim>\<open>null\<close>), or a plain text.\<close>

datatype content = JsonBody jsval | TextBody string

record response =
  status :: nat
  body :: content

text \<open>\<^verbatim>\<open>json\<close> (worker.js, lines 8-13) and \<^verbatim>\<open>j\<close> (part_000, line 132).\<close>

definition json :: "jsval \<Rightarrow> nat \<Rightarrow> response" where
  "json data st = \<lparr>status = st, body = JsonBody data\<rparr>"

definition j :: "jsval \<Rightarrow> nat \<Rightarrow> response" where
  "j obj st = \<lparr>status = st, body = JsonBody obj\<rparr>"

text \<open>\<^verbatim>\<open>clamp01\<close> (worker.js, lines 14-18; part_000, line 131). Both call sites pass a
  number, on which the \<^verbatim>\<open>Number(x)\<close> of its first line is the identity.\<close>

definition clamp01 :: "number \<Rightarrow> number" where
  "clamp01 x = (if \<not> isFinite x then NaN else Math_max (Fin 0) (Math_min (Fin 1) x))"

definition clamp01_browser :: "number \<Rightarrow> number" where
  "clamp01_browser x =
     (if \<not> isFinite x then NaN else Math_max (Fin 0) (Math_min (Fin 1) x))"

section \<open>The collaborators\<close>

text \<open>The answer of the metadata service: \<^verbatim>\<open>r.status\<close>, and what \<^verbatim>\<open>r.json()\<close> gives
  or throws. \<^verbatim>\<open>r.ok\<close> is a status from 200 to 299.\<close>

record http_response =
  r_status :: nat
  r_json :: "exn + jsval"

definition r_ok :: "http_response \<Rightarrow> bool" where
  "r_ok r = (200 \<le> r_status r \<and> r_status r \<le> 299)"

record wallet =
  address :: string

record clob_client =
  client_host :: string
  client_chain :: number
  client_signer :: wallet

text \<open>What \<^verbatim>\<open>client.place\<close> returns: a value that \<^verbatim>\<open>JSON.stringify\<close> can write, or one
  on which it throws the given message (a BigInt, an object with a cycle).\<close>

datatype placed = Serialisable jsval | Unserialisable string

fun stringify_placed :: "placed \<Rightarrow> exn + jsval" where
  "stringify_placed (Serialisable v) = Inr v"
| "stringify_placed (Unserialisable msg) = Inl (Exn msg)"

text \<open>The global \<^verbatim>\<open>fetch\<close> (here \<open>http_fetch\<close>; \<open>worker_fetch\<close> below is the worker's
  exported \<^verbatim>\<open>fetch\<close> handler), the constructor of the signer, and the two methods of the
  exchange client. The constructor of the client only stores its arguments.\<close>

record collaborators =
  http_fetch :: "string \<Rightarrow> exn + http_response"
  Wallet :: "string option \<Rightarrow> exn + wallet"
  createOrDeriveApiKey :: "clob_client \<Rightarrow> string \<Rightarrow> exn + unit"
  place :: "clob_client \<Rightarrow> jsval \<Rightarrow> exn + placed"

datatype call =
    Fetch string
  | CreateOrDeriveApiKey clob_client string
  | Place clob_client jsval

record env =
  HUD_SHARED_SECRET :: "string option"
  POLY_HOST :: "string option"
  CHAIN_ID :: "string option"
  PRIVATE_KEY :: "string option"

text \<open>A request: the path of its URL, its method, \<^verbatim>\<open>headers.get("X-HUD-Signature")\<close>
  (\<open>None\<close> for null) and \<^verbatim>\<open>await request.text()\<close>.\<close>

record request =
  url_pathname :: string
  http_method :: string
  hud_signature :: "string option"
  raw_body :: string

section \<open>The authenticator\<close>

text \<open>\<^verbatim>\<open>timingSafeEqual\<close> (worker.js, lines 19-24). The loop carries the accumulator
  \<open>x\<close> and, beside it, the number of times its body has run.\<close>

function timingSafeEqual_loop ::
  "string \<Rightarrow> string \<Rightarrow> nat \<Rightarrow> 32 word \<times> nat \<Rightarrow> 32 word \<times> nat" where
  "timingSafeEqual_loop a b i (x, n) =
     (if i < length a
      then timingSafeEqual_loop a b (Suc i) (x OR (charCodeAt a i XOR charCodeAt b i), Suc n)
      else (x, n))"
  by pat_completeness auto
termination
  by (relation "measure (\<lambda>(a, b, i, s). length a - i)") auto

declare timingSafeEqual_loop.simps [simp del]

definition timingSafeEqual :: "string \<Rightarrow> string \<Rightarrow> bool" where
  "timingSafeEqual a b =
     (if length a \<noteq> length b then False
      else fst (timingSafeEqual_loop a b 0 (0, 0)) = 0)"

text \<open>The number of loop iterations of one call of \<open>timingSafeEqual\<close>.\<close>

definition timingSafeEqual_steps :: "string \<Rightarrow> string \<Rightarrow> nat" where
  "timingSafeEqual_steps a b =
     (if length a \<noteq> length b then 0
      else snd (timingSafeEqual_loop a b 0 (0, 0)))"

text \<open>\<^verbatim>\<open>verifyHmac\<close> (worker.js, lines 27-42). The secret is an environment binding,
  absent (\<open>None\<close>) when it is not configured.\<close>

definition verifyHmac :: "runtime \<Rightarrow> string option \<Rightarrow> string \<Rightarrow> string \<Rightarrow> bool" where
  "verifyHmac rt secret msg hexSig =
     (case secret of
        None \<Rightarrow> False
      | Some k \<Rightarrow>
          if k = [] then False
          else let sigBuf = hmac_sha256 rt k msg;
                   calcHex = concat (map hex_byte sigBuf)
               in timingSafeEqual calcHex (toLowerCase hexSig))"

text \<open>The same two functions of part_000 (lines 119-130).\<close>

function timingSafeEqual_browser_loop ::
  "string \<Rightarrow> string \<Rightarrow> nat \<Rightarrow> 32 word \<times> nat \<Rightarrow> 32 word \<times> nat" where
  "timingSafeEqual_browser_loop a b i (x, n) =
     (if i < length a
      then timingSafeEqual_browser_loop a b (Suc i)
             (x OR (charCodeAt a i XOR charCodeAt b i), Suc n)
      else (x, n))"
  by pat_completeness auto
termination
  by (relation "measure (\<lambda>(a, b, i, s). length a - i)") auto

declare timingSafeEqual_browser_loop.simps [simp del]

definition timingSafeEqual_browser :: "string \<Rightarrow> string \<Rightarrow> bool" where
  "timingSafeEqual_browser a b =
     (if length a \<noteq> length b then False
      else fst (timingSafeEqual_browser_loop a b 0 (0, 0)) = 0)"

definition timingSafeEqual_browser_steps :: "string \<Rightarrow> string \<Rightarrow> nat" where
  "timingSafeEqual_browser_steps a b =
     (if length a \<noteq> length b then 0
      else snd (timingSafeEqual_browser_loop a b 0 (0, 0)))"

definition verifyHmac_browser ::
  "runtime \<Rightarrow> string option \<Rightarrow> string \<Rightarrow> string \<Rightarrow> bool" where
  "verifyHmac_browser rt secret msg hexSig =
     (case secret of
        None \<Rightarrow> False
      | Some k \<Rightarrow>
          if k = [] then False
          else let sigBuf = hmac_sha256 rt k msg;
                   calcHex = concat (map hex_byte sigBuf)
               in timingSafeEqual_browser calcHex (toLowerCase hexSig))"

section \<open>The market resolver\<close>

text \<open>\<^verbatim>\<open>xs.findIndex((o) => wantNames.includes(String(o).trim()))\<close>, counting from \<open>i\<close>;
  \<open>None\<close> is the \<^verbatim>\<open>-1\<close> of no match. The callback is the same text in both files.\<close>

fun findIndex_wanted :: "runtime \<Rightarrow> string list \<Rightarrow> jsval list \<Rightarrow> nat \<Rightarrow> exn + nat option" where
  "findIndex_wanted rt wantNames [] i = Inr None"
| "findIndex_wanted rt wantNames (x # xs) i =
     (case ToString rt x of
        Inl e \<Rightarrow> Inl e
      | Inr s \<Rightarrow>
          if trim s \<in> set wantNames then Inr (Some i)
          else findIndex_wanted rt wantNames xs (Suc i))"

text \<open>\<^verbatim>\<open>(m.outcomes || []).findIndex(...)\<close>: only an array has the method.\<close>

definition outcomes_findIndex :: "runtime \<Rightarrow> string list \<Rightarrow> jsval \<Rightarrow> exn + nat option" where
  "outcomes_findIndex rt wantNames outcomes =
     (case (if truthy outcomes then outcomes else JArr []) of
        JArr xs \<Rightarrow> findIndex_wanted rt wantNames xs 0
      | _ \<Rightarrow> Inl (Exn ''(m.outcomes || []).findIndex is not a function''))"

text \<open>\<^verbatim>\<open>encodeURIComponent(v)\<close> converts its argument to a string first.\<close>

definition encodeURIComponent_of :: "runtime \<Rightarrow> jsval \<Rightarrow> exn + string" where
  "encodeURIComponent_of rt v =
     (case ToString rt v of Inl e \<Rightarrow> Inl e | Inr s \<Rightarrow> encodeURIComponent rt s)"

subsection \<open>\<^verbatim>\<open>resolveTokenId\<close> of worker.js (lines 44-82)\<close>

text \<open>Lines 73-77: the advisory price of the book.\<close>

definition best_ask_price :: "runtime \<Rightarrow> jsval \<Rightarrow> nat \<Rightarrow> exn + jsval" where
  "best_ask_price rt m use =
     (case field m ''best_ask'' of
        JArr bs \<Rightarrow>
          if use < length bs \<and> bs ! use \<noteq> JNull \<and> bs ! use \<noteq> JUndefined
          then (case ToNumber rt (bs ! use) of
                  Inl e \<Rightarrow> Inl e
                | Inr v \<Rightarrow> Inr (if isFinite v then JNum (clamp01 v) else JUndefined))
          else Inr JUndefined
      | _ \<Rightarrow> Inr JUndefined)"

text \<open>Lines 66-78: from the first descriptor \<open>m\<close> to the result.\<close>

definition resolveTokenId_market :: "runtime \<Rightarrow> jsval \<Rightarrow> jsval \<Rightarrow> exn + jsval" where
  "resolveTokenId_market rt side m =
     (let wantNames =
            (if side = JStr ''YES'' then [''Up'', ''Yes'', ''YES'']
             else [''Down'', ''No'', ''NO''])
      in case get_prop m ''outcomes'' of
           Inl e \<Rightarrow> Inl e
         | Inr outcomes \<Rightarrow>
             (case outcomes_findIndex rt wantNames outcomes of
                Inl e \<Rightarrow> Inl e
              | Inr idx \<Rightarrow>
                  let use = (case idx of
                               Some i \<Rightarrow> i
                             | None \<Rightarrow> if side = JStr ''YES'' then 0 else 1);
                      tokenId =
                        (if truthy (opt_field (opt_index (field m ''tokens'') use) ''token_id'')
                         then opt_field (opt_index (field m ''tokens'') use) ''token_id''
                         else opt_field (opt_index (field m ''tokens'') use) ''tokenId'')
                  in if \<not> truthy tokenId
                     then Inr (JObj [(''ok'', JBool False), (''error'', JStr ''Missing tokenId'')])
                     else (case best_ask_price rt m use of
                             Inl e \<Rightarrow> Inl e
                           | Inr priceFromBook \<Rightarrow>
                               Inr (JObj [(''ok'', JBool True), (''tokenId'', tokenId),
                                          (''priceFromBook'', priceFromBook)]))))"

text \<open>Lines 60-64: from the answer of the metadata service to its first descriptor.\<close>

definition resolveTokenId_response :: "runtime \<Rightarrow> jsval \<Rightarrow> http_response \<Rightarrow> exn + jsval" where
  "resolveTokenId_response rt side r =
     (if \<not> r_ok r
      then Inr (JObj [(''ok'', JBool False),
                      (''error'', JStr (''Gamma API '' @ show_nat (r_status r)))])
      else case r_json r of
             Inl e \<Rightarrow> Inl e
           | Inr arr \<Rightarrow>
               (case arr of
                  JArr (m # rest) \<Rightarrow> resolveTokenId_market rt side m
                | _ \<Rightarrow> Inr (JObj [(''ok'', JBool False), (''error'', JStr ''No market found'')])))"

text \<open>Lines 46-78: the body of the \<^verbatim>\<open>try\<close> block.\<close>

definition resolveTokenId_try ::
  "runtime \<Rightarrow> collaborators \<Rightarrow> jsval \<Rightarrow> jsval \<Rightarrow> jsval \<Rightarrow> (exn + jsval) \<times> call list" where
  "resolveTokenId_try rt ext conditionId marketId side =
     (if \<not> truthy conditionId \<and> \<not> truthy marketId
      then (Inr (JObj [(''ok'', JBool False),
                       (''error'', JStr ''No conditionId/marketId to resolve tokenId'')]), [])
      else
        case (if truthy conditionId
              then (case encodeURIComponent_of rt conditionId of
                      Inl e \<Rightarrow> Inl e
                    | Inr c \<Rightarrow>
                        Inr (''https://gamma-api.polymarket.com/markets?limit=50&active=true&condition_ids='' @ c))
              else (case encodeURIComponent_of rt marketId of
                      Inl e \<Rightarrow> Inl e
                    | Inr c \<Rightarrow>
                        Inr (''https://gamma-api.polymarket.com/markets?limit=50&active=true&slug='' @ c))) of
          Inl e \<Rightarrow> (Inl e, [])
        | Inr url \<Rightarrow>
            (case http_fetch ext url of
               Inl e \<Rightarrow> (Inl e, [Fetch url])
             | Inr r \<Rightarrow> (resolveTokenId_response rt side r, [Fetch url])))"

text \<open>The whole function: the \<^verbatim>\<open>catch\<close> turns every exception into a result.\<close>

definition resolveTokenId ::
  "runtime \<Rightarrow> collaborators \<Rightarrow> jsval \<Rightarrow> jsval \<Rightarrow> jsval \<Rightarrow> jsval \<times> call list" where
  "resolveTokenId rt ext conditionId marketId side =
     (case resolveTokenId_try rt ext conditionId marketId side of
        (Inl e, calls) \<Rightarrow>
          (JObj [(''ok'', JBool False),
                 (''error'', JStr (''resolveTokenId error: '' @ message e))], calls)
      | (Inr res, calls) \<Rightarrow> (res, calls))"

subsection \<open>\<^verbatim>\<open>resolveTokenId\<close> of part_000 (lines 85-116)\<close>

definition best_ask_price_browser :: "runtime \<Rightarrow> jsval \<Rightarrow> nat \<Rightarrow> exn + jsval" where
  "best_ask_price_browser rt m use =
     (case field m ''best_ask'' of
        JArr bs \<Rightarrow>
          if use < length bs \<and> bs ! use \<noteq> JNull \<and> bs ! use \<noteq> JUndefined
          then (case ToNumber rt (bs ! use) of
                  Inl e \<Rightarrow> Inl e
                | Inr v \<Rightarrow> Inr (if isFinite v then JNum (clamp01_browser v) else JUndefined))
          else Inr JUndefined
      | _ \<Rightarrow> Inr JUndefined)"

definition resolveTokenId_market_browser :: "runtime \<Rightarrow> jsval \<Rightarrow> jsval \<Rightarrow> exn + jsval" where
  "resolveTokenId_market_browser rt side m =
     (let wantNames =
            (if side = JStr ''YES'' then [''Up'', ''Yes'', ''YES'']
             else [''Down'', ''No'', ''NO''])
      in case get_prop m ''outcomes'' of
           Inl e \<Rightarrow> Inl e
         | Inr outcomes \<Rightarrow>
             (case outcomes_findIndex rt wantNames outcomes of
                Inl e \<Rightarrow> Inl e
              | Inr idx \<Rightarrow>
                  let use = (case idx of
                               Some i \<Rightarrow> i
                             | None \<Rightarrow> (if side = JStr ''YES'' then 0 else 1));
                      tokenId =
                        (if truthy (opt_field (opt_index (field m ''tokens'') use) ''token_id'')
                         then opt_field (opt_index (field m ''tokens'') use) ''token_id''
                         else opt_field (opt_index (field m ''tokens'') use) ''tokenId'')
                  in if \<not> truthy tokenId
                     then Inr (JObj [(''ok'', JBool False), (''error'', JStr ''Missing tokenId'')])
                     else (case best_ask_price_browser rt m use of
                             Inl e \<Rightarrow> Inl e
                           | Inr priceFromBook \<Rightarrow>
                               Inr (JObj [(''ok'', JBool True), (''tokenId'', tokenId),
                                          (''priceFromBook'', priceFromBook)]))))"

definition resolveTokenId_response_browser ::
  "runtime \<Rightarrow> jsval \<Rightarrow> http_response \<Rightarrow> exn + jsval" where
  "resolveTokenId_response_browser rt side r =
     (if \<not> r_ok r
      then Inr (JObj [(''ok'', JBool False),
                      (''error'', JStr (''Gamma API '' @ show_nat (r_status r)))])
      else case r_json r of
             Inl e \<Rightarrow> Inl e
           | Inr arr \<Rightarrow>
               (case arr of
                  JArr (m # rest) \<Rightarrow> resolveTokenId_market_browser rt side m
                | _ \<Rightarrow> Inr (JObj [(''ok'', JBool False), (''error'', JStr ''No market found'')])))"

definition resolveTokenId_try_browser ::
  "runtime \<Rightarrow> collaborators \<Rightarrow> jsval \<Rightarrow> jsval \<Rightarrow> jsval \<Rightarrow> (exn + jsval) \<times> call list" where
  "resolveTokenId_try_browser rt ext conditionId marketId side =
     (if \<not> truthy conditionId \<and> \<not> truthy marketId
      then (Inr (JObj [(''ok'', JBool False),
                       (''error'', JStr ''No conditionId/marketId to resolve tokenId'')]), [])
      else
        case (if truthy conditionId
              then (case encodeURIComponent_of rt conditionId of
                      Inl e \<Rightarrow> Inl e
                    | Inr c \<Rightarrow>
                        Inr (''https://gamma-api.polymarket.com/markets?limit=50&active=true&condition_ids='' @ c))
              else (case encodeURIComponent_of rt marketId of
                      Inl e \<Rightarrow> Inl e
                    | Inr c \<Rightarrow>
                        Inr (''https://gamma-api.polymarket.com/markets?limit=50&active=true&slug='' @ c))) of
          Inl e \<Rightarrow> (Inl e, [])
        | Inr url \<Rightarrow>
            (case http_fetch ext url of
               Inl e \<Rightarrow> (Inl e, [Fetch url])
             | Inr r \<Rightarrow> (resolveTokenId_response_browser rt side r, [Fetch url])))"

definition resolveTokenId_browser ::
  "runtime \<Rightarrow> collaborators \<Rightarrow> jsval \<Rightarrow> jsval \<Rightarrow> jsval \<Rightarrow> jsval \<times> call list" where
  "resolveTokenId_browser rt ext conditionId marketId side =
     (case resolveTokenId_try_browser rt ext conditionId marketId side of
        (Inl e, calls) \<Rightarrow>
          (JObj [(''ok'', JBool False),
                 (''error'', JStr (''resolveTokenId error: '' @ message e))], calls)
      | (Inr res, calls) \<Rightarrow> (res, calls))"

section \<open>The request handler\<close>

subsection \<open>\<^verbatim>\<open>handleTrade\<close> of worker.js (lines 84-149)\<close>

text \<open>Lines 114-148: the order fields, the client, the credential and the submission.
  The success response is built inside the \<^verbatim>\<open>try\<close> block, so an acknowledgement that
  \<^verbatim>\<open>JSON.stringify\<close> cannot write is caught there as well.\<close>

definition handleTrade_order ::
  "runtime \<Rightarrow> env \<Rightarrow> collaborators \<Rightarrow> jsval \<Rightarrow> jsval \<Rightarrow> jsval \<Rightarrow> jsval \<Rightarrow> jsval \<Rightarrow> jsval
     \<Rightarrow> (exn + response) \<times> call list" where
  "handleTrade_order rt env ext side ask amountUsd slippage tokenId priceFromBook =
     (case ToNumber rt ask of
        Inl e \<Rightarrow> (Inl e, [])
      | Inr a \<Rightarrow>
     (case ToNumber rt (if truthy slippage then slippage else JNum (Fin 0)) of
        Inl e \<Rightarrow> (Inl e, [])
      | Inr s \<Rightarrow>
     (let price = clamp01 (js_mul a (js_add (Fin 1) s))
      in case ToNumber rt amountUsd of
        Inl e \<Rightarrow> (Inl e, [])
      | Inr u \<Rightarrow>
     (let shares = js_div u price;
          host = (case POLY_HOST env of
                    None \<Rightarrow> ''https://clob.polymarket.com''
                  | Some h \<Rightarrow> if h = [] then ''https://clob.polymarket.com'' else h);
          chain = (case CHAIN_ID env of
                     None \<Rightarrow> Fin 137
                   | Some c \<Rightarrow> if c = [] then Fin 137 else StringToNumber rt c)
      in case Wallet ext (PRIVATE_KEY env) of
        Inl e \<Rightarrow> (Inl e, [])
      | Inr signer \<Rightarrow>
     (let client = \<lparr>client_host = host, client_chain = chain, client_signer = signer\<rparr>;
          addr = toLowerCase (address signer)
      in case createOrDeriveApiKey ext client addr of
        Inl e \<Rightarrow> (Inl e, [CreateOrDeriveApiKey client addr])
      | Inr done \<Rightarrow>
     (let clobSide = (if side = JStr ''YES'' then Fin 0 else Fin 1);
          order = JObj [(''token_id'', tokenId), (''price'', JNum price),
                        (''size'', JNum shares), (''side'', JNum clobSide),
                        (''client_order_id'', JStr (''hud-'' @ show_nat (Date_now rt))),
                        (''time_in_force'', JStr ''IOC''), (''post_only'', JBool False)];
          calls = [CreateOrDeriveApiKey client addr, Place client order]
      in case (case place ext client order of
                 Inl e \<Rightarrow> Inl e
               | Inr placed \<Rightarrow>
                   (case stringify_placed placed of
                      Inl e \<Rightarrow> Inl e
                    | Inr ack \<Rightarrow>
                        Inr (json (JObj [(''ok'', JBool True), (''order'', ack),
                                         (''fills'', JObj [(''sharesBought'', JNum shares),
                                                           (''avgPrice'', JNum price),
                                                           (''costUsd'', JNum (js_mul shares price))]),
                                         (''meta'', JObj [(''tokenId'', tokenId),
                                                          (''priceFromBook'', priceFromBook)])])
                                  200))) of
           Inr resp \<Rightarrow> (Inr resp, calls)
         | Inl e \<Rightarrow>
             (Inr (json (JObj [(''ok'', JBool False),
                               (''error'', JStr (''place() failed: '' @ message e))])
                        502), calls)))))))"

text \<open>Lines 101-112: the fields of the payload, their validation and the resolution.
  Destructuring null throws.\<close>

definition handleTrade_payload ::
  "runtime \<Rightarrow> env \<Rightarrow> collaborators \<Rightarrow> jsval \<Rightarrow> (exn + response) \<times> call list" where
  "handleTrade_payload rt env ext payload =
     (if payload = JNull \<or> payload = JUndefined
      then (Inl (Exn (''Cannot destructure property '' @ [CHR 0x27] @ ''conditionId''
                      @ [CHR 0x27] @ '' of '' @ [CHR 0x27] @ ''payload'' @ [CHR 0x27]
                      @ '' as it is ''
                      @ (if payload = JNull then ''null'' else ''undefined'') @ ''.'')), [])
      else
     (let conditionId = field payload ''conditionId'';
          marketId = field payload ''marketId'';
          side = field payload ''side'';
          ask = field payload ''ask'';
          amountUsd = field payload ''amountUsd'';
          slippage = (if field payload ''slippage'' = JUndefined
                      then JNum (round_double (1 / 100))
                      else field payload ''slippage'')
      in if \<not> truthy side \<or> \<not> truthy amountUsd \<or> \<not> truthy ask
         then (Inr (json (JObj [(''ok'', JBool False),
                                (''error'', JStr ''Missing side/amountUsd/ask'')]) 400), [])
         else if side \<notin> set [JStr ''YES'', JStr ''NO'']
         then (Inr (json (JObj [(''ok'', JBool False),
                                (''error'', JStr ''side must be YES or NO'')]) 400), [])
         else
     (case resolveTokenId rt ext conditionId marketId side of
        (resolved, calls) \<Rightarrow>
          if \<not> truthy (field resolved ''ok'') then (Inr (json resolved 400), calls)
          else
     (let tokenId = field resolved ''tokenId'';
          priceFromBook = field resolved ''priceFromBook''
      in case handleTrade_order rt env ext side ask amountUsd slippage tokenId priceFromBook of
           (res, calls') \<Rightarrow> (res, calls @ calls')))))"

text \<open>Lines 84-99: the signature and the parsing of the body. A missing header and an
  empty one both leave \<^verbatim>\<open>sig\<close> empty.\<close>

definition handleTrade ::
  "runtime \<Rightarrow> env \<Rightarrow> collaborators \<Rightarrow> request \<Rightarrow> (exn + response) \<times> call list" where
  "handleTrade rt env ext request =
     (let sig = (case hud_signature request of None \<Rightarrow> [] | Some h \<Rightarrow> h)
      in if \<not> startsWith sig ''sha256=''
         then (Inr (json (JObj [(''ok'', JBool False),
                                (''error'', JStr ''Missing/invalid signature'')]) 401), [])
         else
     (let body = raw_body request
      in if \<not> verifyHmac rt (HUD_SHARED_SECRET env) body (slice sig 7)
         then (Inr (json (JObj [(''ok'', JBool False),
                                (''error'', JStr ''Signature mismatch'')]) 401), [])
         else
     (case JSON_parse rt body of
        Inl e \<Rightarrow>
          (Inr (json (JObj [(''ok'', JBool False), (''error'', JStr ''Bad JSON'')]) 400), [])
      | Inr payload \<Rightarrow> handleTrade_payload rt env ext payload)))"

text \<open>The exported \<^verbatim>\<open>fetch\<close> handler (lines 151-166): its \<^verbatim>\<open>catch\<close> answers 500.\<close>

definition worker_fetch ::
  "runtime \<Rightarrow> env \<Rightarrow> collaborators \<Rightarrow> request \<Rightarrow> response \<times> call list" where
  "worker_fetch rt env ext request =
     (case (if url_pathname request = ''/health''
            then (Inr (json (JObj [(''ok'', JBool True), (''name'', JStr ''poly-trader''),
                                   (''time'', JNum (Fin (of_nat (Date_now rt))))]) 200), [])
            else if url_pathname request = ''/trade'' \<and> http_method request = ''POST''
            then handleTrade rt env ext request
            else (Inr \<lparr>status = 404, body = TextBody ''Not found''\<rparr>, [])) of
        (Inr resp, calls) \<Rightarrow> (resp, calls)
      | (Inl e, calls) \<Rightarrow>
          (json (JObj [(''ok'', JBool False), (''error'', JStr (message e))]) 500, calls))"

subsection \<open>\<^verbatim>\<open>handleTrade\<close> of part_000 (lines 24-83)\<close>

text \<open>Lines 45-82. Here only \<^verbatim>\<open>client.place\<close> stands in the \<^verbatim>\<open>try\<close> block; the success
  response is built after it.\<close>

definition handleTrade_order_browser ::
  "runtime \<Rightarrow> env \<Rightarrow> collaborators \<Rightarrow> jsval \<Rightarrow> jsval \<Rightarrow> jsval \<Rightarrow> jsval \<Rightarrow> jsval \<Rightarrow> jsval
     \<Rightarrow> (exn + response) \<times> call list" where
  "handleTrade_order_browser rt env ext side ask amountUsd slippage tokenId priceFromBook =
     (case ToNumber rt ask of
        Inl e \<Rightarrow> (Inl e, [])
      | Inr a \<Rightarrow>
     (case ToNumber rt (if truthy slippage then slippage else JNum (Fin 0)) of
        Inl e \<Rightarrow> (Inl e, [])
      | Inr s \<Rightarrow>
     (let price = clamp01_browser (js_mul a (js_add (Fin 1) s))
      in case ToNumber rt amountUsd of
        Inl e \<Rightarrow> (Inl e, [])
      | Inr u \<Rightarrow>
     (let shares = js_div u price;
          host = (case POLY_HOST env of
                    None \<Rightarrow> ''https://clob.polymarket.com''
                  | Some h \<Rightarrow> if h = [] then ''https://clob.polymarket.com'' else h);
          chain = (case CHAIN_ID env of
                     None \<Rightarrow> Fin 137
                   | Some c \<Rightarrow> if c = [] then Fin 137 else StringToNumber rt c)
      in case Wallet ext (PRIVATE_KEY env) of
        Inl e \<Rightarrow> (Inl e, [])
      | Inr signer \<Rightarrow>
     (let client = \<lparr>client_host = host, client_chain = chain, client_signer = signer\<rparr>;
          addr = toLowerCase (address signer)
      in case createOrDeriveApiKey ext client addr of
        Inl e \<Rightarrow> (Inl e, [CreateOrDeriveApiKey client addr])
      | Inr done \<Rightarrow>
     (let clobSide = (if side = JStr ''YES'' then Fin 0 else Fin 1);
          order = JObj [(''token_id'', tokenId), (''price'', JNum price),
                        (''size'', JNum shares), (''side'', JNum clobSide),
                        (''client_order_id'', JStr (''hud-'' @ show_nat (Date_now rt))),
                        (''time_in_force'', JStr ''IOC''), (''post_only'', JBool False)];
          calls = [CreateOrDeriveApiKey client addr, Place client order]
      in case place ext client order of
           Inl e \<Rightarrow>
             (Inr (j (JObj [(''ok'', JBool False),
                            (''error'', JStr (''place() failed: '' @ message e))])
                     502), calls)
         | Inr placed \<Rightarrow>
             (case stringify_placed placed of
                Inl e \<Rightarrow> (Inl e, calls)
              | Inr ack \<Rightarrow>
                  (Inr (j (JObj [(''ok'', JBool True), (''order'', ack),
                                 (''fills'', JObj [(''sharesBought'', JNum shares),
                                                   (''avgPrice'', JNum price),
                                                   (''costUsd'', JNum (js_mul shares price))]),
                                 (''meta'', JObj [(''tokenId'', tokenId),
                                                  (''priceFromBook'', priceFromBook)])])
                          200), calls))))))))"

text \<open>Lines 36-43: the fields of the payload, their validation and the resolution.
  Destructuring null throws.\<close>

definition handleTrade_payload_browser ::
  "runtime \<Rightarrow> env \<Rightarrow> collaborators \<Rightarrow> jsval \<Rightarrow> (exn + response) \<times> call list" where
  "handleTrade_payload_browser rt env ext payload =
     (if payload = JNull \<or> payload = JUndefined
      then (Inl (Exn (''Cannot destructure property '' @ [CHR 0x27] @ ''conditionId''
                      @ [CHR 0x27] @ '' of '' @ [CHR 0x27] @ ''payload'' @ [CHR 0x27]
                      @ '' as it is ''
                      @ (if payload = JNull then ''null'' else ''undefined'') @ ''.'')), [])
      else
     (let conditionId = field payload ''conditionId'';
          marketId = field payload ''marketId'';
          side = field payload ''side'';
          ask = field payload ''ask'';
          amountUsd = field payload ''amountUsd'';
          slippage = (if field payload ''slippage'' = JUndefined
                      then JNum (round_double (1 / 100))
                      else field payload ''slippage'')
      in if \<not> truthy side \<or> \<not> truthy amountUsd \<or> \<not> truthy ask
         then (Inr (j (JObj [(''ok'', JBool False),
                                (''error'', JStr ''Missing side/amountUsd/ask'')]) 400), [])
         else if side \<notin> set [JStr ''YES'', JStr ''NO'']
         then (Inr (j (JObj [(''ok'', JBool False),
                                (''error'', JStr ''side must be YES or NO'')]) 400), [])
         else
     (case resolveTokenId_browser rt ext conditionId marketId side of
        (resolved, calls) \<Rightarrow>
          if \<not> truthy (field resolved ''ok'') then (Inr (j resolved 400), calls)
          else
     (let tokenId = field resolved ''tokenId'';
          priceFromBook = field resolved ''priceFromBook''
      in case handleTrade_order_browser rt env ext side ask amountUsd slippage tokenId
                priceFromBook of
           (res, calls') \<Rightarrow> (res, calls @ calls')))))"

text \<open>Lines 24-34: the signature and the parsing of the body. A missing header and an
  empty one both leave \<^verbatim>\<open>sig\<close> empty.\<close>

definition handleTrade_browser ::
  "runtime \<Rightarrow> env \<Rightarrow> collaborators \<Rightarrow> request \<Rightarrow> (exn + response) \<times> call list" where
  "handleTrade_browser rt env ext request =
     (let sig = (case hud_signature request of None \<Rightarrow> [] | Some h \<Rightarrow> h)
      in if \<not> startsWith sig ''sha256=''
         then (Inr (j (JObj [(''ok'', JBool False),
                                (''error'', JStr ''Missing/invalid signature'')]) 401), [])
         else
     (let body = raw_body request
      in if \<not> verifyHmac_browser rt (HUD_SHARED_SECRET env) body (slice sig 7)
         then (Inr (j (JObj [(''ok'', JBool False),
                                (''error'', JStr ''Signature mismatch'')]) 401), [])
         else
     (case JSON_parse rt body of
        Inl e \<Rightarrow>
          (Inr (j (JObj [(''ok'', JBool False), (''error'', JStr ''Bad JSON'')]) 400), [])
      | Inr payload \<Rightarrow> handleTrade_payload_browser rt env ext payload)))"

text \<open>The exported \<^verbatim>\<open>fetch\<close> handler (lines 7-22).\<close>

definition worker_fetch_browser ::
  "runtime \<Rightarrow> env \<Rightarrow> collaborators \<Rightarrow> request \<Rightarrow> response \<times> call list" where
  "worker_fetch_browser rt env ext request =
     (case (if url_pathname request = ''/health''
            then (Inr (j (JObj [(''ok'', JBool True), (''name'', JStr ''poly-trader''),
                                (''time'', JNum (Fin (of_nat (Date_now rt))))]) 200), [])
            else if url_pathname request = ''/trade'' \<and> http_method request = ''POST''
            then handleTrade_browser rt env ext request
            else (Inr \<lparr>status = 404, body = TextBody ''Not found''\<rparr>, [])) of
        (Inr resp, calls) \<Rightarrow> (resp, calls)
      | (Inl e, calls) \<Rightarrow>
          (j (JObj [(''ok'', JBool False), (''error'', JStr (message e))]) 500, calls))"

section \<open>The claims' notions\<close>

text \<open>The lowercase hexadecimal HMAC-SHA256 of a body under a secret.\<close>

definition hmac_hex :: "runtime \<Rightarrow> string \<Rightarrow> string \<Rightarrow> string" where
  "hmac_hex rt S B = concat (map hex_byte (hmac_sha256 rt S B))"

text \<open>The error envelope \<^verbatim>\<open>{ ok: false, error }\<close>.\<close>

definition error_body :: "string \<Rightarrow> jsval" where
  "error_body msg = JObj [(''ok'', JBool False), (''error'', JStr msg)]"

text \<open>The price of the claims, \<^verbatim>\<open>clamp01(ask * (1 + slippage))\<close>, for an ask \<open>a\<close> and a
  slippage \<open>s\<close>.\<close>

definition order_price :: "number \<Rightarrow> number \<Rightarrow> number" where
  "order_price a s = clamp01 (js_mul a (js_add (Fin 1) s))"

text \<open>The record \<^verbatim>\<open>{ sharesBought: shares, avgPrice: price, costUsd: shares * price }\<close>.\<close>

definition fills_record :: "number \<Rightarrow> number \<Rightarrow> jsval" where
  "fills_record shares price =
     JObj [(''sharesBought'', JNum shares), (''avgPrice'', JNum price),
           (''costUsd'', JNum (js_mul shares price))]"

text \<open>The success envelope \<^verbatim>\<open>{ ok: true, order, fills, meta }\<close>.\<close>

definition success_body :: "jsval \<Rightarrow> number \<Rightarrow> number \<Rightarrow> jsval \<Rightarrow> jsval \<Rightarrow> jsval" where
  "success_body ack shares price tokenId priceFromBook =
     JObj [(''ok'', JBool True), (''order'', ack), (''fills'', fills_record shares price),
           (''meta'', JObj [(''tokenId'', tokenId), (''priceFromBook'', priceFromBook)])]"

text \<open>The order record handed to the exchange client.\<close>

definition order_record :: "runtime \<Rightarrow> jsval \<Rightarrow> jsval \<Rightarrow> number \<Rightarrow> number \<Rightarrow> jsval" where
  "order_record rt side tokenId price shares =
     JObj [(''token_id'', tokenId), (''price'', JNum price), (''size'', JNum shares),
           (''side'', JNum (if side = JStr ''YES'' then Fin 0 else Fin 1)),
           (''client_order_id'', JStr (''hud-'' @ show_nat (Date_now rt))),
           (''time_in_force'', JStr ''IOC''), (''post_only'', JBool False)]"

text \<open>The exchange client the handler constructs for a signer.\<close>

definition client_of :: "runtime \<Rightarrow> env \<Rightarrow> wallet \<Rightarrow> clob_client" where
  "client_of rt env signer =
     \<lparr>client_host = (case POLY_HOST env of
                       None \<Rightarrow> ''https://clob.polymarket.com''
                     | Some h \<Rightarrow> if h = [] then ''https://clob.polymarket.com'' else h),
      client_chain = (case CHAIN_ID env of
                        None \<Rightarrow> Fin 137
                      | Some c \<Rightarrow> if c = [] then Fin 137 else StringToNumber rt c),
      client_signer = signer\<rparr>"

text \<open>The slippage of a payload after the default of the destructuring.\<close>

definition slippage_of :: "jsval \<Rightarrow> jsval" where
  "slippage_of payload =
     (if field payload ''slippage'' = JUndefined then JNum (round_double (1 / 100))
      else field payload ''slippage'')"

text \<open>A request that passes the signature check of the handler.\<close>

definition authenticated :: "runtime \<Rightarrow> env \<Rightarrow> request \<Rightarrow> bool" where
  "authenticated rt env request =
     (case hud_signature request of
        None \<Rightarrow> False
      | Some h \<Rightarrow>
          startsWith h ''sha256=''
          \<and> verifyHmac rt (HUD_SHARED_SECRET env) (raw_body request) (slice h 7))"

text \<open>A payload that passes the validation of the handler.\<close>

definition valid_payload :: "jsval \<Rightarrow> bool" where
  "valid_payload payload =
     (payload \<noteq> JNull \<and> payload \<noteq> JUndefined
      \<and> truthy (field payload ''side'') \<and> truthy (field payload ''amountUsd'')
      \<and> truthy (field payload ''ask'')
      \<and> field payload ''side'' \<in> set [JStr ''YES'', JStr ''NO''])"

text \<open>The kinds of logged calls.\<close>

fun is_fetch :: "call \<Rightarrow> bool" where
  "is_fetch (Fetch url) = True"
| "is_fetch c = False"

fun is_credential :: "call \<Rightarrow> bool" where
  "is_credential (CreateOrDeriveApiKey c addr) = True"
| "is_credential c = False"

fun is_place :: "call \<Rightarrow> bool" where
  "is_place (Place c ord) = True"
| "is_place c = False"


section \<open>Concrete inputs\<close>

text \<open>The examples below run the handlers on a few requests signed with the secret
  \<^verbatim>\<open>hud-secret\<close>. The primitives are tables: each holds the value of the real primitive
  at the arguments the examples reach (the digests are the HMAC-SHA256 values of the
  bodies; the entry under the key \<^verbatim>\<open>Jefe\<close> is test case 2 of RFC 4231).\<close>

definition secret0 :: string where
  "secret0 = ''hud-secret''"

definition body_trade :: string where
  \<open>body_trade = ''{"conditionId":"0xabc","side":"YES","ask":0.5,"amountUsd":100,"slippage":0.02}''\<close>

definition payload_trade :: jsval where
  "payload_trade =
     JObj [(''conditionId'', JStr ''0xabc''), (''side'', JStr ''YES''),
           (''ask'', JNum (Fin (1 / 2))), (''amountUsd'', JNum (Fin 100)),
           (''slippage'', JNum (round_double (1 / 50)))]"

definition digest_trade :: "8 word list" where
  "digest_trade =
     [0x2b, 0x94, 0xb3, 0x2e, 0x15, 0x22, 0x83, 0x30, 0x18, 0x6c, 0xd9, 0x73, 0x77, 0x11,
      0x38, 0x1a, 0x41, 0xb2, 0xc2, 0x12, 0x2a, 0x7f, 0x25, 0xdf, 0xf3, 0x82, 0xbd, 0xb4,
      0xd1, 0x0b, 0x94, 0x3a]"

definition body_slip0 :: string where
  \<open>body_slip0 = ''{"conditionId":"0xabc","side":"YES","ask":0.5,"amountUsd":100,"slippage":0}''\<close>

definition payload_slip0 :: jsval where
  "payload_slip0 =
     JObj [(''conditionId'', JStr ''0xabc''), (''side'', JStr ''YES''),
           (''ask'', JNum (Fin (1 / 2))), (''amountUsd'', JNum (Fin 100)),
           (''slippage'', JNum (Fin 0))]"

definition digest_slip0 :: "8 word list" where
  "digest_slip0 =
     [0xd7, 0xb9, 0x76, 0x8f, 0x69, 0x04, 0xc9, 0xc6, 0x4d, 0xbc, 0x88, 0x85, 0xc3, 0x05,
      0x17, 0xb2, 0xe8, 0x9e, 0x1d, 0xe4, 0xea, 0x97, 0xb1, 0x95, 0xe7, 0xf5, 0xc4, 0x8b,
      0x9a, 0x1a, 0x81, 0x32]"

definition body_noslip :: string where
  \<open>body_noslip = ''{"conditionId":"0xabc","side":"YES","ask":0.5,"amountUsd":100}''\<close>

definition payload_noslip :: jsval where
  "payload_noslip =
     JObj [(''conditionId'', JStr ''0xabc''), (''side'', JStr ''YES''),
           (''ask'', JNum (Fin (1 / 2))), (''amountUsd'', JNum (Fin 100))]"

definition digest_noslip :: "8 word list" where
  "digest_noslip =
     [0x89, 0x35, 0x1d, 0xa4, 0xf9, 0x27, 0xc4, 0x18, 0x61, 0xc5, 0x44, 0xc7, 0x97, 0x2d,
      0x98, 0x58, 0x3c, 0x2e, 0x80, 0xcf, 0x93, 0xf1, 0x6f, 0x2f, 0xd3, 0x0c, 0x51, 0xb0,
      0xd8, 0xd6, 0x4b, 0x03]"

definition body_maybe :: string where
  \<open>body_maybe = ''{"side":"MAYBE","ask":0.5}''\<close>

definition payload_maybe :: jsval where
  "payload_maybe = JObj [(''side'', JStr ''MAYBE''), (''ask'', JNum (Fin (1 / 2)))]"

definition digest_maybe :: "8 word list" where
  "digest_maybe =
     [0xc1, 0x52, 0x62, 0x89, 0xb6, 0x31, 0xf3, 0xfd, 0x4b, 0x45, 0x43, 0x56, 0x3b, 0x3b,
      0x67, 0x7c, 0x2f, 0x51, 0x5c, 0x96, 0xc2, 0x74, 0xa6, 0x7e, 0x22, 0x0b, 0xbf, 0x87,
      0x80, 0x7f, 0x52, 0x92]"

definition body_null :: string where
  "body_null = ''null''"

definition digest_null :: "8 word list" where
  "digest_null =
     [0xce, 0x45, 0x1f, 0xdb, 0x0e, 0xbb, 0x25, 0xa7, 0xe8, 0xc1, 0x87, 0xd2, 0x2e, 0x7d,
      0x61, 0x24, 0xb8, 0x6e, 0x0d, 0x9f, 0xf6, 0xe8, 0xd0, 0xb6, 0x3f, 0xb3, 0x56, 0x78,
      0x91, 0xf8, 0x94, 0x8c]"

definition body_amount0 :: string where
  \<open>body_amount0 = ''{"conditionId":"0xabc","side":"YES","ask":0.5,"amountUsd":0}''\<close>

definition payload_amount0 :: jsval where
  "payload_amount0 =
     JObj [(''conditionId'', JStr ''0xabc''), (''side'', JStr ''YES''),
           (''ask'', JNum (Fin (1 / 2))), (''amountUsd'', JNum (Fin 0))]"

definition digest_amount0 :: "8 word list" where
  "digest_amount0 =
     [0x21, 0xe9, 0x0a, 0x9c, 0x87, 0xbf, 0x93, 0x21, 0xff, 0x76, 0x42, 0x71, 0x6e, 0xd0,
      0x4a, 0x96, 0x2e, 0xc5, 0xd6, 0x05, 0x11, 0x5e, 0xc7, 0xe7, 0xcd, 0x7f, 0xf5, 0x60,
      0x7c, 0xfa, 0x05, 0x6c]"

definition body_side :: string where
  \<open>body_side = ''{"conditionId":"0xabc","side":"MAYBE","ask":0.5,"amountUsd":100}''\<close>

definition payload_side :: jsval where
  "payload_side =
     JObj [(''conditionId'', JStr ''0xabc''), (''side'', JStr ''MAYBE''),
           (''ask'', JNum (Fin (1 / 2))), (''amountUsd'', JNum (Fin 100))]"

definition digest_side :: "8 word list" where
  "digest_side =
     [0x6f, 0x9a, 0xe6, 0x0b, 0xe2, 0xe3, 0x35, 0x30, 0x40, 0xbb, 0x5d, 0x83, 0xe2,
      0xc6, 0x96, 0x96, 0xc4, 0xc7, 0xf1, 0xcf, 0x9a, 0x89, 0xa1, 0x02, 0x4a, 0x79,
      0x1b, 0x12, 0x29, 0xb0, 0xaf, 0x4e]"

definition body_zero :: string where
  \<open>body_zero = ''{"conditionId":"0xabc","side":"YES","ask":-1,"amountUsd":100,"slippage":0.01}''\<close>

definition payload_zero :: jsval where
  "payload_zero =
     JObj [(''conditionId'', JStr ''0xabc''), (''side'', JStr ''YES''),
           (''ask'', JNum (Fin (- 1))), (''amountUsd'', JNum (Fin 100)),
           (''slippage'', JNum (round_double (1 / 100)))]"

definition digest_zero :: "8 word list" where
  "digest_zero =
     [0x98, 0x4e, 0xcc, 0x13, 0x7a, 0x21, 0xfb, 0xce, 0x52, 0x3f, 0x23, 0x0d, 0xda,
      0x25, 0x65, 0x35, 0xfc, 0x75, 0xd3, 0x3f, 0xf0, 0xe4, 0xa5, 0x4f, 0x75, 0x82,
      0x8c, 0x20, 0x39, 0x09, 0x78, 0x96]"

definition body_inf :: string where
  \<open>body_inf = ''{"conditionId":"0xabc","side":"YES","ask":1e999,"amountUsd":100}''\<close>

text \<open>\<^verbatim>\<open>JSON.parse\<close> reads \<^verbatim>\<open>1e999\<close> as Infinity.\<close>

definition payload_inf :: jsval where
  "payload_inf =
     JObj [(''conditionId'', JStr ''0xabc''), (''side'', JStr ''YES''),
           (''ask'', JNum PosInf), (''amountUsd'', JNum (Fin 100))]"

definition digest_inf :: "8 word list" where
  "digest_inf =
     [0xdb, 0xe6, 0x4f, 0x0d, 0xed, 0x21, 0x27, 0x90, 0xc2, 0x5e, 0xd7, 0xa0, 0xe1, 0x99,
      0x5c, 0xc9, 0x9b, 0x4c, 0x0f, 0x7e, 0xe1, 0xab, 0xf2, 0xbe, 0x5a, 0xe9, 0x81, 0xc5,
      0x27, 0x42, 0x51, 0x52]"

definition body_cent :: string where
  \<open>body_cent = ''{"conditionId":"0xabc","side":"YES","ask":0.01,"amountUsd":1000}''\<close>

definition payload_cent :: jsval where
  "payload_cent =
     JObj [(''conditionId'', JStr ''0xabc''), (''side'', JStr ''YES''),
           (''ask'', JNum (round_double (1 / 100))), (''amountUsd'', JNum (Fin 1000))]"

definition digest_cent :: "8 word list" where
  "digest_cent =
     [0x9e, 0x0f, 0xe4, 0x57, 0xd6, 0x76, 0x4c, 0xca, 0x82, 0xd1, 0x75, 0x85, 0x32, 0x94,
      0xbd, 0x94, 0xc6, 0xf7, 0xff, 0xdf, 0x7f, 0x40, 0x8c, 0x83, 0x6f, 0x57, 0x05, 0xa1,
      0xe5, 0xac, 0x1a, 0xd4]"

definition digest_rfc4231 :: "8 word list" where
  "digest_rfc4231 =
     [0x5b, 0xdc, 0xc1, 0x46, 0xbf, 0x60, 0x75, 0x4e, 0x6a, 0x04, 0x24, 0x26, 0x08, 0x95,
      0x75, 0xc7, 0x5a, 0x00, 0x3f, 0x08, 0x9d, 0x27, 0x39, 0x83, 0x9d, 0xec, 0x58, 0xb9,
      0x64, 0xec, 0x38, 0x43]"

definition hmac_table :: "((string \<times> string) \<times> 8 word list) list" where
  "hmac_table =
     [((secret0, body_trade), digest_trade), ((secret0, body_slip0), digest_slip0),
      ((secret0, body_noslip), digest_noslip), ((secret0, body_maybe), digest_maybe),
      ((secret0, body_null), digest_null), ((secret0, body_amount0), digest_amount0),
      ((secret0, body_side), digest_side), ((secret0, body_zero), digest_zero),
      ((secret0, body_inf), digest_inf), ((secret0, body_cent), digest_cent),
      ((''Jefe'', ''what do ya want for nothing?''), digest_rfc4231)]"

definition json_table :: "(string \<times> jsval) list" where
  "json_table =
     [(body_trade, payload_trade), (body_slip0, payload_slip0),
      (body_noslip, payload_noslip), (body_maybe, payload_maybe),
      (body_null, JNull), (body_amount0, payload_amount0),
      (body_side, payload_side), (body_zero, payload_zero),
      (body_inf, payload_inf), (body_cent, payload_cent)]"

definition rt0 :: runtime where
  "rt0 =
     \<lparr>hmac_sha256 = (\<lambda>k m. case map_of hmac_table (k, m) of
                               Some d \<Rightarrow> d | None \<Rightarrow> replicate 32 0),
      JSON_parse = (\<lambda>s. case map_of json_table s of
                           Some v \<Rightarrow> Inr v | None \<Rightarrow> Inl (Exn ''Unexpected token'')),
      StringToNumber = (\<lambda>s. if s = ''137'' then Fin 137 else NaN),
      NumberToString = (\<lambda>n. if n = Fin 137 then ''137'' else ''NaN''),
      encodeURIComponent = (\<lambda>s. Inr s),
      Date_now = 1700000000000\<rparr>"

text \<open>The descriptor of the spec's example: outcomes Yes and No, tokens A and B; the
  lookup of the examples and its result for the side YES; the signer and the
  acknowledgement of the exchange.\<close>

definition lookup0 :: call where
  "lookup0 =
     Fetch ''https://gamma-api.polymarket.com/markets?limit=50&active=true&condition_ids=0xabc''"

definition resolved0 :: jsval where
  "resolved0 =
     JObj [(''ok'', JBool True), (''tokenId'', JStr ''A''),
           (''priceFromBook'', JNum (Fin (1 / 2)))]"

definition signer0 :: wallet where
  "signer0 = \<lparr>address = ''0xABCDEF''\<rparr>"

definition ack0 :: jsval where
  "ack0 = JObj [(''success'', JBool True)]"

definition market0 :: jsval where
  "market0 =
     JObj [(''outcomes'', JArr [JStr ''Yes'', JStr ''No'']),
           (''tokens'', JArr [JObj [(''token_id'', JStr ''A'')],
                              JObj [(''token_id'', JStr ''B'')]]),
           (''best_ask'', JArr [JNum (Fin (1 / 2)), JNum (Fin (1 / 2))])]"

definition ext0 :: collaborators where
  "ext0 =
     \<lparr>http_fetch = (\<lambda>url. Inr \<lparr>r_status = 200, r_json = Inr (JArr [market0])\<rparr>),
      Wallet = (\<lambda>k. Inr signer0),
      createOrDeriveApiKey = (\<lambda>c a. Inr ()),
      place = (\<lambda>c ord. Inr (Serialisable ack0))\<rparr>"

text \<open>An exchange client whose credential step throws, one whose \<^verbatim>\<open>place\<close> throws, and
  one whose \<^verbatim>\<open>place\<close> returns a BigInt.\<close>

definition ext_key_throws :: collaborators where
  "ext_key_throws = ext0\<lparr>createOrDeriveApiKey := (\<lambda>c a. Inl (Exn ''key service down''))\<rparr>"

definition ext_place_throws :: collaborators where
  "ext_place_throws = ext0\<lparr>place := (\<lambda>c ord. Inl (Exn ''order rejected''))\<rparr>"

definition ext_bigint :: collaborators where
  "ext_bigint =
     ext0\<lparr>place := (\<lambda>c ord. Inr (Unserialisable ''Do not know how to serialize a BigInt''))\<rparr>"

text \<open>A descriptor whose outcomes carry no recognisable name, with one token under each
  of the two field names.\<close>

definition market_unnamed :: jsval where
  "market_unnamed =
     JObj [(''outcomes'', JArr [JStr ''Alpha'', JStr ''Beta'']),
           (''tokens'', JArr [JObj [(''tokenId'', JStr ''T0'')],
                              JObj [(''token_id'', JStr ''T1'')]])]"

definition ext_unnamed :: collaborators where
  "ext_unnamed =
     ext0\<lparr>http_fetch := (\<lambda>url. Inr \<lparr>r_status = 200, r_json = Inr (JArr [market_unnamed])\<rparr>)\<rparr>"

definition env0 :: env where
  "env0 = \<lparr>HUD_SHARED_SECRET = Some secret0, POLY_HOST = None, CHAIN_ID = None,
           PRIVATE_KEY = Some ''0x01''\<rparr>"

text \<open>The client these runs construct.\<close>

definition client0 :: clob_client where
  "client0 = client_of rt0 env0 signer0"

definition req_trade :: request where
  "req_trade =
     \<lparr>url_pathname = ''/trade'', http_method = ''POST'',
      hud_signature =
        Some ''sha256=2b94b32e15228330186cd9737711381a41b2c2122a7f25dff382bdb4d10b943a'',
      raw_body = body_trade\<rparr>"

definition req_slip0 :: request where
  "req_slip0 =
     \<lparr>url_pathname = ''/trade'', http_method = ''POST'',
      hud_signature =
        Some ''sha256=d7b9768f6904c9c64dbc8885c30517b2e89e1de4ea97b195e7f5c48b9a1a8132'',
      raw_body = body_slip0\<rparr>"

definition req_noslip :: request where
  "req_noslip =
     \<lparr>url_pathname = ''/trade'', http_method = ''POST'',
      hud_signature =
        Some ''sha256=89351da4f927c41861c544c7972d98583c2e80cf93f16f2fd30c51b0d8d64b03'',
      raw_body = body_noslip\<rparr>"

definition req_maybe :: request where
  "req_maybe =
     \<lparr>url_pathname = ''/trade'', http_method = ''POST'',
      hud_signature =
        Some ''sha256=c1526289b631f3fd4b4543563b3b677c2f515c96c274a67e220bbf87807f5292'',
      raw_body = body_maybe\<rparr>"

definition req_null :: request where
  "req_null =
     \<lparr>url_pathname = ''/trade'', http_method = ''POST'',
      hud_signature =
        Some ''sha256=ce451fdb0ebb25a7e8c187d22e7d6124b86e0d9ff6e8d0b63fb3567891f8948c'',
      raw_body = body_null\<rparr>"

definition req_amount0 :: request where
  "req_amount0 =
     \<lparr>url_pathname = ''/trade'', http_method = ''POST'',
      hud_signature =
        Some ''sha256=21e90a9c87bf9321ff7642716ed04a962ec5d605115ec7e7cd7ff5607cfa056c'',
      raw_body = body_amount0\<rparr>"

definition req_side :: request where
  "req_side =
     \<lparr>url_pathname = ''/trade'', http_method = ''POST'',
      hud_signature =
        Some ''sha256=6f9ae60be2e3353040bb5d83e2c69696c4c7f1cf9a89a1024a791b1229b0af4e'',
      raw_body = body_side\<rparr>"

definition req_zero :: request where
  "req_zero =
     \<lparr>url_pathname = ''/trade'', http_method = ''POST'',
      hud_signature =
        Some ''sha256=984ecc137a21fbce523f230dda256535fc75d33ff0e4a54f75828c2039097896'',
      raw_body = body_zero\<rparr>"

definition req_inf :: request where
  "req_inf =
     \<lparr>url_pathname = ''/trade'', http_method = ''POST'',
      hud_signature =
        Some ''sha256=dbe64f0ded212790c25ed7a0e1995cc99b4c0f7ee1abf2be5ae981c527425152'',
      raw_body = body_inf\<rparr>"

definition req_cent :: request where
  "req_cent =
     \<lparr>url_pathname = ''/trade'', http_method = ''POST'',
      hud_signature =
        Some ''sha256=9e0fe457d6764cca82d175853294bd94c6f7ffdf7f408c836f5705a1e5ac1ad4'',
      raw_body = body_cent\<rparr>"

text \<open>A request whose signature is the digest of another body, one without the header
  and one whose header lacks the scheme tag.\<close>

definition req_unsigned :: request where
  "req_unsigned = req_trade\<lparr>hud_signature := None\<rparr>"

definition req_untagged :: request where
  "req_untagged =
     req_trade\<lparr>hud_signature :=
       Some ''2b94b32e15228330186cd9737711381a41b2c2122a7f25dff382bdb4d10b943a''\<rparr>"

definition req_forged :: request where
  "req_forged = req_trade\<lparr>raw_body := body_slip0\<rparr>"

section \<open>Properties of the authenticator\<close>

lemma charCodeAt_xor_eq_0:
  assumes "i < length a" and "i < length b"
  shows "(charCodeAt a i XOR charCodeAt b i = 0) = (a ! i = b ! i)"
proof -
  have lt: "(of_char c :: nat) < 2 ^ 32" for c
  proof -
    have "(of_char c :: nat) < 256"
      by (fact nat_of_char_less_256)
    also have "(256 :: nat) < 2 ^ 32"
      by simp
    finally show ?thesis .
  qed
  have inj: "((of_nat (of_char c) :: 32 word) = of_nat (of_char d)) = (c = d)" for c d
    using lt [of c] lt [of d] by (simp add: word_of_nat_eq_iff take_bit_nat_eq_self)
  have "(charCodeAt a i XOR charCodeAt b i = 0) = (charCodeAt a i = charCodeAt b i)"
    by (metis bit.xor_left_self word_bw_same(3))
  with assms inj show ?thesis
    by (simp add: charCodeAt_def)
qed

lemma timingSafeEqual_loop_result:
  "timingSafeEqual_loop a b i (x, n) =
     (if i \<le> length a
      then (foldl (OR) x (map (\<lambda>k. charCodeAt a k XOR charCodeAt b k) [i..<length a]),
            n + (length a - i))
      else (x, n))"
proof (induction "length a - i" arbitrary: i x n)
  case 0
  then show ?case
    by (subst timingSafeEqual_loop.simps) auto
next
  case (Suc d)
  then have lt: "i < length a"
    by simp
  then have "[i..<length a] = i # [Suc i..<length a]"
    by (simp add: upt_conv_Cons)
  moreover have "d = length a - Suc i"
    using Suc.hyps(2) by simp
  ultimately show ?case
    using lt Suc.hyps(1) [of "Suc i"]
    by (subst timingSafeEqual_loop.simps) simp
qed

lemma foldl_or_eq_0:
  "(foldl (OR) (x :: 32 word) ys = 0) = (x = 0 \<and> (\<forall>y \<in> set ys. y = 0))"
  by (induction ys arbitrary: x) (auto simp: or_eq_0_iff)

lemma timingSafeEqual_iff: "timingSafeEqual a b = (a = b)"
proof (cases "length a = length b")
  case False
  then show ?thesis
    by (auto simp: timingSafeEqual_def)
next
  case True
  have "(\<forall>k \<in> set [0..<length a]. charCodeAt a k XOR charCodeAt b k = 0)
          = (\<forall>k < length a. a ! k = b ! k)"
    using True by (auto simp: charCodeAt_xor_eq_0)
  also have "\<dots> = (a = b)"
    using True by (auto simp: list_eq_iff_nth_eq)
  finally show ?thesis
    using True by (simp add: timingSafeEqual_def timingSafeEqual_loop_result foldl_or_eq_0)
qed

lemma timingSafeEqual_steps_eq:
  "timingSafeEqual_steps a b = (if length a = length b then length a else 0)"
  by (simp add: timingSafeEqual_steps_def timingSafeEqual_loop_result)

lemma timingSafeEqual_browser_loop_eq:
  "timingSafeEqual_browser_loop a b i s = timingSafeEqual_loop a b i s"
proof (induction a b i s rule: timingSafeEqual_loop.induct)
  case (1 a b i x n)
  then show ?case
    by (subst timingSafeEqual_browser_loop.simps, subst timingSafeEqual_loop.simps) simp
qed

lemma timingSafeEqual_browser_eq: "timingSafeEqual_browser a b = timingSafeEqual a b"
  by (simp add: timingSafeEqual_browser_def timingSafeEqual_def timingSafeEqual_browser_loop_eq)

lemma timingSafeEqual_browser_steps_eq:
  "timingSafeEqual_browser_steps a b = timingSafeEqual_steps a b"
  by (simp add: timingSafeEqual_browser_steps_def timingSafeEqual_steps_def
      timingSafeEqual_browser_loop_eq)

lemma verifyHmac_browser_eq: "verifyHmac_browser rt secret msg hexSig = verifyHmac rt secret msg hexSig"
  by (simp add: verifyHmac_browser_def verifyHmac_def timingSafeEqual_browser_eq
      split: option.splits)

lemma toLowerCase_hex_digit: "toLowerCase_char (hex_digit n) = hex_digit n"
proof -
  have "hex_digit n \<in> set ''0123456789abcdef''"
    unfolding hex_digit_def by (rule nth_mem) simp
  moreover have "\<forall>c \<in> set ''0123456789abcdef''. toLowerCase_char c = c"
    by (simp add: toLowerCase_char_def)
  ultimately show ?thesis
    by blast
qed

lemma toLowerCase_hmac_hex: "toLowerCase (hmac_hex rt S B) = hmac_hex rt S B"
proof -
  have "map toLowerCase_char (concat (map hex_byte bs)) = concat (map hex_byte bs)" for bs
    by (induction bs) (simp_all add: hex_byte_def toLowerCase_hex_digit)
  then show ?thesis
    by (simp add: toLowerCase_def hmac_hex_def)
qed

lemma verifyHmac_eq:
  "verifyHmac rt secret B p =
     (case secret of None \<Rightarrow> False
      | Some S \<Rightarrow> S \<noteq> [] \<and> toLowerCase p = hmac_hex rt S B)"
  by (auto simp: verifyHmac_def timingSafeEqual_iff hmac_hex_def split: option.splits)

text \<open>
  C8. The comparison is length-first and runs in a number of steps that depends on the
  lengths alone: on strings of unequal length it answers false without entering the loop;
  on strings of equal length the loop runs once for every position, whatever the
  contents, and ORs the XOR of the two code units of each position into its accumulator;
  the answer is true exactly when the strings are equal. The same holds for the copy in
  part_000.
\<close>

theorem timingSafeEqual_length_first_full_traversal:
  "timingSafeEqual a b = (a = b)
   \<and> timingSafeEqual_steps a b = (if length a = length b then length a else 0)
   \<and> timingSafeEqual_loop a b 0 (0, 0) =
       (foldl (OR) 0 (map (\<lambda>k. charCodeAt a k XOR charCodeAt b k) [0..<length a]), length a)
   \<and> timingSafeEqual_browser a b = (a = b)
   \<and> timingSafeEqual_browser_steps a b = (if length a = length b then length a else 0)
   \<and> timingSafeEqual_browser_loop a b 0 (0, 0) =
       (foldl (OR) 0 (map (\<lambda>k. charCodeAt a k XOR charCodeAt b k) [0..<length a]), length a)"
  by (simp add: timingSafeEqual_iff timingSafeEqual_steps_eq timingSafeEqual_loop_result
      timingSafeEqual_browser_eq timingSafeEqual_browser_steps_eq
      timingSafeEqual_browser_loop_eq)

text \<open>
  C3, as amended. Under a non-empty secret the lowercase hexadecimal digest of a body
  verifies; a presented signature verifies exactly when its lowercase form is the digest
  (so a signature that differs from the digest only in the case of its letters is
  accepted, and every other one is refused); the digest of one body verifies on another
  body exactly when the two digests coincide; under an absent or empty secret nothing
  verifies. The same holds for the copy in part_000.
\<close>

theorem verifyHmac_accepts_digest_up_to_case:
  "verifyHmac rt (Some S) B (hmac_hex rt S B) = (S \<noteq> [])
   \<and> verifyHmac rt (Some S) B p = (S \<noteq> [] \<and> toLowerCase p = hmac_hex rt S B)
   \<and> verifyHmac rt (Some S) B' (hmac_hex rt S B) = (S \<noteq> [] \<and> hmac_hex rt S B = hmac_hex rt S B')
   \<and> verifyHmac rt None B p = False
   \<and> verifyHmac_browser rt (Some S) B (hmac_hex rt S B) = (S \<noteq> [])
   \<and> verifyHmac_browser rt (Some S) B p = (S \<noteq> [] \<and> toLowerCase p = hmac_hex rt S B)
   \<and> verifyHmac_browser rt (Some S) B' (hmac_hex rt S B)
       = (S \<noteq> [] \<and> hmac_hex rt S B = hmac_hex rt S B')
   \<and> verifyHmac_browser rt None B p = False"
  by (simp add: verifyHmac_browser_eq verifyHmac_eq toLowerCase_hmac_hex)

text \<open>The claim as stated fails: the digest of RFC 4231's test case 2, written in capital
  letters, differs from the digest and verifies.\<close>

lemma toLowerCase_capital_digest:
  "toLowerCase ''5BDCC146BF60754E6A042426089575C75A003F089D2739839DEC58B964EC3843''
     = ''5bdcc146bf60754e6a042426089575c75a003f089d2739839dec58b964ec3843''"
  by code_simp

lemma hmac_hex_rfc4231:
  "hmac_hex rt0 ''Jefe'' ''what do ya want for nothing?''
     = ''5bdcc146bf60754e6a042426089575c75a003f089d2739839dec58b964ec3843''"
  by (simp add: hmac_hex_def rt0_def hmac_table_def secret0_def digest_rfc4231_def
      hex_byte_def hex_digit_def)

theorem verifyHmac_capital_signature_counterexample:
  "verifyHmac rt0 (Some ''Jefe'') ''what do ya want for nothing?''
       ''5BDCC146BF60754E6A042426089575C75A003F089D2739839DEC58B964EC3843''
   \<and> ''5BDCC146BF60754E6A042426089575C75A003F089D2739839DEC58B964EC3843''
       \<noteq> hmac_hex rt0 ''Jefe'' ''what do ya want for nothing?''"
  by (simp add: verifyHmac_eq toLowerCase_capital_digest hmac_hex_rfc4231)

section \<open>The two files agree on their helpers\<close>

lemma clamp01_browser_eq: "clamp01_browser x = clamp01 x"
  by (simp add: clamp01_browser_def clamp01_def)

lemma j_eq: "j obj st = json obj st"
  by (simp add: j_def json_def)

lemma best_ask_price_browser_eq: "best_ask_price_browser rt m use = best_ask_price rt m use"
  unfolding best_ask_price_browser_def best_ask_price_def clamp01_browser_eq
  by (rule refl)

lemma resolveTokenId_market_browser_eq:
  "resolveTokenId_market_browser rt side m = resolveTokenId_market rt side m"
  unfolding resolveTokenId_market_browser_def resolveTokenId_market_def
    best_ask_price_browser_eq
  by (rule refl)

lemma resolveTokenId_response_browser_eq:
  "resolveTokenId_response_browser rt side r = resolveTokenId_response rt side r"
  unfolding resolveTokenId_response_browser_def resolveTokenId_response_def
    resolveTokenId_market_browser_eq
  by (rule refl)

lemma resolveTokenId_try_browser_eq:
  "resolveTokenId_try_browser rt ext conditionId marketId side
     = resolveTokenId_try rt ext conditionId marketId side"
  unfolding resolveTokenId_try_browser_def resolveTokenId_try_def
    resolveTokenId_response_browser_eq
  by (rule refl)

lemma resolveTokenId_browser_eq:
  "resolveTokenId_browser rt ext conditionId marketId side
     = resolveTokenId rt ext conditionId marketId side"
  unfolding resolveTokenId_browser_def resolveTokenId_def resolveTokenId_try_browser_eq
  by (rule refl)

section \<open>The shape of a run\<close>

lemma resolveTokenId_try_calls:
  "snd (resolveTokenId_try rt ext conditionId marketId side) = []
   \<or> (\<exists>url. snd (resolveTokenId_try rt ext conditionId marketId side) = [Fetch url])"
  by (simp add: resolveTokenId_try_def split: sum.splits)

lemma resolveTokenId_calls:
  "snd (resolveTokenId rt ext conditionId marketId side) = []
   \<or> (\<exists>url. snd (resolveTokenId rt ext conditionId marketId side) = [Fetch url])"
  using resolveTokenId_try_calls [of rt ext conditionId marketId side]
  by (auto simp: resolveTokenId_def split: prod.splits sum.splits)

lemma handleTrade_order_converted:
  assumes "ToNumber rt ask = Inr a"
    and "ToNumber rt (if truthy slippage then slippage else JNum (Fin 0)) = Inr s"
    and "ToNumber rt amountUsd = Inr u"
    and "Wallet ext (PRIVATE_KEY env) = Inr signer"
  shows "handleTrade_order rt env ext side ask amountUsd slippage tokenId pfb =
     (case createOrDeriveApiKey ext (client_of rt env signer) (toLowerCase (address signer)) of
        Inl e \<Rightarrow> (Inl e, [CreateOrDeriveApiKey (client_of rt env signer) (toLowerCase (address signer))])
      | Inr done \<Rightarrow>
          ((case place ext (client_of rt env signer)
                  (order_record rt side tokenId (order_price a s) (js_div u (order_price a s))) of
             Inl e \<Rightarrow> Inr (json (error_body (''place() failed: '' @ message e)) 502)
           | Inr (Unserialisable msg) \<Rightarrow> Inr (json (error_body (''place() failed: '' @ msg)) 502)
           | Inr (Serialisable ack) \<Rightarrow>
               Inr (json (success_body ack (js_div u (order_price a s)) (order_price a s) tokenId pfb) 200)),
           [CreateOrDeriveApiKey (client_of rt env signer) (toLowerCase (address signer)),
            Place (client_of rt env signer)
              (order_record rt side tokenId (order_price a s) (js_div u (order_price a s)))]))"
proof (cases "createOrDeriveApiKey ext (client_of rt env signer) (toLowerCase (address signer))")
  case (Inl e)
  with assms show ?thesis
    by (simp add: handleTrade_order_def Let_def client_of_def)
next
  case k: (Inr x)
  show ?thesis
  proof (cases "place ext (client_of rt env signer)
                  (order_record rt side tokenId (order_price a s) (js_div u (order_price a s)))")
    case (Inl e)
    with assms k show ?thesis
    unfolding handleTrade_order_def Let_def client_of_def order_record_def
      order_price_def error_body_def success_body_def fills_record_def
      by simp
  next
    case (Inr p)
    with assms k show ?thesis
    unfolding handleTrade_order_def Let_def client_of_def order_record_def
      order_price_def error_body_def success_body_def fills_record_def
      by (cases p) simp_all
  qed
qed

lemma handleTrade_order_cases:
  assumes run: "handleTrade_order rt env ext side ask amountUsd slippage tokenId pfb
                  = (res, calls)"
  shows "(\<exists>e. res = Inl e \<and> calls = [])
    \<or> (\<exists>signer e. Wallet ext (PRIVATE_KEY env) = Inr signer
          \<and> calls = [CreateOrDeriveApiKey (client_of rt env signer) (toLowerCase (address signer))]
          \<and> createOrDeriveApiKey ext (client_of rt env signer) (toLowerCase (address signer)) = Inl e
          \<and> res = Inl e)
    \<or> (\<exists>signer a s u.
          ToNumber rt ask = Inr a
          \<and> ToNumber rt (if truthy slippage then slippage else JNum (Fin 0)) = Inr s
          \<and> ToNumber rt amountUsd = Inr u
          \<and> Wallet ext (PRIVATE_KEY env) = Inr signer
          \<and> createOrDeriveApiKey ext (client_of rt env signer) (toLowerCase (address signer)) = Inr ()
          \<and> calls = [CreateOrDeriveApiKey (client_of rt env signer) (toLowerCase (address signer)),
                      Place (client_of rt env signer)
                        (order_record rt side tokenId (order_price a s) (js_div u (order_price a s)))]
          \<and> res = (case place ext (client_of rt env signer)
                       (order_record rt side tokenId (order_price a s) (js_div u (order_price a s))) of
                  Inl e \<Rightarrow> Inr (json (error_body (''place() failed: '' @ message e)) 502)
                | Inr (Unserialisable msg) \<Rightarrow> Inr (json (error_body (''place() failed: '' @ msg)) 502)
                | Inr (Serialisable ack) \<Rightarrow>
                    Inr (json (success_body ack (js_div u (order_price a s)) (order_price a s) tokenId pfb) 200)))"
proof (cases "ToNumber rt ask")
  case (Inl e)
  with run have "(res, calls) = (Inl e, [])"
    by (simp add: handleTrade_order_def)
  then show ?thesis
    by blast
next
  case a: (Inr a)
  show ?thesis
  proof (cases "ToNumber rt (if truthy slippage then slippage else JNum (Fin 0))")
    case (Inl e)
    with run a have "(res, calls) = (Inl e, [])"
      by (simp add: handleTrade_order_def)
    then show ?thesis
      by blast
  next
    case s: (Inr s)
    show ?thesis
    proof (cases "ToNumber rt amountUsd")
      case (Inl e)
      with run a s have "(res, calls) = (Inl e, [])"
        by (simp add: handleTrade_order_def Let_def)
      then show ?thesis
        by blast
    next
      case u: (Inr u)
      show ?thesis
      proof (cases "Wallet ext (PRIVATE_KEY env)")
        case (Inl e)
        with run a s u have "(res, calls) = (Inl e, [])"
          by (simp add: handleTrade_order_def Let_def)
        then show ?thesis
          by blast
      next
        case w: (Inr signer)
        note conv = handleTrade_order_converted [OF a s u w, of side tokenId pfb]
        show ?thesis
        proof (cases "createOrDeriveApiKey ext (client_of rt env signer) (toLowerCase (address signer))")
          case (Inl e)
          with run conv
          have "res = Inl e \<and> calls = [CreateOrDeriveApiKey (client_of rt env signer) (toLowerCase (address signer))]"
            by simp
          with Inl w show ?thesis
            by blast
        next
          case k: (Inr x)
          with run conv
          have "calls = [CreateOrDeriveApiKey (client_of rt env signer) (toLowerCase (address signer)),
                         Place (client_of rt env signer)
                           (order_record rt side tokenId (order_price a s) (js_div u (order_price a s)))]
                \<and> res = (case place ext (client_of rt env signer)
                             (order_record rt side tokenId (order_price a s) (js_div u (order_price a s))) of
                        Inl e \<Rightarrow> Inr (json (error_body (''place() failed: '' @ message e)) 502)
                      | Inr (Unserialisable msg) \<Rightarrow> Inr (json (error_body (''place() failed: '' @ msg)) 502)
                      | Inr (Serialisable ack) \<Rightarrow>
                          Inr (json (success_body ack (js_div u (order_price a s)) (order_price a s) tokenId pfb) 200))"
            by simp
          moreover from k have "createOrDeriveApiKey ext (client_of rt env signer) (toLowerCase (address signer)) = Inr ()"
            by simp
          ultimately show ?thesis
            using a s u w by blast
        qed
      qed
    qed
  qed
qed

lemma handleTrade_order_browser_converted:
  assumes "ToNumber rt ask = Inr a"
    and "ToNumber rt (if truthy slippage then slippage else JNum (Fin 0)) = Inr s"
    and "ToNumber rt amountUsd = Inr u"
    and "Wallet ext (PRIVATE_KEY env) = Inr signer"
  shows "handleTrade_order_browser rt env ext side ask amountUsd slippage tokenId pfb =
     (case createOrDeriveApiKey ext (client_of rt env signer) (toLowerCase (address signer)) of
        Inl e \<Rightarrow> (Inl e, [CreateOrDeriveApiKey (client_of rt env signer) (toLowerCase (address signer))])
      | Inr done \<Rightarrow>
          ((case place ext (client_of rt env signer)
                  (order_record rt side tokenId (order_price a s) (js_div u (order_price a s))) of
             Inl e \<Rightarrow> Inr (json (error_body (''place() failed: '' @ message e)) 502)
           | Inr (Unserialisable msg) \<Rightarrow> Inl (Exn msg)
           | Inr (Serialisable ack) \<Rightarrow>
               Inr (json (success_body ack (js_div u (order_price a s)) (order_price a s) tokenId pfb) 200)),
           [CreateOrDeriveApiKey (client_of rt env signer) (toLowerCase (address signer)),
            Place (client_of rt env signer)
              (order_record rt side tokenId (order_price a s) (js_div u (order_price a s)))]))"
proof (cases "createOrDeriveApiKey ext (client_of rt env signer) (toLowerCase (address signer))")
  case (Inl e)
  with assms show ?thesis
    by (simp add: handleTrade_order_browser_def Let_def client_of_def)
next
  case k: (Inr x)
  show ?thesis
  proof (cases "place ext (client_of rt env signer)
                  (order_record rt side tokenId (order_price a s) (js_div u (order_price a s)))")
    case (Inl e)
    with assms k show ?thesis
    unfolding handleTrade_order_browser_def Let_def client_of_def order_record_def
      order_price_def error_body_def success_body_def fills_record_def clamp01_browser_eq j_eq
      by simp
  next
    case (Inr p)
    with assms k show ?thesis
    unfolding handleTrade_order_browser_def Let_def client_of_def order_record_def
      order_price_def error_body_def success_body_def fills_record_def clamp01_browser_eq j_eq
      by (cases p) simp_all
  qed
qed

lemma handleTrade_order_browser_cases:
  assumes run: "handleTrade_order_browser rt env ext side ask amountUsd slippage tokenId pfb
                  = (res, calls)"
  shows "(\<exists>e. res = Inl e \<and> calls = [])
    \<or> (\<exists>signer e. Wallet ext (PRIVATE_KEY env) = Inr signer
          \<and> calls = [CreateOrDeriveApiKey (client_of rt env signer) (toLowerCase (address signer))]
          \<and> createOrDeriveApiKey ext (client_of rt env signer) (toLowerCase (address signer)) = Inl e
          \<and> res = Inl e)
    \<or> (\<exists>signer a s u.
          ToNumber rt ask = Inr a
          \<and> ToNumber rt (if truthy slippage then slippage else JNum (Fin 0)) = Inr s
          \<and> ToNumber rt amountUsd = Inr u
          \<and> Wallet ext (PRIVATE_KEY env) = Inr signer
          \<and> createOrDeriveApiKey ext (client_of rt env signer) (toLowerCase (address signer)) = Inr ()
          \<and> calls = [CreateOrDeriveApiKey (client_of rt env signer) (toLowerCase (address signer)),
                      Place (client_of rt env signer)
                        (order_record rt side tokenId (order_price a s) (js_div u (order_price a s)))]
          \<and> res = (case place ext (client_of rt env signer)
                       (order_record rt side tokenId (order_price a s) (js_div u (order_price a s))) of
                  Inl e \<Rightarrow> Inr (json (error_body (''place() failed: '' @ message e)) 502)
                | Inr (Unserialisable msg) \<Rightarrow> Inl (Exn msg)
                | Inr (Serialisable ack) \<Rightarrow>
                    Inr (json (success_body ack (js_div u (order_price a s)) (order_price a s) tokenId pfb) 200)))"
proof (cases "ToNumber rt ask")
  case (Inl e)
  with run have "(res, calls) = (Inl e, [])"
    by (simp add: handleTrade_order_browser_def)
  then show ?thesis
    by blast
next
  case a: (Inr a)
  show ?thesis
  proof (cases "ToNumber rt (if truthy slippage then slippage else JNum (Fin 0))")
    case (Inl e)
    with run a have "(res, calls) = (Inl e, [])"
      by (simp add: handleTrade_order_browser_def)
    then show ?thesis
      by blast
  next
    case s: (Inr s)
    show ?thesis
    proof (cases "ToNumber rt amountUsd")
      case (Inl e)
      with run a s have "(res, calls) = (Inl e, [])"
        by (simp add: handleTrade_order_browser_def Let_def)
      then show ?thesis
        by blast
    next
      case u: (Inr u)
      show ?thesis
      proof (cases "Wallet ext (PRIVATE_KEY env)")
        case (Inl e)
        with run a s u have "(res, calls) = (Inl e, [])"
          by (simp add: handleTrade_order_browser_def Let_def)
        then show ?thesis
          by blast
      next
        case w: (Inr signer)
        note conv = handleTrade_order_browser_converted [OF a s u w, of side tokenId pfb]
        show ?thesis
        proof (cases "createOrDeriveApiKey ext (client_of rt env signer) (toLowerCase (address signer))")
          case (Inl e)
          with run conv
          have "res = Inl e \<and> calls = [CreateOrDeriveApiKey (client_of rt env signer) (toLowerCase (address signer))]"
            by simp
          with Inl w show ?thesis
            by blast
        next
          case k: (Inr x)
          with run conv
          have "calls = [CreateOrDeriveApiKey (client_of rt env signer) (toLowerCase (address signer)),
                         Place (client_of rt env signer)
                           (order_record rt side tokenId (order_price a s) (js_div u (order_price a s)))]
                \<and> res = (case place ext (client_of rt env signer)
                             (order_record rt side tokenId (order_price a s) (js_div u (order_price a s))) of
                        Inl e \<Rightarrow> Inr (json (error_body (''place() failed: '' @ message e)) 502)
                      | Inr (Unserialisable msg) \<Rightarrow> Inl (Exn msg)
                      | Inr (Serialisable ack) \<Rightarrow>
                          Inr (json (success_body ack (js_div u (order_price a s)) (order_price a s) tokenId pfb) 200))"
            by simp
          moreover from k have "createOrDeriveApiKey ext (client_of rt env signer) (toLowerCase (address signer)) = Inr ()"
            by simp
          ultimately show ?thesis
            using a s u w by blast
        qed
      qed
    qed
  qed
qed

lemma handleTrade_unauthenticated:
  assumes "\<not> authenticated rt env request"
  shows "handleTrade rt env ext request
           = (Inr (json (error_body ''Missing/invalid signature'') 401), [])
         \<or> handleTrade rt env ext request
           = (Inr (json (error_body ''Signature mismatch'') 401), [])"
proof (cases "hud_signature request")
  case None
  then show ?thesis
    by (simp add: handleTrade_def startsWith_def error_body_def)
next
  case (Some h)
  with assms show ?thesis
    by (simp add: handleTrade_def authenticated_def error_body_def Let_def)
qed

lemma handleTrade_authenticated:
  assumes "authenticated rt env request"
  shows "handleTrade rt env ext request =
           (case JSON_parse rt (raw_body request) of
              Inl e \<Rightarrow> (Inr (json (error_body ''Bad JSON'') 400), [])
            | Inr payload \<Rightarrow> handleTrade_payload rt env ext payload)"
proof (cases "hud_signature request")
  case None
  with assms show ?thesis
    by (simp add: authenticated_def)
next
  case (Some h)
  with assms show ?thesis
    unfolding handleTrade_def authenticated_def error_body_def Let_def
    by simp
qed

lemma handleTrade_payload_null:
  assumes "payload = JNull \<or> payload = JUndefined"
  shows "\<exists>e. handleTrade_payload rt env ext payload = (Inl e, [])"
  using assms by (auto simp: handleTrade_payload_def)

lemma handleTrade_payload_missing:
  assumes "payload \<noteq> JNull" and "payload \<noteq> JUndefined"
    and "\<not> truthy (field payload ''side'') \<or> \<not> truthy (field payload ''amountUsd'')
         \<or> \<not> truthy (field payload ''ask'')"
  shows "handleTrade_payload rt env ext payload
           = (Inr (json (error_body ''Missing side/amountUsd/ask'') 400), [])"
  using assms by (auto simp: handleTrade_payload_def error_body_def Let_def)

lemma handleTrade_payload_side:
  assumes "payload \<noteq> JNull" and "payload \<noteq> JUndefined"
    and "truthy (field payload ''side'')" and "truthy (field payload ''amountUsd'')"
    and "truthy (field payload ''ask'')"
    and "field payload ''side'' \<notin> set [JStr ''YES'', JStr ''NO'']"
  shows "handleTrade_payload rt env ext payload
           = (Inr (json (error_body ''side must be YES or NO'') 400), [])"
  using assms by (simp add: handleTrade_payload_def error_body_def Let_def)

lemma handleTrade_payload_valid:
  assumes "valid_payload payload"
    and "resolveTokenId rt ext (field payload ''conditionId'') (field payload ''marketId'')
           (field payload ''side'') = (resolved, fetches)"
  shows "handleTrade_payload rt env ext payload =
           (if \<not> truthy (field resolved ''ok'') then (Inr (json resolved 400), fetches)
            else (case handleTrade_order rt env ext (field payload ''side'')
                         (field payload ''ask'') (field payload ''amountUsd'')
                         (slippage_of payload) (field resolved ''tokenId'')
                         (field resolved ''priceFromBook'') of
                    (res, calls') \<Rightarrow> (res, fetches @ calls')))"
  using assms
  by (simp add: handleTrade_payload_def valid_payload_def slippage_of_def Let_def)

lemma handleTrade_cases:
  assumes run: "handleTrade rt env ext request = (res, calls)"
  shows "((\<forall>x \<in> set calls. is_fetch x)
          \<and> (case res of Inl e \<Rightarrow> True
               | Inr resp \<Rightarrow> status resp = 400 \<or> status resp = 401))
    \<or> (\<exists>payload resolved fetches calls2.
          authenticated rt env request
          \<and> JSON_parse rt (raw_body request) = Inr payload
          \<and> valid_payload payload
          \<and> resolveTokenId rt ext (field payload ''conditionId'')
                (field payload ''marketId'') (field payload ''side'') = (resolved, fetches)
          \<and> truthy (field resolved ''ok'')
          \<and> (\<forall>x \<in> set fetches. is_fetch x)
          \<and> handleTrade_order rt env ext (field payload ''side'')
                (field payload ''ask'') (field payload ''amountUsd'') (slippage_of payload)
                (field resolved ''tokenId'') (field resolved ''priceFromBook'') = (res, calls2)
          \<and> calls = fetches @ calls2)"
proof (cases "authenticated rt env request")
  case False
  from handleTrade_unauthenticated [OF False, of ext] run show ?thesis
    by (auto simp: json_def)
next
  case auth: True
  note ht = handleTrade_authenticated [OF auth, of ext]
  show ?thesis
  proof (cases "JSON_parse rt (raw_body request)")
    case (Inl e)
    with ht run show ?thesis
      by (auto simp: json_def)
  next
    case parsed: (Inr payload)
    with ht run have pl: "handleTrade_payload rt env ext payload = (res, calls)"
      by simp
    show ?thesis
    proof (cases "valid_payload payload")
      case False
      then consider "payload = JNull \<or> payload = JUndefined"
        | "payload \<noteq> JNull" "payload \<noteq> JUndefined"
          "\<not> truthy (field payload ''side'') \<or> \<not> truthy (field payload ''amountUsd'')
           \<or> \<not> truthy (field payload ''ask'')"
        | "payload \<noteq> JNull" "payload \<noteq> JUndefined"
          "truthy (field payload ''side'')" "truthy (field payload ''amountUsd'')"
          "truthy (field payload ''ask'')"
          "field payload ''side'' \<notin> set [JStr ''YES'', JStr ''NO'']"
        unfolding valid_payload_def by blast
      then show ?thesis
      proof cases
        case 1
        from handleTrade_payload_null [OF 1, of rt env ext] pl show ?thesis
          by auto
      next
        case 2
        from handleTrade_payload_missing [OF 2, of rt env ext] pl show ?thesis
          by (auto simp: json_def)
      next
        case 3
        from handleTrade_payload_side [OF 3, of rt env ext] pl show ?thesis
          by (auto simp: json_def)
      qed
    next
      case valid: True
      obtain resolved fetches where
        rs: "resolveTokenId rt ext (field payload ''conditionId'')
               (field payload ''marketId'') (field payload ''side'') = (resolved, fetches)"
        by (cases "resolveTokenId rt ext (field payload ''conditionId'')
               (field payload ''marketId'') (field payload ''side'')") blast
      have fetches: "\<forall>x \<in> set fetches. is_fetch x"
        using resolveTokenId_calls [of rt ext "field payload ''conditionId''"
            "field payload ''marketId''" "field payload ''side''"] rs
        by auto
      note pv = handleTrade_payload_valid [OF valid rs, of env]
      show ?thesis
      proof (cases "truthy (field resolved ''ok'')")
        case False
        with pv pl fetches show ?thesis
          by (auto simp: json_def)
      next
        case ok: True
        obtain res2 calls2 where
          ord: "handleTrade_order rt env ext (field payload ''side'')
                  (field payload ''ask'') (field payload ''amountUsd'') (slippage_of payload)
                  (field resolved ''tokenId'') (field resolved ''priceFromBook'')
                  = (res2, calls2)"
          by (cases "handleTrade_order rt env ext (field payload ''side'')
                  (field payload ''ask'') (field payload ''amountUsd'') (slippage_of payload)
                  (field resolved ''tokenId'') (field resolved ''priceFromBook'')") blast
        with pv pl ok have "res = res2" and "calls = fetches @ calls2"
          by simp_all
        with auth parsed valid rs ok fetches ord show ?thesis
          by blast
      qed
    qed
  qed
qed

lemma worker_fetch_trade:
  assumes "url_pathname request = ''/trade''" and "http_method request = ''POST''"
  shows "worker_fetch rt env ext request =
           (case handleTrade rt env ext request of
              (Inr resp, calls) \<Rightarrow> (resp, calls)
            | (Inl e, calls) \<Rightarrow> (json (error_body (message e)) 500, calls))"
  using assms unfolding worker_fetch_def error_body_def
  by simp

lemma handleTrade_browser_unauthenticated:
  assumes "\<not> authenticated rt env request"
  shows "handleTrade_browser rt env ext request
           = (Inr (json (error_body ''Missing/invalid signature'') 401), [])
         \<or> handleTrade_browser rt env ext request
           = (Inr (json (error_body ''Signature mismatch'') 401), [])"
proof (cases "hud_signature request")
  case None
  then show ?thesis
    by (simp add: handleTrade_browser_def startsWith_def error_body_def verifyHmac_browser_eq j_eq resolveTokenId_browser_eq)
next
  case (Some h)
  with assms show ?thesis
    by (simp add: handleTrade_browser_def authenticated_def error_body_def Let_def verifyHmac_browser_eq j_eq resolveTokenId_browser_eq)
qed

lemma handleTrade_browser_authenticated:
  assumes "authenticated rt env request"
  shows "handleTrade_browser rt env ext request =
           (case JSON_parse rt (raw_body request) of
              Inl e \<Rightarrow> (Inr (json (error_body ''Bad JSON'') 400), [])
            | Inr payload \<Rightarrow> handleTrade_payload_browser rt env ext payload)"
proof (cases "hud_signature request")
  case None
  with assms show ?thesis
    by (simp add: authenticated_def)
next
  case (Some h)
  with assms show ?thesis
    unfolding handleTrade_browser_def authenticated_def error_body_def Let_def verifyHmac_browser_eq j_eq resolveTokenId_browser_eq
    by simp
qed

lemma handleTrade_payload_browser_null:
  assumes "payload = JNull \<or> payload = JUndefined"
  shows "\<exists>e. handleTrade_payload_browser rt env ext payload = (Inl e, [])"
  using assms by (auto simp: handleTrade_payload_browser_def)

lemma handleTrade_payload_browser_missing:
  assumes "payload \<noteq> JNull" and "payload \<noteq> JUndefined"
    and "\<not> truthy (field payload ''side'') \<or> \<not> truthy (field payload ''amountUsd'')
         \<or> \<not> truthy (field payload ''ask'')"
  shows "handleTrade_payload_browser rt env ext payload
           = (Inr (json (error_body ''Missing side/amountUsd/ask'') 400), [])"
  using assms by (auto simp: handleTrade_payload_browser_def error_body_def Let_def verifyHmac_browser_eq j_eq resolveTokenId_browser_eq)

lemma handleTrade_payload_browser_side:
  assumes "payload \<noteq> JNull" and "payload \<noteq> JUndefined"
    and "truthy (field payload ''side'')" and "truthy (field payload ''amountUsd'')"
    and "truthy (field payload ''ask'')"
    and "field payload ''side'' \<notin> set [JStr ''YES'', JStr ''NO'']"
  shows "handleTrade_payload_browser rt env ext payload
           = (Inr (json (error_body ''side must be YES or NO'') 400), [])"
  using assms by (simp add: handleTrade_payload_browser_def error_body_def Let_def verifyHmac_browser_eq j_eq resolveTokenId_browser_eq)

lemma handleTrade_payload_browser_valid:
  assumes "valid_payload payload"
    and "resolveTokenId rt ext (field payload ''conditionId'') (field payload ''marketId'')
           (field payload ''side'') = (resolved, fetches)"
  shows "handleTrade_payload_browser rt env ext payload =
           (if \<not> truthy (field resolved ''ok'') then (Inr (json resolved 400), fetches)
            else (case handleTrade_order_browser rt env ext (field payload ''side'')
                         (field payload ''ask'') (field payload ''amountUsd'')
                         (slippage_of payload) (field resolved ''tokenId'')
                         (field resolved ''priceFromBook'') of
                    (res, calls') \<Rightarrow> (res, fetches @ calls')))"
  using assms
  by (simp add: handleTrade_payload_browser_def valid_payload_def slippage_of_def Let_def verifyHmac_browser_eq j_eq resolveTokenId_browser_eq)

lemma handleTrade_browser_cases:
  assumes run: "handleTrade_browser rt env ext request = (res, calls)"
  shows "((\<forall>x \<in> set calls. is_fetch x)
          \<and> (case res of Inl e \<Rightarrow> True
               | Inr resp \<Rightarrow> status resp = 400 \<or> status resp = 401))
    \<or> (\<exists>payload resolved fetches calls2.
          authenticated rt env request
          \<and> JSON_parse rt (raw_body request) = Inr payload
          \<and> valid_payload payload
          \<and> resolveTokenId rt ext (field payload ''conditionId'')
                (field payload ''marketId'') (field payload ''side'') = (resolved, fetches)
          \<and> truthy (field resolved ''ok'')
          \<and> (\<forall>x \<in> set fetches. is_fetch x)
          \<and> handleTrade_order_browser rt env ext (field payload ''side'')
                (field payload ''ask'') (field payload ''amountUsd'') (slippage_of payload)
                (field resolved ''tokenId'') (field resolved ''priceFromBook'') = (res, calls2)
          \<and> calls = fetches @ calls2)"
proof (cases "authenticated rt env request")
  case False
  from handleTrade_browser_unauthenticated [OF False, of ext] run show ?thesis
    by (auto simp: json_def)
next
  case auth: True
  note ht = handleTrade_browser_authenticated [OF auth, of ext]
  show ?thesis
  proof (cases "JSON_parse rt (raw_body request)")
    case (Inl e)
    with ht run show ?thesis
      by (auto simp: json_def)
  next
    case parsed: (Inr payload)
    with ht run have pl: "handleTrade_payload_browser rt env ext payload = (res, calls)"
      by simp
    show ?thesis
    proof (cases "valid_payload payload")
      case False
      then consider "payload = JNull \<or> payload = JUndefined"
        | "payload \<noteq> JNull" "payload \<noteq> JUndefined"
          "\<not> truthy (field payload ''side'') \<or> \<not> truthy (field payload ''amountUsd'')
           \<or> \<not> truthy (field payload ''ask'')"
        | "payload \<noteq> JNull" "payload \<noteq> JUndefined"
          "truthy (field payload ''side'')" "truthy (field payload ''amountUsd'')"
          "truthy (field payload ''ask'')"
          "field payload ''side'' \<notin> set [JStr ''YES'', JStr ''NO'']"
        unfolding valid_payload_def by blast
      then show ?thesis
      proof cases
        case 1
        from handleTrade_payload_browser_null [OF 1, of rt env ext] pl show ?thesis
          by auto
      next
        case 2
        from handleTrade_payload_browser_missing [OF 2, of rt env ext] pl show ?thesis
          by (auto simp: json_def)
      next
        case 3
        from handleTrade_payload_browser_side [OF 3, of rt env ext] pl show ?thesis
          by (auto simp: json_def)
      qed
    next
      case valid: True
      obtain resolved fetches where
        rs: "resolveTokenId rt ext (field payload ''conditionId'')
               (field payload ''marketId'') (field payload ''side'') = (resolved, fetches)"
        by (cases "resolveTokenId rt ext (field payload ''conditionId'')
               (field payload ''marketId'') (field payload ''side'')") blast
      have fetches: "\<forall>x \<in> set fetches. is_fetch x"
        using resolveTokenId_calls [of rt ext "field payload ''conditionId''"
            "field payload ''marketId''" "field payload ''side''"] rs
        by auto
      note pv = handleTrade_payload_browser_valid [OF valid rs, of env]
      show ?thesis
      proof (cases "truthy (field resolved ''ok'')")
        case False
        with pv pl fetches show ?thesis
          by (auto simp: json_def)
      next
        case ok: True
        obtain res2 calls2 where
          ord: "handleTrade_order_browser rt env ext (field payload ''side'')
                  (field payload ''ask'') (field payload ''amountUsd'') (slippage_of payload)
                  (field resolved ''tokenId'') (field resolved ''priceFromBook'')
                  = (res2, calls2)"
          by (cases "handleTrade_order_browser rt env ext (field payload ''side'')
                  (field payload ''ask'') (field payload ''amountUsd'') (slippage_of payload)
                  (field resolved ''tokenId'') (field resolved ''priceFromBook'')") blast
        with pv pl ok have "res = res2" and "calls = fetches @ calls2"
          by simp_all
        with auth parsed valid rs ok fetches ord show ?thesis
          by blast
      qed
    qed
  qed
qed

lemma worker_fetch_browser_trade:
  assumes "url_pathname request = ''/trade''" and "http_method request = ''POST''"
  shows "worker_fetch_browser rt env ext request =
           (case handleTrade_browser rt env ext request of
              (Inr resp, calls) \<Rightarrow> (resp, calls)
            | (Inl e, calls) \<Rightarrow> (json (error_body (message e)) 500, calls))"
  using assms unfolding worker_fetch_browser_def error_body_def j_eq
  by simp

lemma handleTrade_run_shape:
  assumes run: "handleTrade rt env ext request = (res, calls)"
  shows "((\<forall>x \<in> set calls. is_fetch x)
          \<and> (case res of Inl e \<Rightarrow> True
               | Inr resp \<Rightarrow> status resp = 400 \<or> status resp = 401))
    \<or> (\<exists>fetches signer e.
          (\<forall>x \<in> set fetches. is_fetch x)
          \<and> calls = fetches @ [CreateOrDeriveApiKey (client_of rt env signer) (toLowerCase (address signer))]
          \<and> createOrDeriveApiKey ext (client_of rt env signer) (toLowerCase (address signer)) = Inl e
          \<and> res = Inl e)
    \<or> (\<exists>payload resolved fetches signer a s u.
          authenticated rt env request
          \<and> JSON_parse rt (raw_body request) = Inr payload
          \<and> valid_payload payload
          \<and> resolveTokenId rt ext (field payload ''conditionId'')
                (field payload ''marketId'') (field payload ''side'') = (resolved, fetches)
          \<and> truthy (field resolved ''ok'')
          \<and> (\<forall>x \<in> set fetches. is_fetch x)
          \<and> ToNumber rt (field payload ''ask'') = Inr a
          \<and> ToNumber rt (if truthy (slippage_of payload) then slippage_of payload
                           else JNum (Fin 0)) = Inr s
          \<and> ToNumber rt (field payload ''amountUsd'') = Inr u
          \<and> Wallet ext (PRIVATE_KEY env) = Inr signer
          \<and> createOrDeriveApiKey ext (client_of rt env signer) (toLowerCase (address signer)) = Inr ()
          \<and> calls = fetches @
                [CreateOrDeriveApiKey (client_of rt env signer) (toLowerCase (address signer)),
                 Place (client_of rt env signer)
                   (order_record rt (field payload ''side'') (field resolved ''tokenId'')
                 (order_price a s) (js_div u (order_price a s)))]
          \<and> res =
         (case place ext (client_of rt env signer)
              (order_record rt (field payload ''side'') (field resolved ''tokenId'')
                 (order_price a s) (js_div u (order_price a s))) of
           Inl e \<Rightarrow> Inr (json (error_body (''place() failed: '' @ message e)) 502)
         | Inr (Unserialisable msg) \<Rightarrow> Inr (json (error_body (''place() failed: '' @ msg)) 502)
         | Inr (Serialisable ack) \<Rightarrow>
             Inr (json (success_body ack (js_div u (order_price a s)) (order_price a s)
                          (field resolved ''tokenId'') (field resolved ''priceFromBook''))
                    200)))"
proof -
  from handleTrade_cases [OF run]
  consider (early) "(\<forall>x \<in> set calls. is_fetch x)
          \<and> (case res of Inl e \<Rightarrow> True
               | Inr resp \<Rightarrow> status resp = 400 \<or> status resp = 401)"
    | (order) payload resolved fetches calls2 where
        "authenticated rt env request" "JSON_parse rt (raw_body request) = Inr payload"
        "valid_payload payload"
        "resolveTokenId rt ext (field payload ''conditionId'')
           (field payload ''marketId'') (field payload ''side'') = (resolved, fetches)"
        "truthy (field resolved ''ok'')" "\<forall>x \<in> set fetches. is_fetch x"
        "handleTrade_order rt env ext (field payload ''side'')
           (field payload ''ask'') (field payload ''amountUsd'') (slippage_of payload)
           (field resolved ''tokenId'') (field resolved ''priceFromBook'') = (res, calls2)"
        "calls = fetches @ calls2"
    by blast
  then show ?thesis
  proof cases
    case early
    then show ?thesis
      by blast
  next
    case order
    from handleTrade_order_cases [OF order(7)]
    consider (thrown) e where "res = Inl e" "calls2 = []"
      | (credential) signer e where "Wallet ext (PRIVATE_KEY env) = Inr signer"
          "calls2 = [CreateOrDeriveApiKey (client_of rt env signer) (toLowerCase (address signer))]"
          "createOrDeriveApiKey ext (client_of rt env signer) (toLowerCase (address signer)) = Inl e"
          "res = Inl e"
      | (submitted) signer a s u where
          "ToNumber rt (field payload ''ask'') = Inr a"
          "ToNumber rt (if truthy (slippage_of payload) then slippage_of payload
                        else JNum (Fin 0)) = Inr s"
          "ToNumber rt (field payload ''amountUsd'') = Inr u"
          "Wallet ext (PRIVATE_KEY env) = Inr signer"
          "createOrDeriveApiKey ext (client_of rt env signer) (toLowerCase (address signer)) = Inr ()"
          "calls2 = [CreateOrDeriveApiKey (client_of rt env signer) (toLowerCase (address signer)),
                     Place (client_of rt env signer)
                       (order_record rt (field payload ''side'') (field resolved ''tokenId'')
                 (order_price a s) (js_div u (order_price a s)))]"
          "res =
         (case place ext (client_of rt env signer)
              (order_record rt (field payload ''side'') (field resolved ''tokenId'')
                 (order_price a s) (js_div u (order_price a s))) of
           Inl e \<Rightarrow> Inr (json (error_body (''place() failed: '' @ message e)) 502)
         | Inr (Unserialisable msg) \<Rightarrow> Inr (json (error_body (''place() failed: '' @ msg)) 502)
         | Inr (Serialisable ack) \<Rightarrow>
             Inr (json (success_body ack (js_div u (order_price a s)) (order_price a s)
                          (field resolved ''tokenId'') (field resolved ''priceFromBook''))
                    200))"
      by blast
    then show ?thesis
    proof cases
      case thrown
      with order(6,8) show ?thesis
        by simp
    next
      case credential
      with order(6,8) show ?thesis
        by blast
    next
      case submitted
      show ?thesis
        apply (rule disjI2, rule disjI2)
        apply (rule exI [of _ payload], rule exI [of _ resolved], rule exI [of _ fetches])
        apply (rule exI [of _ signer], rule exI [of _ a], rule exI [of _ s], rule exI [of _ u])
        using order(1-6,8) submitted by simp
    qed
  qed
qed

lemma handleTrade_browser_run_shape:
  assumes run: "handleTrade_browser rt env ext request = (res, calls)"
  shows "((\<forall>x \<in> set calls. is_fetch x)
          \<and> (case res of Inl e \<Rightarrow> True
               | Inr resp \<Rightarrow> status resp = 400 \<or> status resp = 401))
    \<or> (\<exists>fetches signer e.
          (\<forall>x \<in> set fetches. is_fetch x)
          \<and> calls = fetches @ [CreateOrDeriveApiKey (client_of rt env signer) (toLowerCase (address signer))]
          \<and> createOrDeriveApiKey ext (client_of rt env signer) (toLowerCase (address signer)) = Inl e
          \<and> res = Inl e)
    \<or> (\<exists>payload resolved fetches signer a s u.
          authenticated rt env request
          \<and> JSON_parse rt (raw_body request) = Inr payload
          \<and> valid_payload payload
          \<and> resolveTokenId rt ext (field payload ''conditionId'')
                (field payload ''marketId'') (field payload ''side'') = (resolved, fetches)
          \<and> truthy (field resolved ''ok'')
          \<and> (\<forall>x \<in> set fetches. is_fetch x)
          \<and> ToNumber rt (field payload ''ask'') = Inr a
          \<and> ToNumber rt (if truthy (slippage_of payload) then slippage_of payload
                           else JNum (Fin 0)) = Inr s
          \<and> ToNumber rt (field payload ''amountUsd'') = Inr u
          \<and> Wallet ext (PRIVATE_KEY env) = Inr signer
          \<and> createOrDeriveApiKey ext (client_of rt env signer) (toLowerCase (address signer)) = Inr ()
          \<and> calls = fetches @
                [CreateOrDeriveApiKey (client_of rt env signer) (toLowerCase (address signer)),
                 Place (client_of rt env signer)
                   (order_record rt (field payload ''side'') (field resolved ''tokenId'')
                 (order_price a s) (js_div u (order_price a s)))]
          \<and> res =
         (case place ext (client_of rt env signer)
              (order_record rt (field payload ''side'') (field resolved ''tokenId'')
                 (order_price a s) (js_div u (order_price a s))) of
           Inl e \<Rightarrow> Inr (json (error_body (''place() failed: '' @ message e)) 502)
         | Inr (Unserialisable msg) \<Rightarrow> Inl (Exn msg)
         | Inr (Serialisable ack) \<Rightarrow>
             Inr (json (success_body ack (js_div u (order_price a s)) (order_price a s)
                          (field resolved ''tokenId'') (field resolved ''priceFromBook''))
                    200)))"
proof -
  from handleTrade_browser_cases [OF run]
  consider (early) "(\<forall>x \<in> set calls. is_fetch x)
          \<and> (case res of Inl e \<Rightarrow> True
               | Inr resp \<Rightarrow> status resp = 400 \<or> status resp = 401)"
    | (order) payload resolved fetches calls2 where
        "authenticated rt env request" "JSON_parse rt (raw_body request) = Inr payload"
        "valid_payload payload"
        "resolveTokenId rt ext (field payload ''conditionId'')
           (field payload ''marketId'') (field payload ''side'') = (resolved, fetches)"
        "truthy (field resolved ''ok'')" "\<forall>x \<in> set fetches. is_fetch x"
        "handleTrade_order_browser rt env ext (field payload ''side'')
           (field payload ''ask'') (field payload ''amountUsd'') (slippage_of payload)
           (field resolved ''tokenId'') (field resolved ''priceFromBook'') = (res, calls2)"
        "calls = fetches @ calls2"
    by blast
  then show ?thesis
  proof cases
    case early
    then show ?thesis
      by blast
  next
    case order
    from handleTrade_order_browser_cases [OF order(7)]
    consider (thrown) e where "res = Inl e" "calls2 = []"
      | (credential) signer e where "Wallet ext (PRIVATE_KEY env) = Inr signer"
          "calls2 = [CreateOrDeriveApiKey (client_of rt env signer) (toLowerCase (address signer))]"
          "createOrDeriveApiKey ext (client_of rt env signer) (toLowerCase (address signer)) = Inl e"
          "res = Inl e"
      | (submitted) signer a s u where
          "ToNumber rt (field payload ''ask'') = Inr a"
          "ToNumber rt (if truthy (slippage_of payload) then slippage_of payload
                        else JNum (Fin 0)) = Inr s"
          "ToNumber rt (field payload ''amountUsd'') = Inr u"
          "Wallet ext (PRIVATE_KEY env) = Inr signer"
          "createOrDeriveApiKey ext (client_of rt env signer) (toLowerCase (address signer)) = Inr ()"
          "calls2 = [CreateOrDeriveApiKey (client_of rt env signer) (toLowerCase (address signer)),
                     Place (client_of rt env signer)
                       (order_record rt (field payload ''side'') (field resolved ''tokenId'')
                 (order_price a s) (js_div u (order_price a s)))]"
          "res =
         (case place ext (client_of rt env signer)
              (order_record rt (field payload ''side'') (field resolved ''tokenId'')
                 (order_price a s) (js_div u (order_price a s))) of
           Inl e \<Rightarrow> Inr (json (error_body (''place() failed: '' @ message e)) 502)
         | Inr (Unserialisable msg) \<Rightarrow> Inl (Exn msg)
         | Inr (Serialisable ack) \<Rightarrow>
             Inr (json (success_body ack (js_div u (order_price a s)) (order_price a s)
                          (field resolved ''tokenId'') (field resolved ''priceFromBook''))
                    200))"
      by blast
    then show ?thesis
    proof cases
      case thrown
      with order(6,8) show ?thesis
        by simp
    next
      case credential
      with order(6,8) show ?thesis
        by blast
    next
      case submitted
      show ?thesis
        apply (rule disjI2, rule disjI2)
        apply (rule exI [of _ payload], rule exI [of _ resolved], rule exI [of _ fetches])
        apply (rule exI [of _ signer], rule exI [of _ a], rule exI [of _ s], rule exI [of _ u])
        using order(1-6,8) submitted by simp
    qed
  qed
qed

lemma handleTrade_placed_order:
  assumes run: "handleTrade rt env ext request = (res, calls)"
    and parsed: "JSON_parse rt (raw_body request) = Inr payload"
    and placed: "Place c ord \<in> set calls"
  shows "\<exists>a s u tok.
      ToNumber rt (field payload ''ask'') = Inr a
      \<and> ToNumber rt (if truthy (slippage_of payload) then slippage_of payload
                       else JNum (Fin 0)) = Inr s
      \<and> ToNumber rt (field payload ''amountUsd'') = Inr u
      \<and> ord = order_record rt (field payload ''side'') tok (order_price a s)
                (js_div u (order_price a s))"
  using handleTrade_run_shape [OF run]
proof (elim disjE exE conjE)
  assume "\<forall>x \<in> set calls. is_fetch x"
  with placed have "is_fetch (Place c ord)"
    by blast
  then show ?thesis
    by simp
next
  fix fetches signer e
  assume "\<forall>x \<in> set fetches. is_fetch x"
    and "calls = fetches @ [CreateOrDeriveApiKey (client_of rt env signer)
                             (toLowerCase (address signer))]"
  with placed have "is_fetch (Place c ord)"
    by auto
  then show ?thesis
    by simp
next
  fix payload' resolved fetches signer a s u
  assume p: "JSON_parse rt (raw_body request) = Inr payload'"
    and f: "\<forall>x \<in> set fetches. is_fetch x"
    and conv: "ToNumber rt (field payload' ''ask'') = Inr a"
      "ToNumber rt (if truthy (slippage_of payload') then slippage_of payload'
                    else JNum (Fin 0)) = Inr s"
      "ToNumber rt (field payload' ''amountUsd'') = Inr u"
    and c: "calls = fetches @
              [CreateOrDeriveApiKey (client_of rt env signer) (toLowerCase (address signer)),
               Place (client_of rt env signer)
                 (order_record rt (field payload' ''side'') (field resolved ''tokenId'')
                    (order_price a s) (js_div u (order_price a s)))]"
  from p parsed have same: "payload' = payload"
    by simp
  from placed c f have "ord = order_record rt (field payload' ''side'')
      (field resolved ''tokenId'') (order_price a s) (js_div u (order_price a s))"
    by auto
  with conv same show ?thesis
    by blast
qed

lemma handleTrade_success:
  assumes run: "handleTrade rt env ext request = (Inr resp, calls)"
    and parsed: "JSON_parse rt (raw_body request) = Inr payload"
    and ok: "status resp = 200"
  shows "\<exists>a s u ack tok pfb.
      ToNumber rt (field payload ''ask'') = Inr a
      \<and> ToNumber rt (if truthy (slippage_of payload) then slippage_of payload
                       else JNum (Fin 0)) = Inr s
      \<and> ToNumber rt (field payload ''amountUsd'') = Inr u
      \<and> resp = json (success_body ack (js_div u (order_price a s)) (order_price a s) tok pfb)
                 200"
  using handleTrade_run_shape [OF run]
proof (elim disjE exE conjE)
  assume "case Inr resp of Inl e \<Rightarrow> True
          | Inr resp \<Rightarrow> status resp = 400 \<or> status resp = 401"
  with ok show ?thesis
    by simp
next
  fix e :: exn
  assume "Inr resp = Inl e"
  then show ?thesis
    by simp
next
  fix payload' resolved fetches signer a s u
  assume p: "JSON_parse rt (raw_body request) = Inr payload'"
    and conv: "ToNumber rt (field payload' ''ask'') = Inr a"
      "ToNumber rt (if truthy (slippage_of payload') then slippage_of payload'
                    else JNum (Fin 0)) = Inr s"
      "ToNumber rt (field payload' ''amountUsd'') = Inr u"
    and r: "Inr resp =
         (case place ext (client_of rt env signer)
                 (order_record rt (field payload' ''side'') (field resolved ''tokenId'')
                    (order_price a s) (js_div u (order_price a s))) of
            Inl e \<Rightarrow> Inr (json (error_body (''place() failed: '' @ message e)) 502)
          | Inr (Unserialisable msg) \<Rightarrow> Inr (json (error_body (''place() failed: '' @ msg)) 502)
          | Inr (Serialisable ack) \<Rightarrow>
              Inr (json (success_body ack (js_div u (order_price a s)) (order_price a s)
                           (field resolved ''tokenId'') (field resolved ''priceFromBook''))
                     200))"
  from p parsed have same: "payload' = payload"
    by simp
  from r ok have "\<exists>ack. resp = json (success_body ack (js_div u (order_price a s))
      (order_price a s) (field resolved ''tokenId'') (field resolved ''priceFromBook'')) 200"
    by (auto simp: json_def split: sum.splits placed.splits)
  with conv same show ?thesis
    by blast
qed

lemma handleTrade_browser_placed_order:
  assumes run: "handleTrade_browser rt env ext request = (res, calls)"
    and parsed: "JSON_parse rt (raw_body request) = Inr payload"
    and placed: "Place c ord \<in> set calls"
  shows "\<exists>a s u tok.
      ToNumber rt (field payload ''ask'') = Inr a
      \<and> ToNumber rt (if truthy (slippage_of payload) then slippage_of payload
                       else JNum (Fin 0)) = Inr s
      \<and> ToNumber rt (field payload ''amountUsd'') = Inr u
      \<and> ord = order_record rt (field payload ''side'') tok (order_price a s)
                (js_div u (order_price a s))"
  using handleTrade_browser_run_shape [OF run]
proof (elim disjE exE conjE)
  assume "\<forall>x \<in> set calls. is_fetch x"
  with placed have "is_fetch (Place c ord)"
    by blast
  then show ?thesis
    by simp
next
  fix fetches signer e
  assume "\<forall>x \<in> set fetches. is_fetch x"
    and "calls = fetches @ [CreateOrDeriveApiKey (client_of rt env signer)
                             (toLowerCase (address signer))]"
  with placed have "is_fetch (Place c ord)"
    by auto
  then show ?thesis
    by simp
next
  fix payload' resolved fetches signer a s u
  assume p: "JSON_parse rt (raw_body request) = Inr payload'"
    and f: "\<forall>x \<in> set fetches. is_fetch x"
    and conv: "ToNumber rt (field payload' ''ask'') = Inr a"
      "ToNumber rt (if truthy (slippage_of payload') then slippage_of payload'
                    else JNum (Fin 0)) = Inr s"
      "ToNumber rt (field payload' ''amountUsd'') = Inr u"
    and c: "calls = fetches @
              [CreateOrDeriveApiKey (client_of rt env signer) (toLowerCase (address signer)),
               Place (client_of rt env signer)
                 (order_record rt (field payload' ''side'') (field resolved ''tokenId'')
                    (order_price a s) (js_div u (order_price a s)))]"
  from p parsed have same: "payload' = payload"
    by simp
  from placed c f have "ord = order_record rt (field payload' ''side'')
      (field resolved ''tokenId'') (order_price a s) (js_div u (order_price a s))"
    by auto
  with conv same show ?thesis
    by blast
qed

lemma handleTrade_browser_success:
  assumes run: "handleTrade_browser rt env ext request = (Inr resp, calls)"
    and parsed: "JSON_parse rt (raw_body request) = Inr payload"
    and ok: "status resp = 200"
  shows "\<exists>a s u ack tok pfb.
      ToNumber rt (field payload ''ask'') = Inr a
      \<and> ToNumber rt (if truthy (slippage_of payload) then slippage_of payload
                       else JNum (Fin 0)) = Inr s
      \<and> ToNumber rt (field payload ''amountUsd'') = Inr u
      \<and> resp = json (success_body ack (js_div u (order_price a s)) (order_price a s) tok pfb)
                 200"
  using handleTrade_browser_run_shape [OF run]
proof (elim disjE exE conjE)
  assume "case Inr resp of Inl e \<Rightarrow> True
          | Inr resp \<Rightarrow> status resp = 400 \<or> status resp = 401"
  with ok show ?thesis
    by simp
next
  fix e :: exn
  assume "Inr resp = Inl e"
  then show ?thesis
    by simp
next
  fix payload' resolved fetches signer a s u
  assume p: "JSON_parse rt (raw_body request) = Inr payload'"
    and conv: "ToNumber rt (field payload' ''ask'') = Inr a"
      "ToNumber rt (if truthy (slippage_of payload') then slippage_of payload'
                    else JNum (Fin 0)) = Inr s"
      "ToNumber rt (field payload' ''amountUsd'') = Inr u"
    and r: "Inr resp =
         (case place ext (client_of rt env signer)
                 (order_record rt (field payload' ''side'') (field resolved ''tokenId'')
                    (order_price a s) (js_div u (order_price a s))) of
            Inl e \<Rightarrow> Inr (json (error_body (''place() failed: '' @ message e)) 502)
          | Inr (Unserialisable msg) \<Rightarrow> Inl (Exn msg)
          | Inr (Serialisable ack) \<Rightarrow>
              Inr (json (success_body ack (js_div u (order_price a s)) (order_price a s)
                           (field resolved ''tokenId'') (field resolved ''priceFromBook''))
                     200))"
  from p parsed have same: "payload' = payload"
    by simp
  from r ok have "\<exists>ack. resp = json (success_body ack (js_div u (order_price a s))
      (order_price a s) (field resolved ''tokenId'') (field resolved ''priceFromBook'')) 200"
    by (auto simp: json_def split: sum.splits placed.splits)
  with conv same show ?thesis
    by blast
qed

section \<open>Evaluating the arithmetic\<close>

lemma bit_length_eval:
  "bit_length 0 = 0"
  "bit_length 1 = 1"
  "bit_length (numeral k) = 1 + bit_length (numeral k div 2)"
  "bit_length (- numeral k) = 0"
  by (simp_all add: bit_length.simps)

lemma floor_rat_eval:
  "\<lfloor>numeral a / numeral b :: rat\<rfloor> = numeral a div numeral b"
  "\<lfloor>1 / numeral b :: rat\<rfloor> = 1 div numeral b"
  "\<lceil>numeral a / numeral b :: rat\<rceil> = - (- numeral a div numeral b)"
  "\<lceil>1 / numeral b :: rat\<rceil> = - (- 1 div numeral b)"
     apply (metis floor_divide_of_int_eq of_int_numeral)
    apply (metis floor_divide_of_int_eq of_int_numeral of_int_1)
   apply (metis ceiling_def floor_divide_of_int_eq minus_divide_left of_int_minus of_int_numeral)
  apply (metis ceiling_def floor_divide_of_int_eq minus_divide_left of_int_minus of_int_numeral of_int_1)
  done

lemmas round_eval =
  round_double_def floor_log2_def pow2_def round_half_even_def Let_def
  bit_length_eval floor_rat_eval

text \<open>The decimal literals of the examples.\<close>

lemma double_0_02: "round_double (1 / 50) = Fin (5764607523034235 / 288230376151711744)"
  by (simp add: round_eval)

lemma double_0_01: "round_double (1 / 100) = Fin (5764607523034235 / 576460752303423488)"
  by (simp add: round_eval)


lemma double_1_01: "round_double (101 / 100) = Fin (4548635623644201 / 4503599627370496)"
  by (simp add: round_eval)

lemma double_0_505: "round_double (101 / 200) = Fin (4548635623644201 / 9007199254740992)"
  by (simp add: round_eval)

text \<open>The operations the examples perform.\<close>

lemma sum_1_0_02:
  "js_add (Fin 1) (Fin (5764607523034235 / 288230376151711744)) = Fin (2296835809958953 / 2251799813685248)"
  by (simp add: round_eval)

lemma product_trade:
  "js_mul (Fin (1 / 2)) (Fin (2296835809958953 / 2251799813685248)) = Fin (2296835809958953 / 4503599627370496)"
  by (simp add: round_eval)

lemma quotient_trade:
  "js_div (Fin 100) (Fin (2296835809958953 / 4503599627370496)) = Fin (3449448244003137 / 17592186044416)"
  by (simp add: round_eval)

lemma cost_trade:
  "js_mul (Fin (3449448244003137 / 17592186044416)) (Fin (2296835809958953 / 4503599627370496)) = Fin 100"
  by (simp add: round_eval)

lemma sum_1_0_01:
  "js_add (Fin 1) (Fin (5764607523034235 / 576460752303423488)) = Fin (4548635623644201 / 4503599627370496)"
  by (simp add: round_eval)

lemma product_noslip:
  "js_mul (Fin (1 / 2)) (Fin (4548635623644201 / 4503599627370496)) = Fin (4548635623644201 / 9007199254740992)"
  by (simp add: round_eval)

lemma quotient_noslip:
  "js_div (Fin 100) (Fin (4548635623644201 / 9007199254740992)) = Fin (6967202393828119 / 35184372088832)"
  by (simp add: round_eval)

lemma cost_noslip:
  "js_mul (Fin (6967202393828119 / 35184372088832)) (Fin (4548635623644201 / 9007199254740992)) = Fin 100"
  by (simp add: round_eval)

lemma sum_1_0:
  "js_add (Fin 1) (Fin 0) = Fin 1"
  by (simp add: round_eval)

lemma product_slip0:
  "js_mul (Fin (1 / 2)) (Fin 1) = Fin (1 / 2)"
  by (simp add: round_eval)

lemma quotient_slip0:
  "js_div (Fin 100) (Fin (1 / 2)) = Fin 200"
  by (simp add: round_eval)

lemma cost_slip0:
  "js_mul (Fin 200) (Fin (1 / 2)) = Fin 100"
  by (simp add: round_eval)

lemma product_zero:
  "js_mul (Fin (- 1)) (Fin (4548635623644201 / 4503599627370496)) = Fin (- (4548635623644201 / 4503599627370496))"
  by (simp add: round_eval)

lemma product_cent:
  "js_mul (Fin (5764607523034235 / 576460752303423488)) (Fin (4548635623644201 / 4503599627370496)) = Fin (5822253598264577 / 576460752303423488)"
  by (simp add: round_eval)

lemma quotient_cent:
  "js_div (Fin 1000) (Fin (5822253598264577 / 576460752303423488)) = Fin (6803908587722773 / 68719476736)"
  by (simp add: round_eval)

lemma cost_cent:
  "js_mul (Fin (6803908587722773 / 68719476736)) (Fin (5822253598264577 / 576460752303423488)) = Fin (8796093022208001 / 8796093022208)"
  by (simp add: round_eval)


lemma quotient_zero: "js_div (Fin 100) (Fin 0) = PosInf"
  by (simp add: signed_inf_def)

lemmas arith_facts =
  double_0_02 double_0_01 sum_1_0_02 product_trade quotient_trade cost_trade
  sum_1_0_01 product_noslip quotient_noslip cost_noslip
  sum_1_0 product_slip0 quotient_slip0 cost_slip0
  product_zero quotient_zero product_cent quotient_cent cost_cent

section \<open>A request that reaches the exchange client\<close>

text \<open>The run of \<open>handleTrade\<close> on an authenticated request with a valid payload and a
  resolved market, whose three numeric conversions return and whose signer is built: it
  is decided by the credential step and the submission alone.\<close>

lemma handleTrade_reaches_client:
  assumes auth: "authenticated rt env request"
    and parsed: "JSON_parse rt (raw_body request) = Inr payload"
    and valid: "valid_payload payload"
    and resolved: "resolveTokenId rt ext (field payload ''conditionId'')
                     (field payload ''marketId'') (field payload ''side'') = (resolved, fetches)"
    and ok: "truthy (field resolved ''ok'')"
    and a: "ToNumber rt (field payload ''ask'') = Inr a"
    and s: "ToNumber rt (if truthy (slippage_of payload) then slippage_of payload
                         else JNum (Fin 0)) = Inr s"
    and u: "ToNumber rt (field payload ''amountUsd'') = Inr u"
    and w: "Wallet ext (PRIVATE_KEY env) = Inr signer"
  shows "handleTrade rt env ext request =
     (case createOrDeriveApiKey ext (client_of rt env signer) (toLowerCase (address signer)) of
        Inl e \<Rightarrow>
          (Inl e, fetches @ [CreateOrDeriveApiKey (client_of rt env signer)
                               (toLowerCase (address signer))])
      | Inr done \<Rightarrow>
          ((case place ext (client_of rt env signer)
                  (order_record rt (field payload ''side'') (field resolved ''tokenId'')
                     (order_price a s) (js_div u (order_price a s))) of
             Inl e \<Rightarrow> Inr (json (error_body (''place() failed: '' @ message e)) 502)
           | Inr (Unserialisable msg) \<Rightarrow>
               Inr (json (error_body (''place() failed: '' @ msg)) 502)
           | Inr (Serialisable ack) \<Rightarrow>
               Inr (json (success_body ack (js_div u (order_price a s)) (order_price a s)
                            (field resolved ''tokenId'') (field resolved ''priceFromBook''))
                       200)),
           fetches @
           [CreateOrDeriveApiKey (client_of rt env signer) (toLowerCase (address signer)),
            Place (client_of rt env signer)
              (order_record rt (field payload ''side'') (field resolved ''tokenId'')
                 (order_price a s) (js_div u (order_price a s)))]))"
proof -
  have "handleTrade rt env ext request = handleTrade_payload rt env ext payload"
    by (simp add: handleTrade_authenticated [OF auth] parsed)
  also have "\<dots> =
      (case handleTrade_order rt env ext (field payload ''side'') (field payload ''ask'')
              (field payload ''amountUsd'') (slippage_of payload) (field resolved ''tokenId'')
              (field resolved ''priceFromBook'') of
         (res, calls') \<Rightarrow> (res, fetches @ calls'))"
    by (simp add: handleTrade_payload_valid [OF valid resolved] ok)
  finally show ?thesis
    by (cases "createOrDeriveApiKey ext (client_of rt env signer)
                 (toLowerCase (address signer))")
       (simp_all add: handleTrade_order_converted [OF a s u w])
qed

lemma handleTrade_browser_reaches_client:
  assumes auth: "authenticated rt env request"
    and parsed: "JSON_parse rt (raw_body request) = Inr payload"
    and valid: "valid_payload payload"
    and resolved: "resolveTokenId rt ext (field payload ''conditionId'')
                     (field payload ''marketId'') (field payload ''side'') = (resolved, fetches)"
    and ok: "truthy (field resolved ''ok'')"
    and a: "ToNumber rt (field payload ''ask'') = Inr a"
    and s: "ToNumber rt (if truthy (slippage_of payload) then slippage_of payload
                         else JNum (Fin 0)) = Inr s"
    and u: "ToNumber rt (field payload ''amountUsd'') = Inr u"
    and w: "Wallet ext (PRIVATE_KEY env) = Inr signer"
  shows "handleTrade_browser rt env ext request =
     (case createOrDeriveApiKey ext (client_of rt env signer) (toLowerCase (address signer)) of
        Inl e \<Rightarrow>
          (Inl e, fetches @ [CreateOrDeriveApiKey (client_of rt env signer)
                               (toLowerCase (address signer))])
      | Inr done \<Rightarrow>
          ((case place ext (client_of rt env signer)
                  (order_record rt (field payload ''side'') (field resolved ''tokenId'')
                     (order_price a s) (js_div u (order_price a s))) of
             Inl e \<Rightarrow> Inr (json (error_body (''place() failed: '' @ message e)) 502)
           | Inr (Unserialisable msg) \<Rightarrow> Inl (Exn msg)
           | Inr (Serialisable ack) \<Rightarrow>
               Inr (json (success_body ack (js_div u (order_price a s)) (order_price a s)
                            (field resolved ''tokenId'') (field resolved ''priceFromBook''))
                       200)),
           fetches @
           [CreateOrDeriveApiKey (client_of rt env signer) (toLowerCase (address signer)),
            Place (client_of rt env signer)
              (order_record rt (field payload ''side'') (field resolved ''tokenId'')
                 (order_price a s) (js_div u (order_price a s)))]))"
proof -
  have "handleTrade_browser rt env ext request = handleTrade_payload_browser rt env ext payload"
    by (simp add: handleTrade_browser_authenticated [OF auth] parsed)
  also have "\<dots> =
      (case handleTrade_order_browser rt env ext (field payload ''side'')
              (field payload ''ask'') (field payload ''amountUsd'') (slippage_of payload)
              (field resolved ''tokenId'') (field resolved ''priceFromBook'') of
         (res, calls') \<Rightarrow> (res, fetches @ calls'))"
    by (simp add: handleTrade_payload_browser_valid [OF valid resolved] ok)
  finally show ?thesis
    by (cases "createOrDeriveApiKey ext (client_of rt env signer)
                 (toLowerCase (address signer))")
       (simp_all add: handleTrade_order_browser_converted [OF a s u w])
qed

text \<open>The four outcomes, one equation each.\<close>

lemma handleTrade_acknowledged:
  assumes "authenticated rt env request"
    and "JSON_parse rt (raw_body request) = Inr payload"
    and "valid_payload payload"
    and "resolveTokenId rt ext (field payload ''conditionId'')
           (field payload ''marketId'') (field payload ''side'') = (resolved, fetches)"
    and "truthy (field resolved ''ok'')"
    and "ToNumber rt (field payload ''ask'') = Inr a"
    and "ToNumber rt (if truthy (slippage_of payload) then slippage_of payload
                      else JNum (Fin 0)) = Inr s"
    and "ToNumber rt (field payload ''amountUsd'') = Inr u"
    and "Wallet ext (PRIVATE_KEY env) = Inr signer"
    and k: "createOrDeriveApiKey ext (client_of rt env signer) (toLowerCase (address signer))
              = Inr ()"
    and p: "place ext (client_of rt env signer)
              (order_record rt (field payload ''side'') (field resolved ''tokenId'')
                 (order_price a s) (js_div u (order_price a s))) = Inr (Serialisable ack)"
  shows "handleTrade rt env ext request =
           (Inr (json (success_body ack (js_div u (order_price a s)) (order_price a s)
                         (field resolved ''tokenId'') (field resolved ''priceFromBook'')) 200),
            fetches @
            [CreateOrDeriveApiKey (client_of rt env signer) (toLowerCase (address signer)),
             Place (client_of rt env signer)
               (order_record rt (field payload ''side'') (field resolved ''tokenId'')
                  (order_price a s) (js_div u (order_price a s)))])"
    and "handleTrade_browser rt env ext request =
           (Inr (json (success_body ack (js_div u (order_price a s)) (order_price a s)
                         (field resolved ''tokenId'') (field resolved ''priceFromBook'')) 200),
            fetches @
            [CreateOrDeriveApiKey (client_of rt env signer) (toLowerCase (address signer)),
             Place (client_of rt env signer)
               (order_record rt (field payload ''side'') (field resolved ''tokenId'')
                  (order_price a s) (js_div u (order_price a s)))])"
  by (simp_all add: handleTrade_reaches_client [OF assms(1-9)]
      handleTrade_browser_reaches_client [OF assms(1-9)] k p)

lemma handleTrade_credential_throws:
  assumes "authenticated rt env request"
    and "JSON_parse rt (raw_body request) = Inr payload"
    and "valid_payload payload"
    and "resolveTokenId rt ext (field payload ''conditionId'')
           (field payload ''marketId'') (field payload ''side'') = (resolved, fetches)"
    and "truthy (field resolved ''ok'')"
    and "ToNumber rt (field payload ''ask'') = Inr a"
    and "ToNumber rt (if truthy (slippage_of payload) then slippage_of payload
                      else JNum (Fin 0)) = Inr s"
    and "ToNumber rt (field payload ''amountUsd'') = Inr u"
    and "Wallet ext (PRIVATE_KEY env) = Inr signer"
    and k: "createOrDeriveApiKey ext (client_of rt env signer) (toLowerCase (address signer))
              = Inl e"
  shows "handleTrade rt env ext request =
           (Inl e, fetches @ [CreateOrDeriveApiKey (client_of rt env signer)
                                (toLowerCase (address signer))])"
    and "handleTrade_browser rt env ext request =
           (Inl e, fetches @ [CreateOrDeriveApiKey (client_of rt env signer)
                                (toLowerCase (address signer))])"
  by (simp_all add: handleTrade_reaches_client [OF assms(1-9)]
      handleTrade_browser_reaches_client [OF assms(1-9)] k)

lemma handleTrade_place_throws:
  assumes "authenticated rt env request"
    and "JSON_parse rt (raw_body request) = Inr payload"
    and "valid_payload payload"
    and "resolveTokenId rt ext (field payload ''conditionId'')
           (field payload ''marketId'') (field payload ''side'') = (resolved, fetches)"
    and "truthy (field resolved ''ok'')"
    and "ToNumber rt (field payload ''ask'') = Inr a"
    and "ToNumber rt (if truthy (slippage_of payload) then slippage_of payload
                      else JNum (Fin 0)) = Inr s"
    and "ToNumber rt (field payload ''amountUsd'') = Inr u"
    and "Wallet ext (PRIVATE_KEY env) = Inr signer"
    and k: "createOrDeriveApiKey ext (client_of rt env signer) (toLowerCase (address signer))
              = Inr ()"
    and p: "place ext (client_of rt env signer)
              (order_record rt (field payload ''side'') (field resolved ''tokenId'')
                 (order_price a s) (js_div u (order_price a s))) = Inl e"
  shows "handleTrade rt env ext request =
           (Inr (json (error_body (''place() failed: '' @ message e)) 502),
            fetches @
            [CreateOrDeriveApiKey (client_of rt env signer) (toLowerCase (address signer)),
             Place (client_of rt env signer)
               (order_record rt (field payload ''side'') (field resolved ''tokenId'')
                  (order_price a s) (js_div u (order_price a s)))])"
    and "handleTrade_browser rt env ext request =
           (Inr (json (error_body (''place() failed: '' @ message e)) 502),
            fetches @
            [CreateOrDeriveApiKey (client_of rt env signer) (toLowerCase (address signer)),
             Place (client_of rt env signer)
               (order_record rt (field payload ''side'') (field resolved ''tokenId'')
                  (order_price a s) (js_div u (order_price a s)))])"
  by (simp_all add: handleTrade_reaches_client [OF assms(1-9)]
      handleTrade_browser_reaches_client [OF assms(1-9)] k p)

lemma handleTrade_unserialisable:
  assumes "authenticated rt env request"
    and "JSON_parse rt (raw_body request) = Inr payload"
    and "valid_payload payload"
    and "resolveTokenId rt ext (field payload ''conditionId'')
           (field payload ''marketId'') (field payload ''side'') = (resolved, fetches)"
    and "truthy (field resolved ''ok'')"
    and "ToNumber rt (field payload ''ask'') = Inr a"
    and "ToNumber rt (if truthy (slippage_of payload) then slippage_of payload
                      else JNum (Fin 0)) = Inr s"
    and "ToNumber rt (field payload ''amountUsd'') = Inr u"
    and "Wallet ext (PRIVATE_KEY env) = Inr signer"
    and k: "createOrDeriveApiKey ext (client_of rt env signer) (toLowerCase (address signer))
              = Inr ()"
    and p: "place ext (client_of rt env signer)
              (order_record rt (field payload ''side'') (field resolved ''tokenId'')
                 (order_price a s) (js_div u (order_price a s))) = Inr (Unserialisable msg)"
  shows "handleTrade rt env ext request =
           (Inr (json (error_body (''place() failed: '' @ msg)) 502),
            fetches @
            [CreateOrDeriveApiKey (client_of rt env signer) (toLowerCase (address signer)),
             Place (client_of rt env signer)
               (order_record rt (field payload ''side'') (field resolved ''tokenId'')
                  (order_price a s) (js_div u (order_price a s)))])"
    and "handleTrade_browser rt env ext request =
           (Inl (Exn msg),
            fetches @
            [CreateOrDeriveApiKey (client_of rt env signer) (toLowerCase (address signer)),
             Place (client_of rt env signer)
               (order_record rt (field payload ''side'') (field resolved ''tokenId'')
                  (order_price a s) (js_div u (order_price a s)))])"
  by (simp_all add: handleTrade_reaches_client [OF assms(1-9)]
      handleTrade_browser_reaches_client [OF assms(1-9)] k p)

section \<open>The concrete runs\<close>

lemmas example_defs =
  rt0_def env0_def ext0_def ext_key_throws_def ext_place_throws_def ext_bigint_def
  ext_unnamed_def market_unnamed_def client0_def lookup0_def resolved0_def signer0_def
  ack0_def hmac_table_def json_table_def secret0_def market0_def
  body_trade_def payload_trade_def digest_trade_def req_trade_def
  body_slip0_def payload_slip0_def digest_slip0_def req_slip0_def
  body_noslip_def payload_noslip_def digest_noslip_def req_noslip_def
  body_maybe_def payload_maybe_def digest_maybe_def req_maybe_def
  body_null_def digest_null_def req_null_def
  body_amount0_def payload_amount0_def digest_amount0_def req_amount0_def
  body_side_def payload_side_def digest_side_def req_side_def
  body_zero_def payload_zero_def digest_zero_def req_zero_def
  body_inf_def payload_inf_def digest_inf_def req_inf_def
  body_cent_def payload_cent_def digest_cent_def req_cent_def
  digest_rfc4231_def req_forged_def req_unsigned_def req_untagged_def

lemmas model_defs =
  worker_fetch_def handleTrade_def handleTrade_payload_def handleTrade_order_def
  resolveTokenId_def resolveTokenId_try_def resolveTokenId_response_def
  resolveTokenId_market_def best_ask_price_def
  worker_fetch_browser_def handleTrade_browser_def handleTrade_payload_browser_def
  handleTrade_order_browser_def resolveTokenId_browser_def resolveTokenId_try_browser_def
  resolveTokenId_response_browser_def resolveTokenId_market_browser_def
  best_ask_price_browser_def clamp01_browser_def j_def verifyHmac_browser_eq
  outcomes_findIndex_def encodeURIComponent_of_def get_prop_def opt_field_def r_ok_def
  json_def clamp01_def startsWith_def slice_def verifyHmac_eq hmac_hex_def hex_byte_def
  hex_digit_def trim_def is_space_def toLowerCase_def toLowerCase_char_def digit_char_def
  signed_inf_def Let_def authenticated_def valid_payload_def
  success_body_def fills_record_def client_of_def order_record_def error_body_def
  order_price_def slippage_of_def

lemma char_of_a_to_f:
  "char_of (97 :: nat) = CHR ''a''" "char_of (98 :: nat) = CHR ''b''"
  "char_of (99 :: nat) = CHR ''c''" "char_of (100 :: nat) = CHR ''d''"
  "char_of (101 :: nat) = CHR ''e''" "char_of (102 :: nat) = CHR ''f''"
  by code_simp+

lemma wallet0: "Wallet ext0 (PRIVATE_KEY env0) = Inr signer0"
  by (simp add: ext0_def)

lemma key0: "createOrDeriveApiKey ext0 c addr = Inr ()"
  by (simp add: ext0_def)

lemma place0: "place ext0 c ord = Inr (Serialisable ack0)"
  by (simp add: ext0_def)

lemma addr0: "toLowerCase (address signer0) = ''0xabcdef''"
  by (simp add: signer0_def toLowerCase_def toLowerCase_char_def char_of_a_to_f)

lemma ok0: "truthy (field resolved0 ''ok'')"
  by (simp add: resolved0_def)

lemma resolve0:
  "resolveTokenId rt0 ext0 (JStr ''0xabc'') JUndefined (JStr ''YES'') = (resolved0, [lookup0])"
  by (simp add: example_defs model_defs)

lemma parse_trade: "JSON_parse rt0 (raw_body req_trade) = Inr payload_trade"
  by (simp add: example_defs)

lemma auth_trade: "authenticated rt0 env0 req_trade"
  by (simp add: example_defs model_defs)

lemma parse_slip0: "JSON_parse rt0 (raw_body req_slip0) = Inr payload_slip0"
  by (simp add: example_defs)

lemma auth_slip0: "authenticated rt0 env0 req_slip0"
  by (simp add: example_defs model_defs)

lemma parse_noslip: "JSON_parse rt0 (raw_body req_noslip) = Inr payload_noslip"
  by (simp add: example_defs)

lemma auth_noslip: "authenticated rt0 env0 req_noslip"
  by (simp add: example_defs model_defs)

lemma parse_maybe: "JSON_parse rt0 (raw_body req_maybe) = Inr payload_maybe"
  by (simp add: example_defs)

lemma auth_maybe: "authenticated rt0 env0 req_maybe"
  by (simp add: example_defs model_defs)







lemma parse_zero: "JSON_parse rt0 (raw_body req_zero) = Inr payload_zero"
  by (simp add: example_defs)

lemma auth_zero: "authenticated rt0 env0 req_zero"
  by (simp add: example_defs model_defs)

lemma parse_inf: "JSON_parse rt0 (raw_body req_inf) = Inr payload_inf"
  by (simp add: example_defs)

lemma auth_inf: "authenticated rt0 env0 req_inf"
  by (simp add: example_defs model_defs)



lemma valid_trade: "valid_payload payload_trade"
  by (simp add: payload_trade_def valid_payload_def arith_facts)

lemma resolve_trade:
  "resolveTokenId rt0 ext0 (field payload_trade ''conditionId'') (field payload_trade ''marketId'')
     (field payload_trade ''side'') = (resolved0, [lookup0])"
  by (simp add: payload_trade_def resolve0)

lemma ask_trade: "ToNumber rt0 (field payload_trade ''ask'') = Inr (Fin (1 / 2))"
  by (simp add: payload_trade_def)

lemma slippage_trade:
  "ToNumber rt0 (if truthy (slippage_of payload_trade) then slippage_of payload_trade
                 else JNum (Fin 0)) = Inr (round_double (1 / 50))"
  by (simp add: payload_trade_def slippage_of_def arith_facts)

lemma amount_trade: "ToNumber rt0 (field payload_trade ''amountUsd'') = Inr (Fin 100)"
  by (simp add: payload_trade_def)

lemma valid_slip0: "valid_payload payload_slip0"
  by (simp add: payload_slip0_def valid_payload_def arith_facts)

lemma resolve_slip0:
  "resolveTokenId rt0 ext0 (field payload_slip0 ''conditionId'') (field payload_slip0 ''marketId'')
     (field payload_slip0 ''side'') = (resolved0, [lookup0])"
  by (simp add: payload_slip0_def resolve0)

lemma ask_slip0: "ToNumber rt0 (field payload_slip0 ''ask'') = Inr (Fin (1 / 2))"
  by (simp add: payload_slip0_def)

lemma slippage_slip0:
  "ToNumber rt0 (if truthy (slippage_of payload_slip0) then slippage_of payload_slip0
                 else JNum (Fin 0)) = Inr (Fin 0)"
  by (simp add: payload_slip0_def slippage_of_def arith_facts)

lemma amount_slip0: "ToNumber rt0 (field payload_slip0 ''amountUsd'') = Inr (Fin 100)"
  by (simp add: payload_slip0_def)

lemma valid_noslip: "valid_payload payload_noslip"
  by (simp add: payload_noslip_def valid_payload_def arith_facts)

lemma resolve_noslip:
  "resolveTokenId rt0 ext0 (field payload_noslip ''conditionId'') (field payload_noslip ''marketId'')
     (field payload_noslip ''side'') = (resolved0, [lookup0])"
  by (simp add: payload_noslip_def resolve0)

lemma ask_noslip: "ToNumber rt0 (field payload_noslip ''ask'') = Inr (Fin (1 / 2))"
  by (simp add: payload_noslip_def)

lemma slippage_noslip:
  "ToNumber rt0 (if truthy (slippage_of payload_noslip) then slippage_of payload_noslip
                 else JNum (Fin 0)) = Inr (round_double (1 / 100))"
  by (simp add: payload_noslip_def slippage_of_def arith_facts)

lemma amount_noslip: "ToNumber rt0 (field payload_noslip ''amountUsd'') = Inr (Fin 100)"
  by (simp add: payload_noslip_def)

lemma valid_zero: "valid_payload payload_zero"
  by (simp add: payload_zero_def valid_payload_def arith_facts)

lemma resolve_zero:
  "resolveTokenId rt0 ext0 (field payload_zero ''conditionId'') (field payload_zero ''marketId'')
     (field payload_zero ''side'') = (resolved0, [lookup0])"
  by (simp add: payload_zero_def resolve0)

lemma ask_zero: "ToNumber rt0 (field payload_zero ''ask'') = Inr (Fin (- 1))"
  by (simp add: payload_zero_def)

lemma slippage_zero:
  "ToNumber rt0 (if truthy (slippage_of payload_zero) then slippage_of payload_zero
                 else JNum (Fin 0)) = Inr (round_double (1 / 100))"
  by (simp add: payload_zero_def slippage_of_def arith_facts)

lemma amount_zero: "ToNumber rt0 (field payload_zero ''amountUsd'') = Inr (Fin 100)"
  by (simp add: payload_zero_def)

lemma valid_inf: "valid_payload payload_inf"
  by (simp add: payload_inf_def valid_payload_def arith_facts)

lemma resolve_inf:
  "resolveTokenId rt0 ext0 (field payload_inf ''conditionId'') (field payload_inf ''marketId'')
     (field payload_inf ''side'') = (resolved0, [lookup0])"
  by (simp add: payload_inf_def resolve0)

lemma ask_inf: "ToNumber rt0 (field payload_inf ''ask'') = Inr (PosInf)"
  by (simp add: payload_inf_def)

lemma slippage_inf:
  "ToNumber rt0 (if truthy (slippage_of payload_inf) then slippage_of payload_inf
                 else JNum (Fin 0)) = Inr (round_double (1 / 100))"
  by (simp add: payload_inf_def slippage_of_def arith_facts)

lemma amount_inf: "ToNumber rt0 (field payload_inf ''amountUsd'') = Inr (Fin 100)"
  by (simp add: payload_inf_def)






lemma run_trade:
  "handleTrade rt0 env0 ext0 req_trade =
     (Inr (json (success_body ack0 (js_div (Fin 100) (order_price (Fin (1 / 2)) (round_double (1 / 50))))
                   (order_price (Fin (1 / 2)) (round_double (1 / 50))) (JStr ''A'') (JNum (Fin (1 / 2)))) 200),
      [lookup0, CreateOrDeriveApiKey client0 ''0xabcdef'',
       Place client0 (order_record rt0 (JStr ''YES'') (JStr ''A'')
                        (order_price (Fin (1 / 2)) (round_double (1 / 50)))
                        (js_div (Fin 100) (order_price (Fin (1 / 2)) (round_double (1 / 50)))))])"
  using handleTrade_acknowledged(1) [OF auth_trade parse_trade valid_trade resolve_trade ok0 ask_trade
      slippage_trade amount_trade wallet0 key0 place0]
  by (simp add: client0_def addr0 payload_trade_def resolved0_def)

lemma run_browser_trade:
  "handleTrade_browser rt0 env0 ext0 req_trade =
     (Inr (json (success_body ack0 (js_div (Fin 100) (order_price (Fin (1 / 2)) (round_double (1 / 50))))
                   (order_price (Fin (1 / 2)) (round_double (1 / 50))) (JStr ''A'') (JNum (Fin (1 / 2)))) 200),
      [lookup0, CreateOrDeriveApiKey client0 ''0xabcdef'',
       Place client0 (order_record rt0 (JStr ''YES'') (JStr ''A'')
                        (order_price (Fin (1 / 2)) (round_double (1 / 50)))
                        (js_div (Fin 100) (order_price (Fin (1 / 2)) (round_double (1 / 50)))))])"
  using handleTrade_acknowledged(2) [OF auth_trade parse_trade valid_trade resolve_trade ok0 ask_trade
      slippage_trade amount_trade wallet0 key0 place0]
  by (simp add: client0_def addr0 payload_trade_def resolved0_def)

lemma run_slip0:
  "handleTrade rt0 env0 ext0 req_slip0 =
     (Inr (json (success_body ack0 (js_div (Fin 100) (order_price (Fin (1 / 2)) (Fin 0)))
                   (order_price (Fin (1 / 2)) (Fin 0)) (JStr ''A'') (JNum (Fin (1 / 2)))) 200),
      [lookup0, CreateOrDeriveApiKey client0 ''0xabcdef'',
       Place client0 (order_record rt0 (JStr ''YES'') (JStr ''A'')
                        (order_price (Fin (1 / 2)) (Fin 0))
                        (js_div (Fin 100) (order_price (Fin (1 / 2)) (Fin 0))))])"
  using handleTrade_acknowledged(1) [OF auth_slip0 parse_slip0 valid_slip0 resolve_slip0 ok0 ask_slip0
      slippage_slip0 amount_slip0 wallet0 key0 place0]
  by (simp add: client0_def addr0 payload_slip0_def resolved0_def)

lemma run_browser_slip0:
  "handleTrade_browser rt0 env0 ext0 req_slip0 =
     (Inr (json (success_body ack0 (js_div (Fin 100) (order_price (Fin (1 / 2)) (Fin 0)))
                   (order_price (Fin (1 / 2)) (Fin 0)) (JStr ''A'') (JNum (Fin (1 / 2)))) 200),
      [lookup0, CreateOrDeriveApiKey client0 ''0xabcdef'',
       Place client0 (order_record rt0 (JStr ''YES'') (JStr ''A'')
                        (order_price (Fin (1 / 2)) (Fin 0))
                        (js_div (Fin 100) (order_price (Fin (1 / 2)) (Fin 0))))])"
  using handleTrade_acknowledged(2) [OF auth_slip0 parse_slip0 valid_slip0 resolve_slip0 ok0 ask_slip0
      slippage_slip0 amount_slip0 wallet0 key0 place0]
  by (simp add: client0_def addr0 payload_slip0_def resolved0_def)

lemma run_noslip:
  "handleTrade rt0 env0 ext0 req_noslip =
     (Inr (json (success_body ack0 (js_div (Fin 100) (order_price (Fin (1 / 2)) (round_double (1 / 100))))
                   (order_price (Fin (1 / 2)) (round_double (1 / 100))) (JStr ''A'') (JNum (Fin (1 / 2)))) 200),
      [lookup0, CreateOrDeriveApiKey client0 ''0xabcdef'',
       Place client0 (order_record rt0 (JStr ''YES'') (JStr ''A'')
                        (order_price (Fin (1 / 2)) (round_double (1 / 100)))
                        (js_div (Fin 100) (order_price (Fin (1 / 2)) (round_double (1 / 100)))))])"
  using handleTrade_acknowledged(1) [OF auth_noslip parse_noslip valid_noslip resolve_noslip ok0 ask_noslip
      slippage_noslip amount_noslip wallet0 key0 place0]
  by (simp add: client0_def addr0 payload_noslip_def resolved0_def)

lemma run_browser_noslip:
  "handleTrade_browser rt0 env0 ext0 req_noslip =
     (Inr (json (success_body ack0 (js_div (Fin 100) (order_price (Fin (1 / 2)) (round_double (1 / 100))))
                   (order_price (Fin (1 / 2)) (round_double (1 / 100))) (JStr ''A'') (JNum (Fin (1 / 2)))) 200),
      [lookup0, CreateOrDeriveApiKey client0 ''0xabcdef'',
       Place client0 (order_record rt0 (JStr ''YES'') (JStr ''A'')
                        (order_price (Fin (1 / 2)) (round_double (1 / 100)))
                        (js_div (Fin 100) (order_price (Fin (1 / 2)) (round_double (1 / 100)))))])"
  using handleTrade_acknowledged(2) [OF auth_noslip parse_noslip valid_noslip resolve_noslip ok0 ask_noslip
      slippage_noslip amount_noslip wallet0 key0 place0]
  by (simp add: client0_def addr0 payload_noslip_def resolved0_def)

lemma run_zero:
  "handleTrade rt0 env0 ext0 req_zero =
     (Inr (json (success_body ack0 (js_div (Fin 100) (order_price (Fin (- 1)) (round_double (1 / 100))))
                   (order_price (Fin (- 1)) (round_double (1 / 100))) (JStr ''A'') (JNum (Fin (1 / 2)))) 200),
      [lookup0, CreateOrDeriveApiKey client0 ''0xabcdef'',
       Place client0 (order_record rt0 (JStr ''YES'') (JStr ''A'')
                        (order_price (Fin (- 1)) (round_double (1 / 100)))
                        (js_div (Fin 100) (order_price (Fin (- 1)) (round_double (1 / 100)))))])"
  using handleTrade_acknowledged(1) [OF auth_zero parse_zero valid_zero resolve_zero ok0 ask_zero
      slippage_zero amount_zero wallet0 key0 place0]
  by (simp add: client0_def addr0 payload_zero_def resolved0_def)

lemma run_browser_zero:
  "handleTrade_browser rt0 env0 ext0 req_zero =
     (Inr (json (success_body ack0 (js_div (Fin 100) (order_price (Fin (- 1)) (round_double (1 / 100))))
                   (order_price (Fin (- 1)) (round_double (1 / 100))) (JStr ''A'') (JNum (Fin (1 / 2)))) 200),
      [lookup0, CreateOrDeriveApiKey client0 ''0xabcdef'',
       Place client0 (order_record rt0 (JStr ''YES'') (JStr ''A'')
                        (order_price (Fin (- 1)) (round_double (1 / 100)))
                        (js_div (Fin 100) (order_price (Fin (- 1)) (round_double (1 / 100)))))])"
  using handleTrade_acknowledged(2) [OF auth_zero parse_zero valid_zero resolve_zero ok0 ask_zero
      slippage_zero amount_zero wallet0 key0 place0]
  by (simp add: client0_def addr0 payload_zero_def resolved0_def)

lemma run_inf:
  "handleTrade rt0 env0 ext0 req_inf =
     (Inr (json (success_body ack0 (js_div (Fin 100) (order_price (PosInf) (round_double (1 / 100))))
                   (order_price (PosInf) (round_double (1 / 100))) (JStr ''A'') (JNum (Fin (1 / 2)))) 200),
      [lookup0, CreateOrDeriveApiKey client0 ''0xabcdef'',
       Place client0 (order_record rt0 (JStr ''YES'') (JStr ''A'')
                        (order_price (PosInf) (round_double (1 / 100)))
                        (js_div (Fin 100) (order_price (PosInf) (round_double (1 / 100)))))])"
  using handleTrade_acknowledged(1) [OF auth_inf parse_inf valid_inf resolve_inf ok0 ask_inf
      slippage_inf amount_inf wallet0 key0 place0]
  by (simp add: client0_def addr0 payload_inf_def resolved0_def)

lemma run_browser_inf:
  "handleTrade_browser rt0 env0 ext0 req_inf =
     (Inr (json (success_body ack0 (js_div (Fin 100) (order_price (PosInf) (round_double (1 / 100))))
                   (order_price (PosInf) (round_double (1 / 100))) (JStr ''A'') (JNum (Fin (1 / 2)))) 200),
      [lookup0, CreateOrDeriveApiKey client0 ''0xabcdef'',
       Place client0 (order_record rt0 (JStr ''YES'') (JStr ''A'')
                        (order_price (PosInf) (round_double (1 / 100)))
                        (js_div (Fin 100) (order_price (PosInf) (round_double (1 / 100)))))])"
  using handleTrade_acknowledged(2) [OF auth_inf parse_inf valid_inf resolve_inf ok0 ask_inf
      slippage_inf amount_inf wallet0 key0 place0]
  by (simp add: client0_def addr0 payload_inf_def resolved0_def)





lemma price_slip0: "order_price (Fin (1 / 2)) (Fin 0) = Fin (1 / 2)"
  by (simp add: order_price_def clamp01_def arith_facts
      del: js_add.simps(1) js_mul.simps(1) js_div.simps(1))





section \<open>Arithmetic of the order\<close>



lemma js_mul_one: "is_double a \<Longrightarrow> js_mul a (Fin 1) = a"
  by (cases a) (simp_all add: signed_inf_def)

lemma js_add_one_zero: "js_add (Fin 1) (Fin 0) = Fin 1"
  by (rule sum_1_0)


lemma ToNumber_slippage_number:
  assumes "s \<noteq> NaN"
  shows "ToNumber rt (if truthy (JNum s) then JNum s else JNum (Fin 0)) = Inr s"
  using assms by simp

section \<open>What a run shows of the order\<close>

lemma handleTrade_observations:
  assumes run: "handleTrade rt env ext request = (res, calls)
                \<or> handleTrade_browser rt env ext request = (res, calls)"
    and parsed: "JSON_parse rt (raw_body request) = Inr payload"
    and a: "ToNumber rt (field payload ''ask'') = Inr a"
    and s: "ToNumber rt (if truthy (slippage_of payload) then slippage_of payload
                         else JNum (Fin 0)) = Inr s"
    and u: "ToNumber rt (field payload ''amountUsd'') = Inr u"
  shows "(\<forall>c ord. Place c ord \<in> set calls \<longrightarrow>
            field ord ''price'' = JNum (order_price a s)
            \<and> field ord ''size'' = JNum (js_div u (order_price a s)))
       \<and> (\<forall>resp. res = Inr resp \<and> status resp = 200 \<longrightarrow>
            (\<exists>ack tok pfb. resp = json (success_body ack (js_div u (order_price a s))
                                         (order_price a s) tok pfb) 200))"
proof (intro conjI allI impI)
  fix c ord
  assume placed: "Place c ord \<in> set calls"
  from run have "\<exists>a s u tok.
      ToNumber rt (field payload ''ask'') = Inr a
      \<and> ToNumber rt (if truthy (slippage_of payload) then slippage_of payload
                       else JNum (Fin 0)) = Inr s
      \<and> ToNumber rt (field payload ''amountUsd'') = Inr u
      \<and> ord = order_record rt (field payload ''side'') tok (order_price a s)
                (js_div u (order_price a s))"
    using handleTrade_placed_order [OF _ parsed placed]
      handleTrade_browser_placed_order [OF _ parsed placed]
    by blast
  with a s u obtain tok where
    "ord = order_record rt (field payload ''side'') tok (order_price a s)
             (js_div u (order_price a s))"
    by auto
  then show "field ord ''price'' = JNum (order_price a s)"
    and "field ord ''size'' = JNum (js_div u (order_price a s))"
    by (simp_all add: order_record_def)
next
  fix resp
  assume r: "res = Inr resp \<and> status resp = 200"
  with run have "\<exists>a s u ack tok pfb.
      ToNumber rt (field payload ''ask'') = Inr a
      \<and> ToNumber rt (if truthy (slippage_of payload) then slippage_of payload
                       else JNum (Fin 0)) = Inr s
      \<and> ToNumber rt (field payload ''amountUsd'') = Inr u
      \<and> resp = json (success_body ack (js_div u (order_price a s)) (order_price a s) tok pfb)
                 200"
    using handleTrade_success [OF _ parsed, of env ext resp calls]
      handleTrade_browser_success [OF _ parsed, of env ext resp calls]
    by blast
  with a s u show "\<exists>ack tok pfb. resp = json (success_body ack (js_div u (order_price a s))
      (order_price a s) tok pfb) 200"
    by auto
qed



text \<open>
  C6, as amended. On a request whose payload carries numbers for \<^verbatim>\<open>ask\<close> and
  \<^verbatim>\<open>amountUsd\<close>: when the \<^verbatim>\<open>slippage\<close> field is absent, the price of every order
  placed and of every success response is \<open>clamp01 (ask * 1.01)\<close>, 1.01 being the double
  nearest to it; when the field is present and falsy (0, null, false, the empty string),
  the slippage is 0 and the price is \<open>clamp01 (ask * 1)\<close>, that is \<open>clamp01 ask\<close>, the ask
  being a double.
\<close>

theorem slippage_default_only_when_absent:
  assumes parsed: "JSON_parse rt (raw_body request) = Inr payload"
    and ask: "field payload ''ask'' = JNum a"
    and amount: "field payload ''amountUsd'' = JNum u"
    and run: "handleTrade rt env ext request = (res, calls)
              \<or> handleTrade_browser rt env ext request = (res, calls)"
  shows "(field payload ''slippage'' = JUndefined \<longrightarrow>
            (\<forall>c ord. Place c ord \<in> set calls \<longrightarrow>
               field ord ''price'' = JNum (clamp01 (js_mul a (round_double (101 / 100)))))
            \<and> (\<forall>resp. res = Inr resp \<and> status resp = 200 \<longrightarrow>
                 (\<exists>b. body resp = JsonBody b
                    \<and> field (field b ''fills'') ''avgPrice''
                        = JNum (clamp01 (js_mul a (round_double (101 / 100)))))))
       \<and> (field payload ''slippage'' \<noteq> JUndefined \<and> \<not> truthy (field payload ''slippage'') \<longrightarrow>
            (\<forall>c ord. Place c ord \<in> set calls \<longrightarrow>
               field ord ''price'' = JNum (clamp01 (js_mul a (Fin 1))))
            \<and> (\<forall>resp. res = Inr resp \<and> status resp = 200 \<longrightarrow>
                 (\<exists>b. body resp = JsonBody b
                    \<and> field (field b ''fills'') ''avgPrice''
                        = JNum (clamp01 (js_mul a (Fin 1))))))
       \<and> (is_double a \<longrightarrow> clamp01 (js_mul a (Fin 1)) = clamp01 a)"
proof (intro conjI impI)
  assume absent: "field payload ''slippage'' = JUndefined"
  then have sl: "slippage_of payload = JNum (round_double (1 / 100))"
    by (simp add: slippage_of_def)
  have s: "ToNumber rt (if truthy (slippage_of payload) then slippage_of payload
                        else JNum (Fin 0)) = Inr (round_double (1 / 100))"
    by (simp add: sl double_0_01)
  have p: "order_price a (round_double (1 / 100))
             = clamp01 (js_mul a (round_double (101 / 100)))"
    by (simp add: order_price_def double_0_01 double_1_01 sum_1_0_01 del: js_add.simps(1))
  note obs = handleTrade_observations [OF run parsed _ s, of a u, unfolded ask amount p]
  from obs show "\<forall>c ord. Place c ord \<in> set calls \<longrightarrow>
      field ord ''price'' = JNum (clamp01 (js_mul a (round_double (101 / 100))))"
    by simp
  from obs show "\<forall>resp. res = Inr resp \<and> status resp = 200 \<longrightarrow>
      (\<exists>b. body resp = JsonBody b
         \<and> field (field b ''fills'') ''avgPrice''
             = JNum (clamp01 (js_mul a (round_double (101 / 100)))))"
    by (auto simp: json_def success_body_def fills_record_def)
next
  assume falsy: "field payload ''slippage'' \<noteq> JUndefined \<and> \<not> truthy (field payload ''slippage'')"
  then have sl: "slippage_of payload = field payload ''slippage''"
    by (simp add: slippage_of_def)
  have s: "ToNumber rt (if truthy (slippage_of payload) then slippage_of payload
                        else JNum (Fin 0)) = Inr (Fin 0)"
    using falsy by (simp add: sl)
  have p: "order_price a (Fin 0) = clamp01 (js_mul a (Fin 1))"
    by (simp add: order_price_def sum_1_0 del: js_add.simps(1))
  note obs = handleTrade_observations [OF run parsed _ s, of a u, unfolded ask amount p]
  from obs show "\<forall>c ord. Place c ord \<in> set calls \<longrightarrow>
      field ord ''price'' = JNum (clamp01 (js_mul a (Fin 1)))"
    by simp
  from obs show "\<forall>resp. res = Inr resp \<and> status resp = 200 \<longrightarrow>
      (\<exists>b. body resp = JsonBody b
         \<and> field (field b ''fills'') ''avgPrice'' = JNum (clamp01 (js_mul a (Fin 1))))"
    by (auto simp: json_def success_body_def fills_record_def)
next
  assume "is_double a"
  then show "clamp01 (js_mul a (Fin 1)) = clamp01 a"
    by (simp add: js_mul_one)
qed

lemma double_0_5: "is_double (Fin (1 / 2))"
  by (simp add: round_eval)

theorem slippage_default_only_when_absent_witness:
  "JSON_parse rt0 (raw_body req_noslip) = Inr payload_noslip
   \<and> field payload_noslip ''ask'' = JNum (Fin (1 / 2))
   \<and> field payload_noslip ''amountUsd'' = JNum (Fin 100)
   \<and> field payload_noslip ''slippage'' = JUndefined
   \<and> handleTrade rt0 env0 ext0 req_noslip =
       (Inr (json (success_body ack0
                     (js_div (Fin 100) (order_price (Fin (1 / 2)) (round_double (1 / 100))))
                     (order_price (Fin (1 / 2)) (round_double (1 / 100)))
                     (JStr ''A'') (JNum (Fin (1 / 2)))) 200),
        [lookup0, CreateOrDeriveApiKey client0 ''0xabcdef'',
         Place client0
           (order_record rt0 (JStr ''YES'') (JStr ''A'')
              (order_price (Fin (1 / 2)) (round_double (1 / 100)))
              (js_div (Fin 100) (order_price (Fin (1 / 2)) (round_double (1 / 100)))))])
   \<and> handleTrade_browser rt0 env0 ext0 req_noslip = handleTrade rt0 env0 ext0 req_noslip
   \<and> field (order_record rt0 (JStr ''YES'') (JStr ''A'')
              (order_price (Fin (1 / 2)) (round_double (1 / 100)))
              (js_div (Fin 100) (order_price (Fin (1 / 2)) (round_double (1 / 100)))))
        ''price'' = JNum (clamp01 (js_mul (Fin (1 / 2)) (round_double (101 / 100))))
   \<and> clamp01 (js_mul (Fin (1 / 2)) (round_double (101 / 100))) = round_double (101 / 200)
   \<and> JSON_parse rt0 (raw_body req_slip0) = Inr payload_slip0
   \<and> field payload_slip0 ''ask'' = JNum (Fin (1 / 2))
   \<and> field payload_slip0 ''amountUsd'' = JNum (Fin 100)
   \<and> field payload_slip0 ''slippage'' = JNum (Fin 0)
   \<and> \<not> truthy (field payload_slip0 ''slippage'')
   \<and> handleTrade rt0 env0 ext0 req_slip0 =
       (Inr (json (success_body ack0
                     (js_div (Fin 100) (order_price (Fin (1 / 2)) (Fin 0)))
                     (order_price (Fin (1 / 2)) (Fin 0))
                     (JStr ''A'') (JNum (Fin (1 / 2)))) 200),
        [lookup0, CreateOrDeriveApiKey client0 ''0xabcdef'',
         Place client0
           (order_record rt0 (JStr ''YES'') (JStr ''A'')
              (order_price (Fin (1 / 2)) (Fin 0))
              (js_div (Fin 100) (order_price (Fin (1 / 2)) (Fin 0))))])
   \<and> handleTrade_browser rt0 env0 ext0 req_slip0 = handleTrade rt0 env0 ext0 req_slip0
   \<and> field (order_record rt0 (JStr ''YES'') (JStr ''A'')
              (order_price (Fin (1 / 2)) (Fin 0))
              (js_div (Fin 100) (order_price (Fin (1 / 2)) (Fin 0))))
        ''price'' = JNum (clamp01 (js_mul (Fin (1 / 2)) (Fin 1)))
   \<and> is_double (Fin (1 / 2))
   \<and> clamp01 (js_mul (Fin (1 / 2)) (Fin 1)) = clamp01 (Fin (1 / 2))
   \<and> clamp01 (Fin (1 / 2)) = Fin (1 / 2)"
proof -
  have n: "field payload_noslip ''ask'' = JNum (Fin (1 / 2))"
    "field payload_noslip ''amountUsd'' = JNum (Fin 100)"
    "field payload_noslip ''slippage'' = JUndefined"
    by (simp_all add: payload_noslip_def)
  have z: "field payload_slip0 ''ask'' = JNum (Fin (1 / 2))"
    "field payload_slip0 ''amountUsd'' = JNum (Fin 100)"
    "field payload_slip0 ''slippage'' = JNum (Fin 0)"
    "\<not> truthy (field payload_slip0 ''slippage'')"
    by (simp_all add: payload_slip0_def)
  have bn: "handleTrade_browser rt0 env0 ext0 req_noslip = handleTrade rt0 env0 ext0 req_noslip"
    by (simp add: run_noslip run_browser_noslip)
  have bz: "handleTrade_browser rt0 env0 ext0 req_slip0 = handleTrade rt0 env0 ext0 req_slip0"
    by (simp add: run_slip0 run_browser_slip0)
  from slippage_default_only_when_absent [OF parse_noslip n(1,2) disjI1 [OF run_noslip]] n(3)
  have n1: "field (order_record rt0 (JStr ''YES'') (JStr ''A'')
              (order_price (Fin (1 / 2)) (round_double (1 / 100)))
              (js_div (Fin 100) (order_price (Fin (1 / 2)) (round_double (1 / 100)))))
        ''price'' = JNum (clamp01 (js_mul (Fin (1 / 2)) (round_double (101 / 100))))"
    by simp
  from slippage_default_only_when_absent [OF parse_noslip n(1,2) disjI2 [OF run_browser_noslip]]
    n(3)
  have n2: "field (order_record rt0 (JStr ''YES'') (JStr ''A'')
              (order_price (Fin (1 / 2)) (round_double (1 / 100)))
              (js_div (Fin 100) (order_price (Fin (1 / 2)) (round_double (1 / 100)))))
        ''price'' = JNum (clamp01 (js_mul (Fin (1 / 2)) (round_double (101 / 100))))"
    by simp
  from slippage_default_only_when_absent [OF parse_slip0 z(1,2) disjI1 [OF run_slip0]] z(3,4)
  have z1: "field (order_record rt0 (JStr ''YES'') (JStr ''A'')
              (order_price (Fin (1 / 2)) (Fin 0))
              (js_div (Fin 100) (order_price (Fin (1 / 2)) (Fin 0))))
        ''price'' = JNum (clamp01 (js_mul (Fin (1 / 2)) (Fin 1)))"
    by simp
  from slippage_default_only_when_absent [OF parse_slip0 z(1,2) disjI2 [OF run_browser_slip0]]
    double_0_5
  have z2: "clamp01 (js_mul (Fin (1 / 2)) (Fin 1)) = clamp01 (Fin (1 / 2))"
    by blast
  have v: "clamp01 (js_mul (Fin (1 / 2)) (round_double (101 / 100))) = round_double (101 / 200)"
    by (simp add: clamp01_def double_1_01 double_0_505 product_noslip del: js_mul.simps(1))
  have c: "clamp01 (Fin (1 / 2)) = Fin (1 / 2)"
    by (simp add: clamp01_def)
  show ?thesis
    by (intro conjI parse_noslip parse_slip0 n z run_noslip run_slip0 bn bz n1 z1 z2 v c
        double_0_5)
qed

text \<open>The claim as stated fails on a slippage of 0: the order is priced at the ask, 0.5,
  and not at 0.505.\<close>

theorem slippage_zero_counterexample:
  "JSON_parse rt0 (raw_body req_slip0) = Inr payload_slip0
   \<and> \<not> truthy (field payload_slip0 ''slippage'')
   \<and> handleTrade rt0 env0 ext0 req_slip0 =
       (Inr (json (success_body ack0 (Fin 200) (Fin (1 / 2)) (JStr ''A'')
                     (JNum (Fin (1 / 2)))) 200),
        [lookup0, CreateOrDeriveApiKey client0 ''0xabcdef'',
         Place client0 (order_record rt0 (JStr ''YES'') (JStr ''A'') (Fin (1 / 2)) (Fin 200))])
   \<and> handleTrade_browser rt0 env0 ext0 req_slip0 =
       (Inr (json (success_body ack0 (Fin 200) (Fin (1 / 2)) (JStr ''A'')
                     (JNum (Fin (1 / 2)))) 200),
        [lookup0, CreateOrDeriveApiKey client0 ''0xabcdef'',
         Place client0 (order_record rt0 (JStr ''YES'') (JStr ''A'') (Fin (1 / 2)) (Fin 200))])
   \<and> field (order_record rt0 (JStr ''YES'') (JStr ''A'') (Fin (1 / 2)) (Fin 200)) ''price''
       = JNum (Fin (1 / 2))
   \<and> clamp01 (js_mul (Fin (1 / 2)) (round_double (101 / 100))) = round_double (101 / 200)
   \<and> Fin (1 / 2) \<noteq> round_double (101 / 200)"
proof -
  have v: "clamp01 (js_mul (Fin (1 / 2)) (round_double (101 / 100))) = round_double (101 / 200)"
    by (simp add: clamp01_def double_1_01 double_0_505 product_noslip del: js_mul.simps(1))
  have r: "handleTrade rt0 env0 ext0 req_slip0 =
       (Inr (json (success_body ack0 (Fin 200) (Fin (1 / 2)) (JStr ''A'')
                     (JNum (Fin (1 / 2)))) 200),
        [lookup0, CreateOrDeriveApiKey client0 ''0xabcdef'',
         Place client0 (order_record rt0 (JStr ''YES'') (JStr ''A'') (Fin (1 / 2)) (Fin 200))])"
    by (simp add: run_slip0 price_slip0 quotient_slip0 del: js_div.simps(1))
  have b: "handleTrade_browser rt0 env0 ext0 req_slip0 =
       (Inr (json (success_body ack0 (Fin 200) (Fin (1 / 2)) (JStr ''A'')
                     (JNum (Fin (1 / 2)))) 200),
        [lookup0, CreateOrDeriveApiKey client0 ''0xabcdef'',
         Place client0 (order_record rt0 (JStr ''YES'') (JStr ''A'') (Fin (1 / 2)) (Fin 200))])"
    by (simp add: run_browser_slip0 price_slip0 quotient_slip0 del: js_div.simps(1))
  have z: "\<not> truthy (field payload_slip0 ''slippage'')"
    by (simp add: payload_slip0_def)
  have f: "field (order_record rt0 (JStr ''YES'') (JStr ''A'') (Fin (1 / 2)) (Fin 200)) ''price''
       = JNum (Fin (1 / 2))"
    by (simp add: order_record_def)
  have d: "Fin (1 / 2) \<noteq> round_double (101 / 200)"
    by (simp add: double_0_505)
  show ?thesis
    by (intro conjI parse_slip0 z r b f v d)
qed






section \<open>Runs of the exported handlers\<close>

lemma fetch_maybe:
  "worker_fetch rt0 env0 ext0 req_maybe =
     (json (error_body ''Missing side/amountUsd/ask'') 400, [])"
  by (simp add: example_defs model_defs char_of_a_to_f arith_facts
      del: js_add.simps(1) js_mul.simps(1) js_div.simps(1))

lemma fetch_amount0:
  "worker_fetch rt0 env0 ext0 req_amount0 =
     (json (error_body ''Missing side/amountUsd/ask'') 400, [])"
  by (simp add: example_defs model_defs char_of_a_to_f arith_facts
      del: js_add.simps(1) js_mul.simps(1) js_div.simps(1))

lemma fetch_side:
  "worker_fetch rt0 env0 ext0 req_side =
     (json (error_body ''side must be YES or NO'') 400, [])"
  by (simp add: example_defs model_defs char_of_a_to_f arith_facts
      del: js_add.simps(1) js_mul.simps(1) js_div.simps(1))


lemma fetch_forged:
  "worker_fetch rt0 env0 ext0 req_forged =
     (json (error_body ''Signature mismatch'') 401, [])"
  by (simp add: example_defs model_defs char_of_a_to_f arith_facts
      del: js_add.simps(1) js_mul.simps(1) js_div.simps(1))

lemma fetch_unsigned:
  "worker_fetch rt0 env0 ext0 req_unsigned =
     (json (error_body ''Missing/invalid signature'') 401, [])"
  by (simp add: example_defs model_defs char_of_a_to_f arith_facts
      del: js_add.simps(1) js_mul.simps(1) js_div.simps(1))

lemma fetch_untagged:
  "worker_fetch rt0 env0 ext0 req_untagged =
     (json (error_body ''Missing/invalid signature'') 401, [])"
  by (simp add: example_defs model_defs char_of_a_to_f arith_facts
      del: js_add.simps(1) js_mul.simps(1) js_div.simps(1))

lemma fetch_key_throws:
  "worker_fetch rt0 env0 ext_key_throws req_trade =
     (json (error_body ''key service down'') 500,
      [lookup0, CreateOrDeriveApiKey client0 ''0xabcdef''])"
  by (simp add: example_defs model_defs char_of_a_to_f arith_facts
      del: js_add.simps(1) js_mul.simps(1) js_div.simps(1))

lemma fetch_place_throws:
  "worker_fetch rt0 env0 ext_place_throws req_trade =
     (json (error_body ''place() failed: order rejected'') 502,
      [lookup0, CreateOrDeriveApiKey client0 ''0xabcdef'',
       Place client0 (order_record rt0 (JStr ''YES'') (JStr ''A'')
                        (order_price (Fin (1 / 2)) (round_double (1 / 50)))
                        (js_div (Fin 100) (order_price (Fin (1 / 2)) (round_double (1 / 50)))))])"
  by (simp add: example_defs model_defs char_of_a_to_f arith_facts
      del: js_add.simps(1) js_mul.simps(1) js_div.simps(1))

lemma fetch_bigint:
  "worker_fetch rt0 env0 ext_bigint req_trade =
     (json (error_body ''place() failed: Do not know how to serialize a BigInt'') 502,
      [lookup0, CreateOrDeriveApiKey client0 ''0xabcdef'',
       Place client0 (order_record rt0 (JStr ''YES'') (JStr ''A'')
                        (order_price (Fin (1 / 2)) (round_double (1 / 50)))
                        (js_div (Fin 100) (order_price (Fin (1 / 2)) (round_double (1 / 50)))))])"
  by (simp add: example_defs model_defs char_of_a_to_f arith_facts
      del: js_add.simps(1) js_mul.simps(1) js_div.simps(1))

lemma fetch_trade:
  "worker_fetch rt0 env0 ext0 req_trade =
     (json (success_body ack0 (js_div (Fin 100) (order_price (Fin (1 / 2)) (round_double (1 / 50))))
              (order_price (Fin (1 / 2)) (round_double (1 / 50))) (JStr ''A'') (JNum (Fin (1 / 2)))) 200,
      [lookup0, CreateOrDeriveApiKey client0 ''0xabcdef'',
       Place client0 (order_record rt0 (JStr ''YES'') (JStr ''A'')
                        (order_price (Fin (1 / 2)) (round_double (1 / 50)))
                        (js_div (Fin 100) (order_price (Fin (1 / 2)) (round_double (1 / 50)))))])"
  by (simp add: example_defs model_defs char_of_a_to_f arith_facts
      del: js_add.simps(1) js_mul.simps(1) js_div.simps(1))

lemma fetch_browser_maybe:
  "worker_fetch_browser rt0 env0 ext0 req_maybe =
     (json (error_body ''Missing side/amountUsd/ask'') 400, [])"
  by (simp add: example_defs model_defs char_of_a_to_f arith_facts
      del: js_add.simps(1) js_mul.simps(1) js_div.simps(1))

lemma fetch_browser_amount0:
  "worker_fetch_browser rt0 env0 ext0 req_amount0 =
     (json (error_body ''Missing side/amountUsd/ask'') 400, [])"
  by (simp add: example_defs model_defs char_of_a_to_f arith_facts
      del: js_add.simps(1) js_mul.simps(1) js_div.simps(1))

lemma fetch_browser_side:
  "worker_fetch_browser rt0 env0 ext0 req_side =
     (json (error_body ''side must be YES or NO'') 400, [])"
  by (simp add: example_defs model_defs char_of_a_to_f arith_facts
      del: js_add.simps(1) js_mul.simps(1) js_div.simps(1))


lemma fetch_browser_forged:
  "worker_fetch_browser rt0 env0 ext0 req_forged =
     (json (error_body ''Signature mismatch'') 401, [])"
  by (simp add: example_defs model_defs char_of_a_to_f arith_facts
      del: js_add.simps(1) js_mul.simps(1) js_div.simps(1))

lemma fetch_browser_unsigned:
  "worker_fetch_browser rt0 env0 ext0 req_unsigned =
     (json (error_body ''Missing/invalid signature'') 401, [])"
  by (simp add: example_defs model_defs char_of_a_to_f arith_facts
      del: js_add.simps(1) js_mul.simps(1) js_div.simps(1))

lemma fetch_browser_untagged:
  "worker_fetch_browser rt0 env0 ext0 req_untagged =
     (json (error_body ''Missing/invalid signature'') 401, [])"
  by (simp add: example_defs model_defs char_of_a_to_f arith_facts
      del: js_add.simps(1) js_mul.simps(1) js_div.simps(1))

lemma fetch_browser_key_throws:
  "worker_fetch_browser rt0 env0 ext_key_throws req_trade =
     (json (error_body ''key service down'') 500,
      [lookup0, CreateOrDeriveApiKey client0 ''0xabcdef''])"
  by (simp add: example_defs model_defs char_of_a_to_f arith_facts
      del: js_add.simps(1) js_mul.simps(1) js_div.simps(1))

lemma fetch_browser_place_throws:
  "worker_fetch_browser rt0 env0 ext_place_throws req_trade =
     (json (error_body ''place() failed: order rejected'') 502,
      [lookup0, CreateOrDeriveApiKey client0 ''0xabcdef'',
       Place client0 (order_record rt0 (JStr ''YES'') (JStr ''A'')
                        (order_price (Fin (1 / 2)) (round_double (1 / 50)))
                        (js_div (Fin 100) (order_price (Fin (1 / 2)) (round_double (1 / 50)))))])"
  by (simp add: example_defs model_defs char_of_a_to_f arith_facts
      del: js_add.simps(1) js_mul.simps(1) js_div.simps(1))

lemma fetch_browser_bigint:
  "worker_fetch_browser rt0 env0 ext_bigint req_trade =
     (json (error_body ''Do not know how to serialize a BigInt'') 500,
      [lookup0, CreateOrDeriveApiKey client0 ''0xabcdef'',
       Place client0 (order_record rt0 (JStr ''YES'') (JStr ''A'')
                        (order_price (Fin (1 / 2)) (round_double (1 / 50)))
                        (js_div (Fin 100) (order_price (Fin (1 / 2)) (round_double (1 / 50)))))])"
  by (simp add: example_defs model_defs char_of_a_to_f arith_facts
      del: js_add.simps(1) js_mul.simps(1) js_div.simps(1))

lemma fetch_browser_trade:
  "worker_fetch_browser rt0 env0 ext0 req_trade =
     (json (success_body ack0 (js_div (Fin 100) (order_price (Fin (1 / 2)) (round_double (1 / 50))))
              (order_price (Fin (1 / 2)) (round_double (1 / 50))) (JStr ''A'') (JNum (Fin (1 / 2)))) 200,
      [lookup0, CreateOrDeriveApiKey client0 ''0xabcdef'',
       Place client0 (order_record rt0 (JStr ''YES'') (JStr ''A'')
                        (order_price (Fin (1 / 2)) (round_double (1 / 50)))
                        (js_div (Fin 100) (order_price (Fin (1 / 2)) (round_double (1 / 50)))))])"
  by (simp add: example_defs model_defs char_of_a_to_f arith_facts
      del: js_add.simps(1) js_mul.simps(1) js_div.simps(1))

text \<open>
  C4. A \<^verbatim>\<open>POST /trade\<close> request whose \<^verbatim>\<open>X-HUD-Signature\<close> header is missing, does not
  start with \<^verbatim>\<open>sha256=\<close>, or carries a signature whose lowercase form is not the HMAC
  of the raw body under the configured secret (or there is no secret), is answered 401 by
  both workers, and no collaborator is called: no metadata lookup, no credential step, no
  order placement.
\<close>

theorem invalid_signature_rejected_without_calls:
  assumes path: "url_pathname request = ''/trade''" and meth: "http_method request = ''POST''"
    and bad: "hud_signature request = None
      \<or> (\<exists>h. hud_signature request = Some h \<and> \<not> startsWith h ''sha256='')
      \<or> (\<exists>h. hud_signature request = Some h
             \<and> (case HUD_SHARED_SECRET env of
                   None \<Rightarrow> True
                 | Some S \<Rightarrow> S = [] \<or> toLowerCase (slice h 7) \<noteq> hmac_hex rt S (raw_body request)))"
  shows "status (fst (worker_fetch rt env ext request)) = 401
       \<and> snd (worker_fetch rt env ext request) = []
       \<and> status (fst (worker_fetch_browser rt env ext request)) = 401
       \<and> snd (worker_fetch_browser rt env ext request) = []"
proof -
  from bad have unauth: "\<not> authenticated rt env request"
    by (auto simp: authenticated_def verifyHmac_eq split: option.splits)
  from handleTrade_unauthenticated [OF unauth, of ext]
  have "status (fst (worker_fetch rt env ext request)) = 401
        \<and> snd (worker_fetch rt env ext request) = []"
    by (auto simp: worker_fetch_trade [OF path meth] json_def)
  moreover from handleTrade_browser_unauthenticated [OF unauth, of ext]
  have "status (fst (worker_fetch_browser rt env ext request)) = 401
        \<and> snd (worker_fetch_browser rt env ext request) = []"
    by (auto simp: worker_fetch_browser_trade [OF path meth] json_def)
  ultimately show ?thesis
    by simp
qed

text \<open>The theorem on three requests, through both workers: one without the header, one
  whose header lacks the scheme tag, and one whose signature is the digest of another
  body.\<close>

theorem invalid_signature_rejected_without_calls_witness:
  "url_pathname req_unsigned = ''/trade'' \<and> http_method req_unsigned = ''POST''
   \<and> hud_signature req_unsigned = None
   \<and> worker_fetch rt0 env0 ext0 req_unsigned
       = (json (error_body ''Missing/invalid signature'') 401, [])
   \<and> worker_fetch_browser rt0 env0 ext0 req_unsigned
       = (json (error_body ''Missing/invalid signature'') 401, [])
   \<and> status (fst (worker_fetch rt0 env0 ext0 req_unsigned)) = 401
   \<and> snd (worker_fetch rt0 env0 ext0 req_unsigned) = []
   \<and> status (fst (worker_fetch_browser rt0 env0 ext0 req_unsigned)) = 401
   \<and> snd (worker_fetch_browser rt0 env0 ext0 req_unsigned) = []
   \<and> url_pathname req_untagged = ''/trade'' \<and> http_method req_untagged = ''POST''
   \<and> hud_signature req_untagged
       = Some ''2b94b32e15228330186cd9737711381a41b2c2122a7f25dff382bdb4d10b943a''
   \<and> \<not> startsWith ''2b94b32e15228330186cd9737711381a41b2c2122a7f25dff382bdb4d10b943a''
           ''sha256=''
   \<and> status (fst (worker_fetch rt0 env0 ext0 req_untagged)) = 401
   \<and> snd (worker_fetch rt0 env0 ext0 req_untagged) = []
   \<and> status (fst (worker_fetch_browser rt0 env0 ext0 req_untagged)) = 401
   \<and> snd (worker_fetch_browser rt0 env0 ext0 req_untagged) = []
   \<and> url_pathname req_forged = ''/trade'' \<and> http_method req_forged = ''POST''
   \<and> hud_signature req_forged
       = Some ''sha256=2b94b32e15228330186cd9737711381a41b2c2122a7f25dff382bdb4d10b943a''
   \<and> HUD_SHARED_SECRET env0 = Some secret0
   \<and> toLowerCase (slice ''sha256=2b94b32e15228330186cd9737711381a41b2c2122a7f25dff382bdb4d10b943a'' 7)
       \<noteq> hmac_hex rt0 secret0 (raw_body req_forged)
   \<and> worker_fetch rt0 env0 ext0 req_forged = (json (error_body ''Signature mismatch'') 401, [])
   \<and> worker_fetch_browser rt0 env0 ext0 req_forged
       = (json (error_body ''Signature mismatch'') 401, [])
   \<and> status (fst (worker_fetch rt0 env0 ext0 req_forged)) = 401
   \<and> snd (worker_fetch rt0 env0 ext0 req_forged) = []
   \<and> status (fst (worker_fetch_browser rt0 env0 ext0 req_forged)) = 401
   \<and> snd (worker_fetch_browser rt0 env0 ext0 req_forged) = []"
proof -
  have u: "url_pathname req_unsigned = ''/trade''" "http_method req_unsigned = ''POST''"
    "hud_signature req_unsigned = None"
    by (simp_all add: req_unsigned_def req_trade_def)
  have t: "url_pathname req_untagged = ''/trade''" "http_method req_untagged = ''POST''"
    "hud_signature req_untagged
       = Some ''2b94b32e15228330186cd9737711381a41b2c2122a7f25dff382bdb4d10b943a''"
    "\<not> startsWith ''2b94b32e15228330186cd9737711381a41b2c2122a7f25dff382bdb4d10b943a''
           ''sha256=''"
    by (simp_all add: req_untagged_def req_trade_def startsWith_def)
  have p: "url_pathname req_forged = ''/trade''" and m: "http_method req_forged = ''POST''"
    and h: "hud_signature req_forged
       = Some ''sha256=2b94b32e15228330186cd9737711381a41b2c2122a7f25dff382bdb4d10b943a''"
    and s: "HUD_SHARED_SECRET env0 = Some secret0"
    by (simp_all add: req_forged_def req_trade_def env0_def)
  have d: "toLowerCase (slice ''sha256=2b94b32e15228330186cd9737711381a41b2c2122a7f25dff382bdb4d10b943a'' 7)
       \<noteq> hmac_hex rt0 secret0 (raw_body req_forged)"
    by (simp add: example_defs slice_def toLowerCase_def toLowerCase_char_def hmac_hex_def
        hex_byte_def hex_digit_def)
  have badu: "hud_signature req_unsigned = None
      \<or> (\<exists>h. hud_signature req_unsigned = Some h \<and> \<not> startsWith h ''sha256='')
      \<or> (\<exists>h. hud_signature req_unsigned = Some h
             \<and> (case HUD_SHARED_SECRET env0 of
                   None \<Rightarrow> True
                 | Some S \<Rightarrow> S = [] \<or> toLowerCase (slice h 7) \<noteq> hmac_hex rt0 S (raw_body req_unsigned)))"
    using u(3) by simp
  have badt: "hud_signature req_untagged = None
      \<or> (\<exists>h. hud_signature req_untagged = Some h \<and> \<not> startsWith h ''sha256='')
      \<or> (\<exists>h. hud_signature req_untagged = Some h
             \<and> (case HUD_SHARED_SECRET env0 of
                   None \<Rightarrow> True
                 | Some S \<Rightarrow> S = [] \<or> toLowerCase (slice h 7) \<noteq> hmac_hex rt0 S (raw_body req_untagged)))"
    using t(3,4) by simp
  have bad: "hud_signature req_forged = None
      \<or> (\<exists>h. hud_signature req_forged = Some h \<and> \<not> startsWith h ''sha256='')
      \<or> (\<exists>h. hud_signature req_forged = Some h
             \<and> (case HUD_SHARED_SECRET env0 of
                   None \<Rightarrow> True
                 | Some S \<Rightarrow> S = [] \<or> toLowerCase (slice h 7) \<noteq> hmac_hex rt0 S (raw_body req_forged)))"
    using h s d by simp
  note U = invalid_signature_rejected_without_calls [OF u(1,2) badu, of ext0]
  note T = invalid_signature_rejected_without_calls [OF t(1,2) badt, of ext0]
  note F = invalid_signature_rejected_without_calls [OF p m bad, of ext0]
  show ?thesis
    by (intro conjI u t p m h s d fetch_unsigned fetch_browser_unsigned fetch_forged
        fetch_browser_forged U [THEN conjunct1] U [THEN conjunct2, THEN conjunct1]
        U [THEN conjunct2, THEN conjunct2, THEN conjunct1]
        U [THEN conjunct2, THEN conjunct2, THEN conjunct2]
        T [THEN conjunct1] T [THEN conjunct2, THEN conjunct1]
        T [THEN conjunct2, THEN conjunct2, THEN conjunct1]
        T [THEN conjunct2, THEN conjunct2, THEN conjunct2]
        F [THEN conjunct1] F [THEN conjunct2, THEN conjunct1]
        F [THEN conjunct2, THEN conjunct2, THEN conjunct1]
        F [THEN conjunct2, THEN conjunct2, THEN conjunct2])
qed




text \<open>The order of the two checks also shows: with a \<^verbatim>\<open>side\<close> that is a truthy string
  other than YES and NO and no \<^verbatim>\<open>amountUsd\<close>, the answer is the missing-field error.\<close>

lemma side_error_after_missing_fields:
  "authenticated rt0 env0 req_maybe
   \<and> JSON_parse rt0 (raw_body req_maybe) = Inr payload_maybe
   \<and> truthy (field payload_maybe ''side'')
   \<and> field payload_maybe ''side'' \<notin> set [JStr ''YES'', JStr ''NO'']
   \<and> worker_fetch rt0 env0 ext0 req_maybe
       = (json (error_body ''Missing side/amountUsd/ask'') 400, [])
   \<and> worker_fetch_browser rt0 env0 ext0 req_maybe
       = (json (error_body ''Missing side/amountUsd/ask'') 400, [])"
  by (simp add: auth_maybe parse_maybe fetch_maybe fetch_browser_maybe payload_maybe_def)

end
